theory Spec2Isabelle
  imports Complex_Main "HOL-Library.Word"
begin

unbundle bit_operations_syntax

section \<open>The shared header \<^verbatim>\<open>uiohook.h\<close>\<close>

text \<open>
  The library has one public header and three platform back ends (Windows, macOS, X11) that
  are selected at compile time.  Each back end defines functions of the same name
  (\<^verbatim>\<open>keycode_to_vcode\<close>, \<^verbatim>\<open>hook_post_event\<close>, ...); the functions of a back end carry its
  name as a prefix here, since all three live in one theory.

  Fixed-width C integers are words: \<^verbatim>\<open>uint16_t\<close> is \<^typ>\<open>16 word\<close>, \<^verbatim>\<open>DWORD\<close> and
  \<^verbatim>\<open>uint32_t\<close> are \<^typ>\<open>32 word\<close>, \<^verbatim>\<open>UInt64\<close> is \<^typ>\<open>64 word\<close>.
\<close>

subsection \<open>Status codes\<close>

abbreviation UIOHOOK_SUCCESS :: int where "UIOHOOK_SUCCESS \<equiv> 0x00"
abbreviation UIOHOOK_FAILURE :: int where "UIOHOOK_FAILURE \<equiv> 0x01"
abbreviation UIOHOOK_ERROR_OUT_OF_MEMORY :: int where "UIOHOOK_ERROR_OUT_OF_MEMORY \<equiv> 0x02"
abbreviation UIOHOOK_ERROR_POST_TEXT_NULL :: int where "UIOHOOK_ERROR_POST_TEXT_NULL \<equiv> 0x03"
abbreviation UIOHOOK_ERROR_X_OPEN_DISPLAY :: int where "UIOHOOK_ERROR_X_OPEN_DISPLAY \<equiv> 0x20"

subsection \<open>Events\<close>

datatype event_type =
    EVENT_HOOK_ENABLED
  | EVENT_HOOK_DISABLED
  | EVENT_KEY_TYPED
  | EVENT_KEY_PRESSED
  | EVENT_KEY_RELEASED
  | EVENT_MOUSE_CLICKED
  | EVENT_MOUSE_PRESSED
  | EVENT_MOUSE_RELEASED
  | EVENT_MOUSE_MOVED
  | EVENT_MOUSE_DRAGGED
  | EVENT_MOUSE_WHEEL
  | EVENT_MOUSE_PRESSED_IGNORE_COORDS
  | EVENT_MOUSE_RELEASED_IGNORE_COORDS
  | EVENT_MOUSE_MOVED_RELATIVE_TO_CURSOR

record keyboard_event_data =
  kb_keycode :: "16 word"
  kb_rawcode :: "16 word"
  kb_keychar :: "32 word"

record mouse_event_data =
  m_button :: "16 word"
  m_clicks :: "16 word"
  m_x :: "16 word"
  m_y :: "16 word"

record mouse_wheel_event_data =
  w_x :: "16 word"
  w_y :: "16 word"
  w_type :: "8 word"
  w_rotation :: "16 word"
  w_delta :: "16 word"
  w_direction :: "8 word"

text \<open>
  \<^verbatim>\<open>uiohook_event\<close> holds its payload in a C union.  The three members are separate fields
  here; every function below reads only the member that the event type it handles selects.
  The signed fields (\<^verbatim>\<open>int16_t x, y, rotation\<close>) are words that are read with \<^const>\<open>sint\<close>.
  Field names carry a short prefix (\<open>ev_\<close>, \<open>kb_\<close>, \<open>m_\<close>, \<open>w_\<close>, \<open>data_\<close>), since a record
  field is a constant of the theory and \<^verbatim>\<open>x\<close>, \<^verbatim>\<open>type\<close> or \<^verbatim>\<open>mask\<close> are needed as variables.
\<close>

record uiohook_event =
  ev_type :: event_type
  ev_time :: "64 word"
  ev_mask :: "16 word"
  ev_reserved :: "16 word"
  data_keyboard :: keyboard_event_data
  data_mouse :: mouse_event_data
  data_wheel :: mouse_wheel_event_data

subsection \<open>Virtual key codes\<close>

abbreviation VC_ESCAPE :: "16 word" where "VC_ESCAPE \<equiv> 0x001B"
abbreviation VC_F1 :: "16 word" where "VC_F1 \<equiv> 0x0070"
abbreviation VC_F2 :: "16 word" where "VC_F2 \<equiv> 0x0071"
abbreviation VC_F3 :: "16 word" where "VC_F3 \<equiv> 0x0072"
abbreviation VC_F4 :: "16 word" where "VC_F4 \<equiv> 0x0073"
abbreviation VC_F5 :: "16 word" where "VC_F5 \<equiv> 0x0074"
abbreviation VC_F6 :: "16 word" where "VC_F6 \<equiv> 0x0075"
abbreviation VC_F7 :: "16 word" where "VC_F7 \<equiv> 0x0076"
abbreviation VC_F8 :: "16 word" where "VC_F8 \<equiv> 0x0077"
abbreviation VC_F9 :: "16 word" where "VC_F9 \<equiv> 0x0078"
abbreviation VC_F10 :: "16 word" where "VC_F10 \<equiv> 0x0079"
abbreviation VC_F11 :: "16 word" where "VC_F11 \<equiv> 0x007A"
abbreviation VC_F12 :: "16 word" where "VC_F12 \<equiv> 0x007B"
abbreviation VC_F13 :: "16 word" where "VC_F13 \<equiv> 0xF000"
abbreviation VC_F14 :: "16 word" where "VC_F14 \<equiv> 0xF001"
abbreviation VC_F15 :: "16 word" where "VC_F15 \<equiv> 0xF002"
abbreviation VC_F16 :: "16 word" where "VC_F16 \<equiv> 0xF003"
abbreviation VC_F17 :: "16 word" where "VC_F17 \<equiv> 0xF004"
abbreviation VC_F18 :: "16 word" where "VC_F18 \<equiv> 0xF005"
abbreviation VC_F19 :: "16 word" where "VC_F19 \<equiv> 0xF006"
abbreviation VC_F20 :: "16 word" where "VC_F20 \<equiv> 0xF007"
abbreviation VC_F21 :: "16 word" where "VC_F21 \<equiv> 0xF008"
abbreviation VC_F22 :: "16 word" where "VC_F22 \<equiv> 0xF009"
abbreviation VC_F23 :: "16 word" where "VC_F23 \<equiv> 0xF00A"
abbreviation VC_F24 :: "16 word" where "VC_F24 \<equiv> 0xF00B"
abbreviation VC_BACK_QUOTE :: "16 word" where "VC_BACK_QUOTE \<equiv> 0x00C0"
abbreviation VC_0 :: "16 word" where "VC_0 \<equiv> 0x0030"
abbreviation VC_1 :: "16 word" where "VC_1 \<equiv> 0x0031"
abbreviation VC_2 :: "16 word" where "VC_2 \<equiv> 0x0032"
abbreviation VC_3 :: "16 word" where "VC_3 \<equiv> 0x0033"
abbreviation VC_4 :: "16 word" where "VC_4 \<equiv> 0x0034"
abbreviation VC_5 :: "16 word" where "VC_5 \<equiv> 0x0035"
abbreviation VC_6 :: "16 word" where "VC_6 \<equiv> 0x0036"
abbreviation VC_7 :: "16 word" where "VC_7 \<equiv> 0x0037"
abbreviation VC_8 :: "16 word" where "VC_8 \<equiv> 0x0038"
abbreviation VC_9 :: "16 word" where "VC_9 \<equiv> 0x0039"
abbreviation VC_MINUS :: "16 word" where "VC_MINUS \<equiv> 0x002D"
abbreviation VC_EQUALS :: "16 word" where "VC_EQUALS \<equiv> 0x003D"
abbreviation VC_BACKSPACE :: "16 word" where "VC_BACKSPACE \<equiv> 0x0008"
abbreviation VC_TAB :: "16 word" where "VC_TAB \<equiv> 0x0009"
abbreviation VC_CAPS_LOCK :: "16 word" where "VC_CAPS_LOCK \<equiv> 0x0014"
abbreviation VC_A :: "16 word" where "VC_A \<equiv> 0x0041"
abbreviation VC_B :: "16 word" where "VC_B \<equiv> 0x0042"
abbreviation VC_C :: "16 word" where "VC_C \<equiv> 0x0043"
abbreviation VC_D :: "16 word" where "VC_D \<equiv> 0x0044"
abbreviation VC_E :: "16 word" where "VC_E \<equiv> 0x0045"
abbreviation VC_F :: "16 word" where "VC_F \<equiv> 0x0046"
abbreviation VC_G :: "16 word" where "VC_G \<equiv> 0x0047"
abbreviation VC_H :: "16 word" where "VC_H \<equiv> 0x0048"
abbreviation VC_I :: "16 word" where "VC_I \<equiv> 0x0049"
abbreviation VC_J :: "16 word" where "VC_J \<equiv> 0x004A"
abbreviation VC_K :: "16 word" where "VC_K \<equiv> 0x004B"
abbreviation VC_L :: "16 word" where "VC_L \<equiv> 0x004C"
abbreviation VC_M :: "16 word" where "VC_M \<equiv> 0x004D"
abbreviation VC_N :: "16 word" where "VC_N \<equiv> 0x004E"
abbreviation VC_O :: "16 word" where "VC_O \<equiv> 0x004F"
abbreviation VC_P :: "16 word" where "VC_P \<equiv> 0x0050"
abbreviation VC_Q :: "16 word" where "VC_Q \<equiv> 0x0051"
abbreviation VC_R :: "16 word" where "VC_R \<equiv> 0x0052"
abbreviation VC_S :: "16 word" where "VC_S \<equiv> 0x0053"
abbreviation VC_T :: "16 word" where "VC_T \<equiv> 0x0054"
abbreviation VC_U :: "16 word" where "VC_U \<equiv> 0x0055"
abbreviation VC_V :: "16 word" where "VC_V \<equiv> 0x0056"
abbreviation VC_W :: "16 word" where "VC_W \<equiv> 0x0057"
abbreviation VC_X :: "16 word" where "VC_X \<equiv> 0x0058"
abbreviation VC_Y :: "16 word" where "VC_Y \<equiv> 0x0059"
abbreviation VC_Z :: "16 word" where "VC_Z \<equiv> 0x005A"
abbreviation VC_OPEN_BRACKET :: "16 word" where "VC_OPEN_BRACKET \<equiv> 0x005B"
abbreviation VC_CLOSE_BRACKET :: "16 word" where "VC_CLOSE_BRACKET \<equiv> 0x005C"
abbreviation VC_BACK_SLASH :: "16 word" where "VC_BACK_SLASH \<equiv> 0x005D"
abbreviation VC_SEMICOLON :: "16 word" where "VC_SEMICOLON \<equiv> 0x003B"
abbreviation VC_QUOTE :: "16 word" where "VC_QUOTE \<equiv> 0x00DE"
abbreviation VC_ENTER :: "16 word" where "VC_ENTER \<equiv> 0x000A"
abbreviation VC_COMMA :: "16 word" where "VC_COMMA \<equiv> 0x002C"
abbreviation VC_PERIOD :: "16 word" where "VC_PERIOD \<equiv> 0x002E"
abbreviation VC_SLASH :: "16 word" where "VC_SLASH \<equiv> 0x002F"
abbreviation VC_SPACE :: "16 word" where "VC_SPACE \<equiv> 0x0020"
abbreviation VC_102 :: "16 word" where "VC_102 \<equiv> 0x0099"
abbreviation VC_MISC :: "16 word" where "VC_MISC \<equiv> 0x0E01"
abbreviation VC_PRINT_SCREEN :: "16 word" where "VC_PRINT_SCREEN \<equiv> 0x009A"
abbreviation VC_PRINT :: "16 word" where "VC_PRINT \<equiv> 0x009C"
abbreviation VC_SELECT :: "16 word" where "VC_SELECT \<equiv> 0x009D"
abbreviation VC_EXECUTE :: "16 word" where "VC_EXECUTE \<equiv> 0x009E"
abbreviation VC_SCROLL_LOCK :: "16 word" where "VC_SCROLL_LOCK \<equiv> 0x0091"
abbreviation VC_PAUSE :: "16 word" where "VC_PAUSE \<equiv> 0x0013"
abbreviation VC_CANCEL :: "16 word" where "VC_CANCEL \<equiv> 0x00D3"
abbreviation VC_HELP :: "16 word" where "VC_HELP \<equiv> 0x009F"
abbreviation VC_INSERT :: "16 word" where "VC_INSERT \<equiv> 0x009B"
abbreviation VC_DELETE :: "16 word" where "VC_DELETE \<equiv> 0x007F"
abbreviation VC_HOME :: "16 word" where "VC_HOME \<equiv> 0x0024"
abbreviation VC_END :: "16 word" where "VC_END \<equiv> 0x0023"
abbreviation VC_PAGE_UP :: "16 word" where "VC_PAGE_UP \<equiv> 0x0021"
abbreviation VC_PAGE_DOWN :: "16 word" where "VC_PAGE_DOWN \<equiv> 0x0022"
abbreviation VC_UP :: "16 word" where "VC_UP \<equiv> 0x0026"
abbreviation VC_LEFT :: "16 word" where "VC_LEFT \<equiv> 0x0025"
abbreviation VC_RIGHT :: "16 word" where "VC_RIGHT \<equiv> 0x0027"
abbreviation VC_DOWN :: "16 word" where "VC_DOWN \<equiv> 0x0028"
abbreviation VC_NUM_LOCK :: "16 word" where "VC_NUM_LOCK \<equiv> 0x0090"
abbreviation VC_KP_CLEAR :: "16 word" where "VC_KP_CLEAR \<equiv> 0x000C"
abbreviation VC_KP_DIVIDE :: "16 word" where "VC_KP_DIVIDE \<equiv> 0x006F"
abbreviation VC_KP_MULTIPLY :: "16 word" where "VC_KP_MULTIPLY \<equiv> 0x006A"
abbreviation VC_KP_SUBTRACT :: "16 word" where "VC_KP_SUBTRACT \<equiv> 0x006D"
abbreviation VC_KP_EQUALS :: "16 word" where "VC_KP_EQUALS \<equiv> 0x007C"
abbreviation VC_KP_ADD :: "16 word" where "VC_KP_ADD \<equiv> 0x006B"
abbreviation VC_KP_ENTER :: "16 word" where "VC_KP_ENTER \<equiv> 0x007D"
abbreviation VC_KP_DECIMAL :: "16 word" where "VC_KP_DECIMAL \<equiv> 0x006E"
abbreviation VC_KP_SEPARATOR :: "16 word" where "VC_KP_SEPARATOR \<equiv> 0x006C"
abbreviation VC_KP_PLUS_MINUS :: "16 word" where "VC_KP_PLUS_MINUS \<equiv> 0x007E"
abbreviation VC_KP_0 :: "16 word" where "VC_KP_0 \<equiv> 0x0060"
abbreviation VC_KP_1 :: "16 word" where "VC_KP_1 \<equiv> 0x0061"
abbreviation VC_KP_2 :: "16 word" where "VC_KP_2 \<equiv> 0x0062"
abbreviation VC_KP_3 :: "16 word" where "VC_KP_3 \<equiv> 0x0063"
abbreviation VC_KP_4 :: "16 word" where "VC_KP_4 \<equiv> 0x0064"
abbreviation VC_KP_5 :: "16 word" where "VC_KP_5 \<equiv> 0x0065"
abbreviation VC_KP_6 :: "16 word" where "VC_KP_6 \<equiv> 0x0066"
abbreviation VC_KP_7 :: "16 word" where "VC_KP_7 \<equiv> 0x0067"
abbreviation VC_KP_8 :: "16 word" where "VC_KP_8 \<equiv> 0x0068"
abbreviation VC_KP_9 :: "16 word" where "VC_KP_9 \<equiv> 0x0069"
abbreviation VC_KP_OPEN_PARENTHESIS :: "16 word" where "VC_KP_OPEN_PARENTHESIS \<equiv> 0xEE01"
abbreviation VC_KP_CLOSE_PARENTHESIS :: "16 word" where "VC_KP_CLOSE_PARENTHESIS \<equiv> 0xEE02"
abbreviation VC_SHIFT_L :: "16 word" where "VC_SHIFT_L \<equiv> 0xA010"
abbreviation VC_SHIFT_R :: "16 word" where "VC_SHIFT_R \<equiv> 0xB010"
abbreviation VC_CONTROL_L :: "16 word" where "VC_CONTROL_L \<equiv> 0xA011"
abbreviation VC_CONTROL_R :: "16 word" where "VC_CONTROL_R \<equiv> 0xB011"
abbreviation VC_ALT_L :: "16 word" where "VC_ALT_L \<equiv> 0xA012"
abbreviation VC_ALT_R :: "16 word" where "VC_ALT_R \<equiv> 0xB012"
abbreviation VC_META_L :: "16 word" where "VC_META_L \<equiv> 0xA09D"
abbreviation VC_META_R :: "16 word" where "VC_META_R \<equiv> 0xB09D"
abbreviation VC_CONTEXT_MENU :: "16 word" where "VC_CONTEXT_MENU \<equiv> 0x020D"
abbreviation VC_FUNCTION :: "16 word" where "VC_FUNCTION \<equiv> 0x020E"
abbreviation VC_CHANGE_INPUT_SOURCE :: "16 word" where "VC_CHANGE_INPUT_SOURCE \<equiv> 0x020F"
abbreviation VC_POWER :: "16 word" where "VC_POWER \<equiv> 0xE05E"
abbreviation VC_SLEEP :: "16 word" where "VC_SLEEP \<equiv> 0xE05F"
abbreviation VC_WAKE :: "16 word" where "VC_WAKE \<equiv> 0xE063"
abbreviation VC_MEDIA :: "16 word" where "VC_MEDIA \<equiv> 0xE023"
abbreviation VC_MEDIA_PLAY :: "16 word" where "VC_MEDIA_PLAY \<equiv> 0xE022"
abbreviation VC_MEDIA_STOP :: "16 word" where "VC_MEDIA_STOP \<equiv> 0xE024"
abbreviation VC_MEDIA_PREVIOUS :: "16 word" where "VC_MEDIA_PREVIOUS \<equiv> 0xE010"
abbreviation VC_MEDIA_NEXT :: "16 word" where "VC_MEDIA_NEXT \<equiv> 0xE019"
abbreviation VC_MEDIA_SELECT :: "16 word" where "VC_MEDIA_SELECT \<equiv> 0xE06D"
abbreviation VC_MEDIA_EJECT :: "16 word" where "VC_MEDIA_EJECT \<equiv> 0xE02C"
abbreviation VC_MEDIA_CLOSE :: "16 word" where "VC_MEDIA_CLOSE \<equiv> 0xE02D"
abbreviation VC_MEDIA_EJECT_CLOSE :: "16 word" where "VC_MEDIA_EJECT_CLOSE \<equiv> 0xE02F"
abbreviation VC_MEDIA_RECORD :: "16 word" where "VC_MEDIA_RECORD \<equiv> 0xE031"
abbreviation VC_MEDIA_REWIND :: "16 word" where "VC_MEDIA_REWIND \<equiv> 0xE033"
abbreviation VC_VOLUME_MUTE :: "16 word" where "VC_VOLUME_MUTE \<equiv> 0xE020"
abbreviation VC_VOLUME_DOWN :: "16 word" where "VC_VOLUME_DOWN \<equiv> 0xE030"
abbreviation VC_VOLUME_UP :: "16 word" where "VC_VOLUME_UP \<equiv> 0xE02E"
abbreviation VC_ATTN :: "16 word" where "VC_ATTN \<equiv> 0xE090"
abbreviation VC_CR_SEL :: "16 word" where "VC_CR_SEL \<equiv> 0xE091"
abbreviation VC_EX_SEL :: "16 word" where "VC_EX_SEL \<equiv> 0xE092"
abbreviation VC_ERASE_EOF :: "16 word" where "VC_ERASE_EOF \<equiv> 0xE093"
abbreviation VC_PLAY :: "16 word" where "VC_PLAY \<equiv> 0xE094"
abbreviation VC_ZOOM :: "16 word" where "VC_ZOOM \<equiv> 0xE095"
abbreviation VC_NO_NAME :: "16 word" where "VC_NO_NAME \<equiv> 0xE096"
abbreviation VC_PA1 :: "16 word" where "VC_PA1 \<equiv> 0xE097"
abbreviation VC_APP_1 :: "16 word" where "VC_APP_1 \<equiv> 0xE026"
abbreviation VC_APP_2 :: "16 word" where "VC_APP_2 \<equiv> 0xE027"
abbreviation VC_APP_3 :: "16 word" where "VC_APP_3 \<equiv> 0xE028"
abbreviation VC_APP_4 :: "16 word" where "VC_APP_4 \<equiv> 0xE029"
abbreviation VC_APP_BROWSER :: "16 word" where "VC_APP_BROWSER \<equiv> 0xE025"
abbreviation VC_APP_CALCULATOR :: "16 word" where "VC_APP_CALCULATOR \<equiv> 0xE021"
abbreviation VC_APP_MAIL :: "16 word" where "VC_APP_MAIL \<equiv> 0xE06C"
abbreviation VC_BROWSER_SEARCH :: "16 word" where "VC_BROWSER_SEARCH \<equiv> 0xE065"
abbreviation VC_BROWSER_HOME :: "16 word" where "VC_BROWSER_HOME \<equiv> 0xE032"
abbreviation VC_BROWSER_BACK :: "16 word" where "VC_BROWSER_BACK \<equiv> 0xE06A"
abbreviation VC_BROWSER_FORWARD :: "16 word" where "VC_BROWSER_FORWARD \<equiv> 0xE069"
abbreviation VC_BROWSER_STOP :: "16 word" where "VC_BROWSER_STOP \<equiv> 0xE068"
abbreviation VC_BROWSER_REFRESH :: "16 word" where "VC_BROWSER_REFRESH \<equiv> 0xE067"
abbreviation VC_BROWSER_FAVORITES :: "16 word" where "VC_BROWSER_FAVORITES \<equiv> 0xE066"
abbreviation VC_KATAKANA_HIRAGANA :: "16 word" where "VC_KATAKANA_HIRAGANA \<equiv> 0x0106"
abbreviation VC_KATAKANA :: "16 word" where "VC_KATAKANA \<equiv> 0x00F1"
abbreviation VC_HIRAGANA :: "16 word" where "VC_HIRAGANA \<equiv> 0x00F2"
abbreviation VC_KANA :: "16 word" where "VC_KANA \<equiv> 0x0015"
abbreviation VC_KANJI :: "16 word" where "VC_KANJI \<equiv> 0x0019"
abbreviation VC_HANGUL :: "16 word" where "VC_HANGUL \<equiv> 0x00E9"
abbreviation VC_JUNJA :: "16 word" where "VC_JUNJA \<equiv> 0x00E8"
abbreviation VC_FINAL :: "16 word" where "VC_FINAL \<equiv> 0x00E7"
abbreviation VC_HANJA :: "16 word" where "VC_HANJA \<equiv> 0x00E6"
abbreviation VC_ACCEPT :: "16 word" where "VC_ACCEPT \<equiv> 0x001E"
abbreviation VC_CONVERT :: "16 word" where "VC_CONVERT \<equiv> 0x001C"
abbreviation VC_NONCONVERT :: "16 word" where "VC_NONCONVERT \<equiv> 0x001D"
abbreviation VC_IME_ON :: "16 word" where "VC_IME_ON \<equiv> 0x0109"
abbreviation VC_IME_OFF :: "16 word" where "VC_IME_OFF \<equiv> 0x0108"
abbreviation VC_MODE_CHANGE :: "16 word" where "VC_MODE_CHANGE \<equiv> 0x0107"
abbreviation VC_PROCESS :: "16 word" where "VC_PROCESS \<equiv> 0x0105"
abbreviation VC_ALPHANUMERIC :: "16 word" where "VC_ALPHANUMERIC \<equiv> 0x00F0"
abbreviation VC_UNDERSCORE :: "16 word" where "VC_UNDERSCORE \<equiv> 0x020B"
abbreviation VC_YEN :: "16 word" where "VC_YEN \<equiv> 0x020C"
abbreviation VC_JP_COMMA :: "16 word" where "VC_JP_COMMA \<equiv> 0x0210"
abbreviation VC_STOP :: "16 word" where "VC_STOP \<equiv> 0xFF78"
abbreviation VC_PROPS :: "16 word" where "VC_PROPS \<equiv> 0xFF76"
abbreviation VC_FRONT :: "16 word" where "VC_FRONT \<equiv> 0xFF77"
abbreviation VC_OPEN :: "16 word" where "VC_OPEN \<equiv> 0xFF74"
abbreviation VC_FIND :: "16 word" where "VC_FIND \<equiv> 0xFF70"
abbreviation VC_AGAIN :: "16 word" where "VC_AGAIN \<equiv> 0xFF79"
abbreviation VC_UNDO :: "16 word" where "VC_UNDO \<equiv> 0xFF7A"
abbreviation VC_REDO :: "16 word" where "VC_REDO \<equiv> 0xFF7F"
abbreviation VC_COPY :: "16 word" where "VC_COPY \<equiv> 0xFF7C"
abbreviation VC_PASTE :: "16 word" where "VC_PASTE \<equiv> 0xFF7D"
abbreviation VC_CUT :: "16 word" where "VC_CUT \<equiv> 0xFF7B"
abbreviation VC_LINE_FEED :: "16 word" where "VC_LINE_FEED \<equiv> 0xC001"
abbreviation VC_MACRO :: "16 word" where "VC_MACRO \<equiv> 0xC002"
abbreviation VC_SCALE :: "16 word" where "VC_SCALE \<equiv> 0xC003"
abbreviation VC_SETUP :: "16 word" where "VC_SETUP \<equiv> 0xC004"
abbreviation VC_FILE :: "16 word" where "VC_FILE \<equiv> 0xC005"
abbreviation VC_SEND_FILE :: "16 word" where "VC_SEND_FILE \<equiv> 0xC006"
abbreviation VC_DELETE_FILE :: "16 word" where "VC_DELETE_FILE \<equiv> 0xC007"
abbreviation VC_MS_DOS :: "16 word" where "VC_MS_DOS \<equiv> 0xC008"
abbreviation VC_LOCK :: "16 word" where "VC_LOCK \<equiv> 0xC009"
abbreviation VC_ROTATE_DISPLAY :: "16 word" where "VC_ROTATE_DISPLAY \<equiv> 0xC00A"
abbreviation VC_CYCLE_WINDOWS :: "16 word" where "VC_CYCLE_WINDOWS \<equiv> 0xC00B"
abbreviation VC_COMPUTER :: "16 word" where "VC_COMPUTER \<equiv> 0xC00C"
abbreviation VC_PHONE :: "16 word" where "VC_PHONE \<equiv> 0xC00D"
abbreviation VC_ISO :: "16 word" where "VC_ISO \<equiv> 0xC00E"
abbreviation VC_CONFIG :: "16 word" where "VC_CONFIG \<equiv> 0xC00F"
abbreviation VC_EXIT :: "16 word" where "VC_EXIT \<equiv> 0xC010"
abbreviation VC_MOVE :: "16 word" where "VC_MOVE \<equiv> 0xC011"
abbreviation VC_EDIT :: "16 word" where "VC_EDIT \<equiv> 0xC012"
abbreviation VC_SCROLL_UP :: "16 word" where "VC_SCROLL_UP \<equiv> 0xC013"
abbreviation VC_SCROLL_DOWN :: "16 word" where "VC_SCROLL_DOWN \<equiv> 0xC014"
abbreviation VC_NEW :: "16 word" where "VC_NEW \<equiv> 0xC015"
abbreviation VC_PLAY_CD :: "16 word" where "VC_PLAY_CD \<equiv> 0xC016"
abbreviation VC_PAUSE_CD :: "16 word" where "VC_PAUSE_CD \<equiv> 0xC017"
abbreviation VC_DASHBOARD :: "16 word" where "VC_DASHBOARD \<equiv> 0xC018"
abbreviation VC_SUSPEND :: "16 word" where "VC_SUSPEND \<equiv> 0xC019"
abbreviation VC_CLOSE :: "16 word" where "VC_CLOSE \<equiv> 0xC01A"
abbreviation VC_FAST_FORWARD :: "16 word" where "VC_FAST_FORWARD \<equiv> 0xC01C"
abbreviation VC_BASS_BOOST :: "16 word" where "VC_BASS_BOOST \<equiv> 0xC01D"
abbreviation VC_HP :: "16 word" where "VC_HP \<equiv> 0xC01E"
abbreviation VC_CAMERA :: "16 word" where "VC_CAMERA \<equiv> 0xC01F"
abbreviation VC_SOUND :: "16 word" where "VC_SOUND \<equiv> 0xC020"
abbreviation VC_QUESTION :: "16 word" where "VC_QUESTION \<equiv> 0xC021"
abbreviation VC_EMAIL :: "16 word" where "VC_EMAIL \<equiv> 0xC022"
abbreviation VC_CHAT :: "16 word" where "VC_CHAT \<equiv> 0xC023"
abbreviation VC_CONNECT :: "16 word" where "VC_CONNECT \<equiv> 0xC024"
abbreviation VC_FINANCE :: "16 word" where "VC_FINANCE \<equiv> 0xC025"
abbreviation VC_SPORT :: "16 word" where "VC_SPORT \<equiv> 0xC026"
abbreviation VC_SHOP :: "16 word" where "VC_SHOP \<equiv> 0xC027"
abbreviation VC_ALT_ERASE :: "16 word" where "VC_ALT_ERASE \<equiv> 0xC028"
abbreviation VC_BRIGTNESS_DOWN :: "16 word" where "VC_BRIGTNESS_DOWN \<equiv> 0xC029"
abbreviation VC_BRIGTNESS_UP :: "16 word" where "VC_BRIGTNESS_UP \<equiv> 0xC02A"
abbreviation VC_BRIGTNESS_CYCLE :: "16 word" where "VC_BRIGTNESS_CYCLE \<equiv> 0xC02B"
abbreviation VC_BRIGTNESS_AUTO :: "16 word" where "VC_BRIGTNESS_AUTO \<equiv> 0xC02C"
abbreviation VC_SWITCH_VIDEO_MODE :: "16 word" where "VC_SWITCH_VIDEO_MODE \<equiv> 0xC02D"
abbreviation VC_KEYBOARD_LIGHT_TOGGLE :: "16 word" where "VC_KEYBOARD_LIGHT_TOGGLE \<equiv> 0xC02E"
abbreviation VC_KEYBOARD_LIGHT_DOWN :: "16 word" where "VC_KEYBOARD_LIGHT_DOWN \<equiv> 0xC02F"
abbreviation VC_KEYBOARD_LIGHT_UP :: "16 word" where "VC_KEYBOARD_LIGHT_UP \<equiv> 0xC030"
abbreviation VC_SEND :: "16 word" where "VC_SEND \<equiv> 0xC031"
abbreviation VC_REPLY :: "16 word" where "VC_REPLY \<equiv> 0xC032"
abbreviation VC_FORWARD_MAIL :: "16 word" where "VC_FORWARD_MAIL \<equiv> 0xC033"
abbreviation VC_SAVE :: "16 word" where "VC_SAVE \<equiv> 0xC034"
abbreviation VC_DOCUMENTS :: "16 word" where "VC_DOCUMENTS \<equiv> 0xC035"
abbreviation VC_BATTERY :: "16 word" where "VC_BATTERY \<equiv> 0xC036"
abbreviation VC_BLUETOOTH :: "16 word" where "VC_BLUETOOTH \<equiv> 0xC037"
abbreviation VC_WLAN :: "16 word" where "VC_WLAN \<equiv> 0xC038"
abbreviation VC_UWB :: "16 word" where "VC_UWB \<equiv> 0xC039"
abbreviation VC_X11_UNKNOWN :: "16 word" where "VC_X11_UNKNOWN \<equiv> 0xC03A"
abbreviation VC_VIDEO_NEXT :: "16 word" where "VC_VIDEO_NEXT \<equiv> 0xC03B"
abbreviation VC_VIDEO_PREVIOUS :: "16 word" where "VC_VIDEO_PREVIOUS \<equiv> 0xC03C"
abbreviation VC_DISPLAY_OFF :: "16 word" where "VC_DISPLAY_OFF \<equiv> 0xC03D"
abbreviation VC_WWAN :: "16 word" where "VC_WWAN \<equiv> 0xC03E"
abbreviation VC_RFKILL :: "16 word" where "VC_RFKILL \<equiv> 0xC03F"
abbreviation VC_UNDEFINED :: "16 word" where "VC_UNDEFINED \<equiv> 0x0000"

abbreviation CHAR_UNDEFINED :: "16 word" where "CHAR_UNDEFINED \<equiv> 0xFFFF"

subsection \<open>Virtual modifier masks and mouse buttons\<close>

abbreviation MASK_SHIFT_L :: "16 word" where "MASK_SHIFT_L \<equiv> push_bit 0 1"
abbreviation MASK_CTRL_L :: "16 word" where "MASK_CTRL_L \<equiv> push_bit 1 1"
abbreviation MASK_META_L :: "16 word" where "MASK_META_L \<equiv> push_bit 2 1"
abbreviation MASK_ALT_L :: "16 word" where "MASK_ALT_L \<equiv> push_bit 3 1"
abbreviation MASK_SHIFT_R :: "16 word" where "MASK_SHIFT_R \<equiv> push_bit 4 1"
abbreviation MASK_CTRL_R :: "16 word" where "MASK_CTRL_R \<equiv> push_bit 5 1"
abbreviation MASK_META_R :: "16 word" where "MASK_META_R \<equiv> push_bit 6 1"
abbreviation MASK_ALT_R :: "16 word" where "MASK_ALT_R \<equiv> push_bit 7 1"
abbreviation MASK_ALT :: "16 word" where "MASK_ALT \<equiv> MASK_ALT_L OR MASK_ALT_R"
abbreviation MASK_BUTTON1 :: "16 word" where "MASK_BUTTON1 \<equiv> push_bit 8 1"
abbreviation MASK_BUTTON2 :: "16 word" where "MASK_BUTTON2 \<equiv> push_bit 9 1"
abbreviation MASK_BUTTON3 :: "16 word" where "MASK_BUTTON3 \<equiv> push_bit 10 1"
abbreviation MASK_BUTTON4 :: "16 word" where "MASK_BUTTON4 \<equiv> push_bit 11 1"
abbreviation MASK_BUTTON5 :: "16 word" where "MASK_BUTTON5 \<equiv> push_bit 12 1"
abbreviation MASK_NUM_LOCK :: "16 word" where "MASK_NUM_LOCK \<equiv> push_bit 13 1"
abbreviation MASK_CAPS_LOCK :: "16 word" where "MASK_CAPS_LOCK \<equiv> push_bit 14 1"
abbreviation MASK_SCROLL_LOCK :: "16 word" where "MASK_SCROLL_LOCK \<equiv> push_bit 15 1"

abbreviation MOUSE_NOBUTTON :: "16 word" where "MOUSE_NOBUTTON \<equiv> 0"
abbreviation MOUSE_BUTTON1 :: "16 word" where "MOUSE_BUTTON1 \<equiv> 1"
abbreviation MOUSE_BUTTON2 :: "16 word" where "MOUSE_BUTTON2 \<equiv> 2"
abbreviation MOUSE_BUTTON3 :: "16 word" where "MOUSE_BUTTON3 \<equiv> 3"
abbreviation MOUSE_BUTTON4 :: "16 word" where "MOUSE_BUTTON4 \<equiv> 4"
abbreviation MOUSE_BUTTON5 :: "16 word" where "MOUSE_BUTTON5 \<equiv> 5"

abbreviation WHEEL_UNIT_SCROLL :: "8 word" where "WHEEL_UNIT_SCROLL \<equiv> 1"
abbreviation WHEEL_BLOCK_SCROLL :: "8 word" where "WHEEL_BLOCK_SCROLL \<equiv> 2"
abbreviation WHEEL_VERTICAL_DIRECTION :: "8 word" where "WHEEL_VERTICAL_DIRECTION \<equiv> 3"
abbreviation WHEEL_HORIZONTAL_DIRECTION :: "8 word" where "WHEEL_HORIZONTAL_DIRECTION \<equiv> 4"

section \<open>Windows: \<^verbatim>\<open>windows/input_helper.c\<close>\<close>

text \<open>
  The virtual-key constants \<^verbatim>\<open>VK_*\<close> and \<^verbatim>\<open>KEYEVENTF_EXTENDEDKEY\<close> come from the Windows SDK
  header \<^verbatim>\<open>winuser.h\<close>, which the file includes through \<^verbatim>\<open>windows.h\<close>; their values are the
  ones that header fixes.
\<close>

abbreviation VK_CANCEL :: "'a::len word" where "VK_CANCEL \<equiv> 0x03"
abbreviation VK_BACK :: "'a::len word" where "VK_BACK \<equiv> 0x08"
abbreviation VK_TAB :: "'a::len word" where "VK_TAB \<equiv> 0x09"
abbreviation VK_CLEAR :: "'a::len word" where "VK_CLEAR \<equiv> 0x0C"
abbreviation VK_OEM_CLEAR :: "'a::len word" where "VK_OEM_CLEAR \<equiv> 0xFE"
abbreviation VK_RETURN :: "'a::len word" where "VK_RETURN \<equiv> 0x0D"
abbreviation VK_LSHIFT :: "'a::len word" where "VK_LSHIFT \<equiv> 0xA0"
abbreviation VK_RSHIFT :: "'a::len word" where "VK_RSHIFT \<equiv> 0xA1"
abbreviation VK_SHIFT :: "'a::len word" where "VK_SHIFT \<equiv> 0x10"
abbreviation VK_LCONTROL :: "'a::len word" where "VK_LCONTROL \<equiv> 0xA2"
abbreviation VK_RCONTROL :: "'a::len word" where "VK_RCONTROL \<equiv> 0xA3"
abbreviation VK_CONTROL :: "'a::len word" where "VK_CONTROL \<equiv> 0x11"
abbreviation VK_LMENU :: "'a::len word" where "VK_LMENU \<equiv> 0xA4"
abbreviation VK_RMENU :: "'a::len word" where "VK_RMENU \<equiv> 0xA5"
abbreviation VK_MENU :: "'a::len word" where "VK_MENU \<equiv> 0x12"
abbreviation VK_PAUSE :: "'a::len word" where "VK_PAUSE \<equiv> 0x13"
abbreviation VK_CAPITAL :: "'a::len word" where "VK_CAPITAL \<equiv> 0x14"
abbreviation VK_KANA :: "'a::len word" where "VK_KANA \<equiv> 0x15"
abbreviation VK_HANGUL :: "'a::len word" where "VK_HANGUL \<equiv> 0x15"
abbreviation VK_IME_ON :: "'a::len word" where "VK_IME_ON \<equiv> 0x16"
abbreviation VK_JUNJA :: "'a::len word" where "VK_JUNJA \<equiv> 0x17"
abbreviation VK_FINAL :: "'a::len word" where "VK_FINAL \<equiv> 0x18"
abbreviation VK_HANJA :: "'a::len word" where "VK_HANJA \<equiv> 0x19"
abbreviation VK_KANJI :: "'a::len word" where "VK_KANJI \<equiv> 0x19"
abbreviation VK_IME_OFF :: "'a::len word" where "VK_IME_OFF \<equiv> 0x1A"
abbreviation VK_ESCAPE :: "'a::len word" where "VK_ESCAPE \<equiv> 0x1B"
abbreviation VK_CONVERT :: "'a::len word" where "VK_CONVERT \<equiv> 0x1C"
abbreviation VK_NONCONVERT :: "'a::len word" where "VK_NONCONVERT \<equiv> 0x1D"
abbreviation VK_ACCEPT :: "'a::len word" where "VK_ACCEPT \<equiv> 0x1E"
abbreviation VK_MODECHANGE :: "'a::len word" where "VK_MODECHANGE \<equiv> 0x1F"
abbreviation VK_SPACE :: "'a::len word" where "VK_SPACE \<equiv> 0x20"
abbreviation VK_PRIOR :: "'a::len word" where "VK_PRIOR \<equiv> 0x21"
abbreviation VK_NEXT :: "'a::len word" where "VK_NEXT \<equiv> 0x22"
abbreviation VK_END :: "'a::len word" where "VK_END \<equiv> 0x23"
abbreviation VK_HOME :: "'a::len word" where "VK_HOME \<equiv> 0x24"
abbreviation VK_LEFT :: "'a::len word" where "VK_LEFT \<equiv> 0x25"
abbreviation VK_UP :: "'a::len word" where "VK_UP \<equiv> 0x26"
abbreviation VK_RIGHT :: "'a::len word" where "VK_RIGHT \<equiv> 0x27"
abbreviation VK_DOWN :: "'a::len word" where "VK_DOWN \<equiv> 0x28"
abbreviation VK_SELECT :: "'a::len word" where "VK_SELECT \<equiv> 0x29"
abbreviation VK_PRINT :: "'a::len word" where "VK_PRINT \<equiv> 0x2A"
abbreviation VK_EXECUTE :: "'a::len word" where "VK_EXECUTE \<equiv> 0x2B"
abbreviation VK_SNAPSHOT :: "'a::len word" where "VK_SNAPSHOT \<equiv> 0x2C"
abbreviation VK_INSERT :: "'a::len word" where "VK_INSERT \<equiv> 0x2D"
abbreviation VK_DELETE :: "'a::len word" where "VK_DELETE \<equiv> 0x2E"
abbreviation VK_HELP :: "'a::len word" where "VK_HELP \<equiv> 0x2F"
abbreviation VK_LWIN :: "'a::len word" where "VK_LWIN \<equiv> 0x5B"
abbreviation VK_RWIN :: "'a::len word" where "VK_RWIN \<equiv> 0x5C"
abbreviation VK_APPS :: "'a::len word" where "VK_APPS \<equiv> 0x5D"
abbreviation VK_SLEEP :: "'a::len word" where "VK_SLEEP \<equiv> 0x5F"
abbreviation VK_NUMPAD0 :: "'a::len word" where "VK_NUMPAD0 \<equiv> 0x60"
abbreviation VK_NUMPAD1 :: "'a::len word" where "VK_NUMPAD1 \<equiv> 0x61"
abbreviation VK_NUMPAD2 :: "'a::len word" where "VK_NUMPAD2 \<equiv> 0x62"
abbreviation VK_NUMPAD3 :: "'a::len word" where "VK_NUMPAD3 \<equiv> 0x63"
abbreviation VK_NUMPAD4 :: "'a::len word" where "VK_NUMPAD4 \<equiv> 0x64"
abbreviation VK_NUMPAD5 :: "'a::len word" where "VK_NUMPAD5 \<equiv> 0x65"
abbreviation VK_NUMPAD6 :: "'a::len word" where "VK_NUMPAD6 \<equiv> 0x66"
abbreviation VK_NUMPAD7 :: "'a::len word" where "VK_NUMPAD7 \<equiv> 0x67"
abbreviation VK_NUMPAD8 :: "'a::len word" where "VK_NUMPAD8 \<equiv> 0x68"
abbreviation VK_NUMPAD9 :: "'a::len word" where "VK_NUMPAD9 \<equiv> 0x69"
abbreviation VK_MULTIPLY :: "'a::len word" where "VK_MULTIPLY \<equiv> 0x6A"
abbreviation VK_ADD :: "'a::len word" where "VK_ADD \<equiv> 0x6B"
abbreviation VK_SEPARATOR :: "'a::len word" where "VK_SEPARATOR \<equiv> 0x6C"
abbreviation VK_SUBTRACT :: "'a::len word" where "VK_SUBTRACT \<equiv> 0x6D"
abbreviation VK_DECIMAL :: "'a::len word" where "VK_DECIMAL \<equiv> 0x6E"
abbreviation VK_DIVIDE :: "'a::len word" where "VK_DIVIDE \<equiv> 0x6F"
abbreviation VK_F1 :: "'a::len word" where "VK_F1 \<equiv> 0x70"
abbreviation VK_F2 :: "'a::len word" where "VK_F2 \<equiv> 0x71"
abbreviation VK_F3 :: "'a::len word" where "VK_F3 \<equiv> 0x72"
abbreviation VK_F4 :: "'a::len word" where "VK_F4 \<equiv> 0x73"
abbreviation VK_F5 :: "'a::len word" where "VK_F5 \<equiv> 0x74"
abbreviation VK_F6 :: "'a::len word" where "VK_F6 \<equiv> 0x75"
abbreviation VK_F7 :: "'a::len word" where "VK_F7 \<equiv> 0x76"
abbreviation VK_F8 :: "'a::len word" where "VK_F8 \<equiv> 0x77"
abbreviation VK_F9 :: "'a::len word" where "VK_F9 \<equiv> 0x78"
abbreviation VK_F10 :: "'a::len word" where "VK_F10 \<equiv> 0x79"
abbreviation VK_F11 :: "'a::len word" where "VK_F11 \<equiv> 0x7A"
abbreviation VK_F12 :: "'a::len word" where "VK_F12 \<equiv> 0x7B"
abbreviation VK_F13 :: "'a::len word" where "VK_F13 \<equiv> 0x7C"
abbreviation VK_F14 :: "'a::len word" where "VK_F14 \<equiv> 0x7D"
abbreviation VK_F15 :: "'a::len word" where "VK_F15 \<equiv> 0x7E"
abbreviation VK_F16 :: "'a::len word" where "VK_F16 \<equiv> 0x7F"
abbreviation VK_F17 :: "'a::len word" where "VK_F17 \<equiv> 0x80"
abbreviation VK_F18 :: "'a::len word" where "VK_F18 \<equiv> 0x81"
abbreviation VK_F19 :: "'a::len word" where "VK_F19 \<equiv> 0x82"
abbreviation VK_F20 :: "'a::len word" where "VK_F20 \<equiv> 0x83"
abbreviation VK_F21 :: "'a::len word" where "VK_F21 \<equiv> 0x84"
abbreviation VK_F22 :: "'a::len word" where "VK_F22 \<equiv> 0x85"
abbreviation VK_F23 :: "'a::len word" where "VK_F23 \<equiv> 0x86"
abbreviation VK_F24 :: "'a::len word" where "VK_F24 \<equiv> 0x87"
abbreviation VK_NUMLOCK :: "'a::len word" where "VK_NUMLOCK \<equiv> 0x90"
abbreviation VK_SCROLL :: "'a::len word" where "VK_SCROLL \<equiv> 0x91"
abbreviation VK_BROWSER_BACK :: "'a::len word" where "VK_BROWSER_BACK \<equiv> 0xA6"
abbreviation VK_BROWSER_FORWARD :: "'a::len word" where "VK_BROWSER_FORWARD \<equiv> 0xA7"
abbreviation VK_BROWSER_REFRESH :: "'a::len word" where "VK_BROWSER_REFRESH \<equiv> 0xA8"
abbreviation VK_BROWSER_STOP :: "'a::len word" where "VK_BROWSER_STOP \<equiv> 0xA9"
abbreviation VK_BROWSER_SEARCH :: "'a::len word" where "VK_BROWSER_SEARCH \<equiv> 0xAA"
abbreviation VK_BROWSER_FAVORITES :: "'a::len word" where "VK_BROWSER_FAVORITES \<equiv> 0xAB"
abbreviation VK_BROWSER_HOME :: "'a::len word" where "VK_BROWSER_HOME \<equiv> 0xAC"
abbreviation VK_VOLUME_MUTE :: "'a::len word" where "VK_VOLUME_MUTE \<equiv> 0xAD"
abbreviation VK_VOLUME_DOWN :: "'a::len word" where "VK_VOLUME_DOWN \<equiv> 0xAE"
abbreviation VK_VOLUME_UP :: "'a::len word" where "VK_VOLUME_UP \<equiv> 0xAF"
abbreviation VK_MEDIA_NEXT_TRACK :: "'a::len word" where "VK_MEDIA_NEXT_TRACK \<equiv> 0xB0"
abbreviation VK_MEDIA_PREV_TRACK :: "'a::len word" where "VK_MEDIA_PREV_TRACK \<equiv> 0xB1"
abbreviation VK_MEDIA_STOP :: "'a::len word" where "VK_MEDIA_STOP \<equiv> 0xB2"
abbreviation VK_MEDIA_PLAY_PAUSE :: "'a::len word" where "VK_MEDIA_PLAY_PAUSE \<equiv> 0xB3"
abbreviation VK_LAUNCH_MAIL :: "'a::len word" where "VK_LAUNCH_MAIL \<equiv> 0xB4"
abbreviation VK_LAUNCH_MEDIA_SELECT :: "'a::len word" where "VK_LAUNCH_MEDIA_SELECT \<equiv> 0xB5"
abbreviation VK_LAUNCH_APP1 :: "'a::len word" where "VK_LAUNCH_APP1 \<equiv> 0xB6"
abbreviation VK_LAUNCH_APP2 :: "'a::len word" where "VK_LAUNCH_APP2 \<equiv> 0xB7"
abbreviation VK_OEM_1 :: "'a::len word" where "VK_OEM_1 \<equiv> 0xBA"
abbreviation VK_OEM_PLUS :: "'a::len word" where "VK_OEM_PLUS \<equiv> 0xBB"
abbreviation VK_OEM_COMMA :: "'a::len word" where "VK_OEM_COMMA \<equiv> 0xBC"
abbreviation VK_OEM_MINUS :: "'a::len word" where "VK_OEM_MINUS \<equiv> 0xBD"
abbreviation VK_OEM_PERIOD :: "'a::len word" where "VK_OEM_PERIOD \<equiv> 0xBE"
abbreviation VK_OEM_2 :: "'a::len word" where "VK_OEM_2 \<equiv> 0xBF"
abbreviation VK_OEM_3 :: "'a::len word" where "VK_OEM_3 \<equiv> 0xC0"
abbreviation VK_OEM_4 :: "'a::len word" where "VK_OEM_4 \<equiv> 0xDB"
abbreviation VK_OEM_5 :: "'a::len word" where "VK_OEM_5 \<equiv> 0xDC"
abbreviation VK_OEM_6 :: "'a::len word" where "VK_OEM_6 \<equiv> 0xDD"
abbreviation VK_OEM_7 :: "'a::len word" where "VK_OEM_7 \<equiv> 0xDE"
abbreviation VK_OEM_8 :: "'a::len word" where "VK_OEM_8 \<equiv> 0xDF"
abbreviation VK_OEM_102 :: "'a::len word" where "VK_OEM_102 \<equiv> 0xE2"
abbreviation VK_PROCESSKEY :: "'a::len word" where "VK_PROCESSKEY \<equiv> 0xE5"
abbreviation VK_ATTN :: "'a::len word" where "VK_ATTN \<equiv> 0xF6"
abbreviation VK_CRSEL :: "'a::len word" where "VK_CRSEL \<equiv> 0xF7"
abbreviation VK_EXSEL :: "'a::len word" where "VK_EXSEL \<equiv> 0xF8"
abbreviation VK_EREOF :: "'a::len word" where "VK_EREOF \<equiv> 0xF9"
abbreviation VK_PLAY :: "'a::len word" where "VK_PLAY \<equiv> 0xFA"
abbreviation VK_ZOOM :: "'a::len word" where "VK_ZOOM \<equiv> 0xFB"
abbreviation VK_NONAME :: "'a::len word" where "VK_NONAME \<equiv> 0xFC"
abbreviation VK_PA1 :: "'a::len word" where "VK_PA1 \<equiv> 0xFD"

abbreviation KEYEVENTF_EXTENDEDKEY :: "32 word" where "KEYEVENTF_EXTENDEDKEY \<equiv> 0x0001"
abbreviation KEYEVENTF_KEYUP :: "32 word" where "KEYEVENTF_KEYUP \<equiv> 0x0002"
abbreviation KEYEVENTF_UNICODE :: "32 word" where "KEYEVENTF_UNICODE \<equiv> 0x0004"
abbreviation KEYEVENTF_KEYDOWN :: "32 word" where "KEYEVENTF_KEYDOWN \<equiv> 0x0000"

text \<open>The table \<^verbatim>\<open>vcode_keycode_table[][2]\<close>: rows \<^verbatim>\<open>{ vcode, vk_code }\<close>, in source order.\<close>

definition win_vcode_keycode_table :: "(16 word \<times> 16 word) list" where
  "win_vcode_keycode_table = [
    (VC_CANCEL, VK_CANCEL),
    (VC_BACKSPACE, VK_BACK),
    (VC_TAB, VK_TAB),
    (VC_KP_CLEAR, VK_CLEAR),
    (VC_KP_CLEAR, VK_OEM_CLEAR),
    (VC_ENTER, VK_RETURN),
    (VC_KP_ENTER, VK_RETURN),
    (VC_SHIFT_L, VK_LSHIFT),
    (VC_SHIFT_R, VK_RSHIFT),
    (VC_SHIFT_L, VK_SHIFT),
    (VC_CONTROL_L, VK_LCONTROL),
    (VC_CONTROL_R, VK_RCONTROL),
    (VC_CONTROL_L, VK_CONTROL),
    (VC_ALT_L, VK_LMENU),
    (VC_ALT_R, VK_RMENU),
    (VC_ALT_L, VK_MENU),
    (VC_PAUSE, VK_PAUSE),
    (VC_CAPS_LOCK, VK_CAPITAL),
    (VC_KANA, VK_KANA),
    (VC_HANGUL, VK_HANGUL),
    (VC_IME_ON, VK_IME_ON),
    (VC_JUNJA, VK_JUNJA),
    (VC_FINAL, VK_FINAL),
    (VC_HANJA, VK_HANJA),
    (VC_KANJI, VK_KANJI),
    (VC_IME_OFF, VK_IME_OFF),
    (VC_ESCAPE, VK_ESCAPE),
    (VC_CONVERT, VK_CONVERT),
    (VC_NONCONVERT, VK_NONCONVERT),
    (VC_ACCEPT, VK_ACCEPT),
    (VC_MODE_CHANGE, VK_MODECHANGE),
    (VC_SPACE, VK_SPACE),
    (VC_PAGE_UP, VK_PRIOR),
    (VC_PAGE_DOWN, VK_NEXT),
    (VC_END, VK_END),
    (VC_HOME, VK_HOME),
    (VC_LEFT, VK_LEFT),
    (VC_UP, VK_UP),
    (VC_RIGHT, VK_RIGHT),
    (VC_DOWN, VK_DOWN),
    (VC_SELECT, VK_SELECT),
    (VC_PRINT, VK_PRINT),
    (VC_EXECUTE, VK_EXECUTE),
    (VC_PRINT_SCREEN, VK_SNAPSHOT),
    (VC_INSERT, VK_INSERT),
    (VC_DELETE, VK_DELETE),
    (VC_HELP, VK_HELP),
    (VC_0, 0x30),
    (VC_1, 0x31),
    (VC_2, 0x32),
    (VC_3, 0x33),
    (VC_4, 0x34),
    (VC_5, 0x35),
    (VC_6, 0x36),
    (VC_7, 0x37),
    (VC_8, 0x38),
    (VC_9, 0x39),
    (VC_A, 0x41),
    (VC_B, 0x42),
    (VC_C, 0x43),
    (VC_D, 0x44),
    (VC_E, 0x45),
    (VC_F, 0x46),
    (VC_G, 0x47),
    (VC_H, 0x48),
    (VC_I, 0x49),
    (VC_J, 0x4A),
    (VC_K, 0x4B),
    (VC_L, 0x4C),
    (VC_M, 0x4D),
    (VC_N, 0x4E),
    (VC_O, 0x4F),
    (VC_P, 0x50),
    (VC_Q, 0x51),
    (VC_R, 0x52),
    (VC_S, 0x53),
    (VC_T, 0x54),
    (VC_U, 0x55),
    (VC_V, 0x56),
    (VC_W, 0x57),
    (VC_X, 0x58),
    (VC_Y, 0x59),
    (VC_Z, 0x5A),
    (VC_META_L, VK_LWIN),
    (VC_META_R, VK_RWIN),
    (VC_CONTEXT_MENU, VK_APPS),
    (VC_SLEEP, VK_SLEEP),
    (VC_KP_0, VK_NUMPAD0),
    (VC_KP_1, VK_NUMPAD1),
    (VC_KP_2, VK_NUMPAD2),
    (VC_KP_3, VK_NUMPAD3),
    (VC_KP_4, VK_NUMPAD4),
    (VC_KP_5, VK_NUMPAD5),
    (VC_KP_6, VK_NUMPAD6),
    (VC_KP_7, VK_NUMPAD7),
    (VC_KP_8, VK_NUMPAD8),
    (VC_KP_9, VK_NUMPAD9),
    (VC_KP_9, VK_NUMPAD9),
    (VC_KP_MULTIPLY, VK_MULTIPLY),
    (VC_KP_ADD, VK_ADD),
    (VC_KP_SEPARATOR, VK_SEPARATOR),
    (VC_KP_SUBTRACT, VK_SUBTRACT),
    (VC_KP_DECIMAL, VK_DECIMAL),
    (VC_KP_DIVIDE, VK_DIVIDE),
    (VC_F1, VK_F1),
    (VC_F2, VK_F2),
    (VC_F3, VK_F3),
    (VC_F4, VK_F4),
    (VC_F5, VK_F5),
    (VC_F6, VK_F6),
    (VC_F7, VK_F7),
    (VC_F8, VK_F8),
    (VC_F9, VK_F9),
    (VC_F10, VK_F10),
    (VC_F11, VK_F11),
    (VC_F12, VK_F12),
    (VC_F13, VK_F13),
    (VC_F14, VK_F14),
    (VC_F15, VK_F15),
    (VC_F16, VK_F16),
    (VC_F17, VK_F17),
    (VC_F18, VK_F18),
    (VC_F19, VK_F19),
    (VC_F20, VK_F20),
    (VC_F21, VK_F21),
    (VC_F22, VK_F22),
    (VC_F23, VK_F23),
    (VC_F24, VK_F24),
    (VC_NUM_LOCK, VK_NUMLOCK),
    (VC_SCROLL_LOCK, VK_SCROLL),
    (VC_KP_EQUALS, 0x92),
    (VC_BROWSER_BACK, VK_BROWSER_BACK),
    (VC_BROWSER_FORWARD, VK_BROWSER_FORWARD),
    (VC_BROWSER_REFRESH, VK_BROWSER_REFRESH),
    (VC_BROWSER_STOP, VK_BROWSER_STOP),
    (VC_BROWSER_SEARCH, VK_BROWSER_SEARCH),
    (VC_BROWSER_FAVORITES, VK_BROWSER_FAVORITES),
    (VC_BROWSER_HOME, VK_BROWSER_HOME),
    (VC_VOLUME_MUTE, VK_VOLUME_MUTE),
    (VC_VOLUME_DOWN, VK_VOLUME_DOWN),
    (VC_VOLUME_UP, VK_VOLUME_UP),
    (VC_MEDIA_NEXT, VK_MEDIA_NEXT_TRACK),
    (VC_MEDIA_PREVIOUS, VK_MEDIA_PREV_TRACK),
    (VC_MEDIA_STOP, VK_MEDIA_STOP),
    (VC_MEDIA_PLAY, VK_MEDIA_PLAY_PAUSE),
    (VC_APP_MAIL, VK_LAUNCH_MAIL),
    (VC_MEDIA_SELECT, VK_LAUNCH_MEDIA_SELECT),
    (VC_APP_1, VK_LAUNCH_APP1),
    (VC_APP_2, VK_LAUNCH_APP2),
    (VC_SEMICOLON, VK_OEM_1),
    (VC_EQUALS, VK_OEM_PLUS),
    (VC_COMMA, VK_OEM_COMMA),
    (VC_MINUS, VK_OEM_MINUS),
    (VC_PERIOD, VK_OEM_PERIOD),
    (VC_SLASH, VK_OEM_2),
    (VC_BACK_QUOTE, VK_OEM_3),
    (VC_OPEN_BRACKET, VK_OEM_4),
    (VC_BACK_SLASH, VK_OEM_5),
    (VC_CLOSE_BRACKET, VK_OEM_6),
    (VC_QUOTE, VK_OEM_7),
    (VC_MISC, VK_OEM_8),
    (VC_102, VK_OEM_102),
    (VC_PROCESS, VK_PROCESSKEY),
    (VC_ATTN, VK_ATTN),
    (VC_CR_SEL, VK_CRSEL),
    (VC_EX_SEL, VK_EXSEL),
    (VC_ERASE_EOF, VK_EREOF),
    (VC_PLAY, VK_PLAY),
    (VC_ZOOM, VK_ZOOM),
    (VC_NO_NAME, VK_NONAME),
    (VC_PA1, VK_PA1)
  ]"

text \<open>
  Both lookups scan the table from the first row and stop at the first match
  (\<^verbatim>\<open>break\<close>); without a match the initial value of the result variable is returned.
  The \<^verbatim>\<open>uint16_t\<close> table cell is promoted for the comparison with the \<^verbatim>\<open>DWORD\<close> argument.
\<close>

fun win_keycode_scan :: "(16 word \<times> 16 word) list \<Rightarrow> 32 word \<Rightarrow> 16 word \<Rightarrow> 16 word" where
  "win_keycode_scan [] vk_code vcode = vcode"
| "win_keycode_scan (row # rows) vk_code vcode =
     (if vk_code = ucast (snd row) then fst row else win_keycode_scan rows vk_code vcode)"

fun win_vcode_scan :: "(16 word \<times> 16 word) list \<Rightarrow> 16 word \<Rightarrow> 16 word \<Rightarrow> 16 word" where
  "win_vcode_scan [] vcode keycode = keycode"
| "win_vcode_scan (row # rows) vcode keycode =
     (if vcode = fst row then snd row else win_vcode_scan rows vcode keycode)"

definition win_keycode_to_vcode :: "32 word \<Rightarrow> 32 word \<Rightarrow> 16 word" where
  "win_keycode_to_vcode vk_code flags =
     (let vcode = win_keycode_scan win_vcode_keycode_table vk_code VC_UNDEFINED
      in if vcode = VC_ENTER \<and> flags AND KEYEVENTF_EXTENDEDKEY \<noteq> 0 then VC_KP_ENTER else vcode)"

definition win_vcode_to_keycode :: "16 word \<Rightarrow> 32 word" where
  "win_vcode_to_keycode vcode = ucast (win_vcode_scan win_vcode_keycode_table vcode 0x0000)"


text \<open>
  The modifier mask is a file-level \<^verbatim>\<open>static uint16_t modifier_mask\<close>; the three accessors are
  the same on every platform.  The global is passed in and handed back.
\<close>

definition set_modifier_mask :: "16 word \<Rightarrow> 16 word \<Rightarrow> 16 word" where
  "set_modifier_mask msk modifier_mask = modifier_mask OR msk"

definition unset_modifier_mask :: "16 word \<Rightarrow> 16 word \<Rightarrow> 16 word" where
  "unset_modifier_mask msk modifier_mask = modifier_mask AND NOT msk"

definition get_modifiers :: "16 word \<Rightarrow> 16 word" where
  "get_modifiers modifier_mask = modifier_mask"

section \<open>Windows: the mouse hook of \<^verbatim>\<open>windows/input_hook.c\<close>\<close>

text \<open>Window messages and X-button numbers of \<^verbatim>\<open>winuser.h\<close>.\<close>

abbreviation WM_NCXBUTTONDOWN :: "64 word" where "WM_NCXBUTTONDOWN \<equiv> 0x00AB"
abbreviation WM_NCXBUTTONUP :: "64 word" where "WM_NCXBUTTONUP \<equiv> 0x00AC"
abbreviation WM_MOUSEMOVE :: "64 word" where "WM_MOUSEMOVE \<equiv> 0x0200"
abbreviation WM_LBUTTONDOWN :: "64 word" where "WM_LBUTTONDOWN \<equiv> 0x0201"
abbreviation WM_LBUTTONUP :: "64 word" where "WM_LBUTTONUP \<equiv> 0x0202"
abbreviation WM_RBUTTONDOWN :: "64 word" where "WM_RBUTTONDOWN \<equiv> 0x0204"
abbreviation WM_RBUTTONUP :: "64 word" where "WM_RBUTTONUP \<equiv> 0x0205"
abbreviation WM_MBUTTONDOWN :: "64 word" where "WM_MBUTTONDOWN \<equiv> 0x0207"
abbreviation WM_MBUTTONUP :: "64 word" where "WM_MBUTTONUP \<equiv> 0x0208"
abbreviation WM_MOUSEWHEEL :: "64 word" where "WM_MOUSEWHEEL \<equiv> 0x020A"
abbreviation WM_XBUTTONDOWN :: "64 word" where "WM_XBUTTONDOWN \<equiv> 0x020B"
abbreviation WM_XBUTTONUP :: "64 word" where "WM_XBUTTONUP \<equiv> 0x020C"
abbreviation WM_MOUSEHWHEEL :: "64 word" where "WM_MOUSEHWHEEL \<equiv> 0x020E"

abbreviation XBUTTON1 :: "'a::len word" where "XBUTTON1 \<equiv> 0x0001"
abbreviation XBUTTON2 :: "'a::len word" where "XBUTTON2 \<equiv> 0x0002"

definition HIWORD :: "32 word \<Rightarrow> 16 word" where
  "HIWORD l = ucast (drop_bit 16 l)"

definition HIBYTE :: "16 word \<Rightarrow> 8 word" where
  "HIBYTE w = ucast (drop_bit 8 w)"

record MSLLHOOKSTRUCT =
  pt_x :: int
  pt_y :: int
  mouseData :: "32 word"
  ms_flags :: "32 word"
  ms_time :: "32 word"

text \<open>
  The functions \<^verbatim>\<open>dispatch_button_press\<close>, \<^verbatim>\<open>dispatch_button_release\<close>, \<^verbatim>\<open>dispatch_mouse_move\<close>
  and \<^verbatim>\<open>dispatch_mouse_wheel\<close> belong to \<^verbatim>\<open>windows/dispatch_event.c\<close>.  The hook hands them the
  hook structure and a button or direction and gets the \<^verbatim>\<open>consumed\<close> verdict back.  A call is
  a value of \<open>dispatch_call\<close>; the dispatcher is a parameter that maps the call and the
  modifier mask of that moment to the verdict.  The hook itself writes the mask only through
  \<^const>\<open>set_modifier_mask\<close> and \<^const>\<open>unset_modifier_mask\<close>.
\<close>

datatype dispatch_call =
    Dispatch_button_press "16 word"
  | Dispatch_button_release "16 word"
  | Dispatch_mouse_move
  | Dispatch_mouse_wheel "8 word"

text \<open>
  \<^verbatim>\<open>mouse_hook_event_proc\<close>: the result is the \<^verbatim>\<open>LRESULT\<close>, the modifier mask after the call and
  the dispatch that was made.  \<open>call_next_hook\<close> is what \<^verbatim>\<open>CallNextHookEx\<close> returns.
\<close>

definition mouse_hook_event_proc ::
  "(dispatch_call \<Rightarrow> 16 word \<Rightarrow> bool) \<Rightarrow> int \<Rightarrow> int \<Rightarrow> 64 word \<Rightarrow> MSLLHOOKSTRUCT \<Rightarrow> 16 word
    \<Rightarrow> int \<times> 16 word \<times> dispatch_call option" where
  "mouse_hook_event_proc dispatch call_next_hook nCode wParam mshook modifier_mask =
     (let (modifier_mask, call) =
        (if wParam = WM_LBUTTONDOWN then
           (set_modifier_mask MASK_BUTTON1 modifier_mask, Some (Dispatch_button_press MOUSE_BUTTON1))
         else if wParam = WM_RBUTTONDOWN then
           (set_modifier_mask MASK_BUTTON2 modifier_mask, Some (Dispatch_button_press MOUSE_BUTTON2))
         else if wParam = WM_MBUTTONDOWN then
           (set_modifier_mask MASK_BUTTON3 modifier_mask, Some (Dispatch_button_press MOUSE_BUTTON3))
         else if wParam = WM_XBUTTONDOWN \<or> wParam = WM_NCXBUTTONDOWN then
           (if HIWORD (mouseData mshook) = XBUTTON1 then
              (set_modifier_mask MASK_BUTTON4 modifier_mask, Some (Dispatch_button_press MOUSE_BUTTON4))
            else if HIWORD (mouseData mshook) = XBUTTON2 then
              (set_modifier_mask MASK_BUTTON5 modifier_mask, Some (Dispatch_button_press MOUSE_BUTTON5))
            else
              (let button = HIWORD (mouseData mshook) in
                 ((if button = 4 then set_modifier_mask MOUSE_BUTTON4 modifier_mask
                   else if button = 5 then set_modifier_mask MOUSE_BUTTON5 modifier_mask
                   else modifier_mask),
                  Some (Dispatch_button_press button))))
         else if wParam = WM_LBUTTONUP then
           (unset_modifier_mask MASK_BUTTON1 modifier_mask, Some (Dispatch_button_release MOUSE_BUTTON1))
         else if wParam = WM_RBUTTONUP then
           (unset_modifier_mask MASK_BUTTON2 modifier_mask, Some (Dispatch_button_release MOUSE_BUTTON2))
         else if wParam = WM_MBUTTONUP then
           (unset_modifier_mask MASK_BUTTON3 modifier_mask, Some (Dispatch_button_release MOUSE_BUTTON3))
         else if wParam = WM_XBUTTONUP \<or> wParam = WM_NCXBUTTONUP then
           (if HIWORD (mouseData mshook) = XBUTTON1 then
              (unset_modifier_mask MASK_BUTTON4 modifier_mask, Some (Dispatch_button_release MOUSE_BUTTON4))
            else if HIWORD (mouseData mshook) = XBUTTON2 then
              (unset_modifier_mask MASK_BUTTON5 modifier_mask, Some (Dispatch_button_release MOUSE_BUTTON5))
            else
              (let button = HIWORD (mouseData mshook) in
                 ((if button = 4 then unset_modifier_mask MOUSE_BUTTON4 modifier_mask
                   else if button = 5 then unset_modifier_mask MOUSE_BUTTON5 modifier_mask
                   else modifier_mask),
                  Some (Dispatch_button_release MOUSE_BUTTON5))))
         else if wParam = WM_MOUSEMOVE then (modifier_mask, Some Dispatch_mouse_move)
         else if wParam = WM_MOUSEWHEEL then
           (modifier_mask, Some (Dispatch_mouse_wheel WHEEL_VERTICAL_DIRECTION))
         else if wParam = WM_MOUSEHWHEEL then
           (modifier_mask, Some (Dispatch_mouse_wheel WHEEL_HORIZONTAL_DIRECTION))
         else (modifier_mask, None));
        consumed = (case call of None \<Rightarrow> False | Some c \<Rightarrow> dispatch c modifier_mask);
        hook_result = (if nCode < 0 \<or> \<not> consumed then call_next_hook else - 1)
      in (hook_result, modifier_mask, call))"

section \<open>Windows: \<^verbatim>\<open>windows/monitor_helper.c\<close> and \<^verbatim>\<open>windows/post_event.c\<close>\<close>

text \<open>
  The monitor helper caches the most negative \<^verbatim>\<open>left\<close> and \<^verbatim>\<open>top\<close> of the monitor rectangles.
  \<^verbatim>\<open>EnumDisplayMonitors\<close> calls \<^verbatim>\<open>enum_monitor_proc\<close> once for each monitor; a monitor is the
  pair \<open>(rcMonitor.left, rcMonitor.top)\<close> that \<^verbatim>\<open>GetMonitorInfo\<close> delivers, or \<open>None\<close> when
  that call fails.  \<^verbatim>\<open>LONG\<close> values are integers; nothing here leaves the 32-bit range for
  coordinates that a screen can have.
\<close>

record monitor_state =
  monitors_enumerated :: bool
  mon_left :: int
  mon_top :: int

definition enum_monitor_proc :: "(int \<times> int) option \<Rightarrow> monitor_state \<Rightarrow> monitor_state" where
  "enum_monitor_proc monitor_info st =
     (case monitor_info of
        None \<Rightarrow> st
      | Some rc \<Rightarrow>
          (let st = (if fst rc < mon_left st then st\<lparr>mon_left := fst rc\<rparr> else st)
           in if snd rc < mon_top st then st\<lparr>mon_top := snd rc\<rparr> else st))"

definition enumerate_displays :: "(int \<times> int) option list \<Rightarrow> monitor_state \<Rightarrow> monitor_state" where
  "enumerate_displays monitors st =
     (fold enum_monitor_proc monitors (st\<lparr>mon_left := 0, mon_top := 0\<rparr>))\<lparr>monitors_enumerated := True\<rparr>"

definition get_largest_negative_coordinates ::
  "(int \<times> int) option list \<Rightarrow> monitor_state \<Rightarrow> (int \<times> int) \<times> monitor_state" where
  "get_largest_negative_coordinates monitors st =
     (let st = (if \<not> monitors_enumerated st then enumerate_displays monitors st else st)
      in ((mon_left st, mon_top st), st))"

text \<open>
  \<^verbatim>\<open>MulDiv\<close> is the Windows function of that name: the 64-bit product of the first two
  arguments divided by the third, rounded to the nearest integer (halves away from zero), and
  \<open>-1\<close> when the divisor is zero or the result does not fit 32 bits.
\<close>

definition MulDiv :: "int \<Rightarrow> int \<Rightarrow> int \<Rightarrow> int" where
  "MulDiv nNumber nNumerator nDenominator =
     (if nDenominator = 0 then - 1
      else
        (let p = nNumber * nNumerator;
             r = sgn p * sgn nDenominator * ((2 * \<bar>p\<bar> + \<bar>nDenominator\<bar>) div (2 * \<bar>nDenominator\<bar>))
         in if r < - 2147483648 \<or> 2147483647 < r then - 1 else r))"

abbreviation MAX_WINDOWS_COORD_VALUE :: int where "MAX_WINDOWS_COORD_VALUE \<equiv> 2 ^ 16 - 1"

definition get_absolute_coordinate :: "int \<Rightarrow> int \<Rightarrow> int" where
  "get_absolute_coordinate coordinate screen_size = MulDiv coordinate MAX_WINDOWS_COORD_VALUE screen_size"

text \<open>
  What the operating system answers during one call of the posting functions:
  the two system metrics, the monitors, the cursor position (\<open>None\<close> when \<^verbatim>\<open>GetCursorPos\<close>
  fails), the scan code that \<^verbatim>\<open>MapVirtualKeyW\<close> gives for a virtual key, whether \<^verbatim>\<open>calloc\<close>
  delivers memory, and the number of events that \<^verbatim>\<open>SendInput\<close> reports as inserted.
\<close>

record INPUT =
  in_type :: "32 word"
  mi_dx :: int
  mi_dy :: int
  mi_mouseData :: "32 word"
  mi_dwFlags :: "32 word"
  mi_time :: "32 word"
  mi_dwExtraInfo :: "64 word"
  ki_wVk :: "16 word"
  ki_wScan :: "16 word"
  ki_dwFlags :: "32 word"

record win_env =
  SM_CXVIRTUALSCREEN :: int
  SM_CYVIRTUALSCREEN :: int
  monitors :: "(int \<times> int) option list"
  GetCursorPos :: "(int \<times> int) option"
  MapVirtualKeyW :: "16 word \<Rightarrow> 16 word"
  calloc_ok :: bool
  SendInput :: "INPUT list \<Rightarrow> nat"

text \<open>
  The state that the posting functions of Windows touch: the cache of the monitor helper, and
  the log of the batches handed to \<^verbatim>\<open>SendInput\<close>, oldest first.
\<close>

record win_state =
  ws_monitor :: monitor_state
  ws_sent :: "INPUT list list"

abbreviation INPUT_MOUSE :: "32 word" where "INPUT_MOUSE \<equiv> 0"
abbreviation INPUT_KEYBOARD :: "32 word" where "INPUT_KEYBOARD \<equiv> 1"
abbreviation KF_ALTDOWN :: "32 word" where "KF_ALTDOWN \<equiv> 0x2000"
abbreviation MOUSEEVENTF_MOVE :: "32 word" where "MOUSEEVENTF_MOVE \<equiv> 0x0001"
abbreviation MOUSEEVENTF_LEFTDOWN :: "32 word" where "MOUSEEVENTF_LEFTDOWN \<equiv> 0x0002"
abbreviation MOUSEEVENTF_LEFTUP :: "32 word" where "MOUSEEVENTF_LEFTUP \<equiv> 0x0004"
abbreviation MOUSEEVENTF_RIGHTDOWN :: "32 word" where "MOUSEEVENTF_RIGHTDOWN \<equiv> 0x0008"
abbreviation MOUSEEVENTF_RIGHTUP :: "32 word" where "MOUSEEVENTF_RIGHTUP \<equiv> 0x0010"
abbreviation MOUSEEVENTF_MIDDLEDOWN :: "32 word" where "MOUSEEVENTF_MIDDLEDOWN \<equiv> 0x0020"
abbreviation MOUSEEVENTF_MIDDLEUP :: "32 word" where "MOUSEEVENTF_MIDDLEUP \<equiv> 0x0040"
abbreviation MOUSEEVENTF_XDOWN :: "32 word" where "MOUSEEVENTF_XDOWN \<equiv> 0x0080"
abbreviation MOUSEEVENTF_XUP :: "32 word" where "MOUSEEVENTF_XUP \<equiv> 0x0100"
abbreviation MOUSEEVENTF_WHEEL :: "32 word" where "MOUSEEVENTF_WHEEL \<equiv> 0x0800"
abbreviation MOUSEEVENTF_HWHEEL :: "32 word" where "MOUSEEVENTF_HWHEEL \<equiv> 0x1000"
abbreviation MOUSEEVENTF_VIRTUALDESK :: "32 word" where "MOUSEEVENTF_VIRTUALDESK \<equiv> 0x4000"
abbreviation MOUSEEVENTF_ABSOLUTE :: "32 word" where "MOUSEEVENTF_ABSOLUTE \<equiv> 0x8000"

text \<open>\<^verbatim>\<open>calloc(1, sizeof(INPUT))\<close>: every field is zero.\<close>

definition zero_INPUT :: INPUT where
  "zero_INPUT = \<lparr>in_type = 0, mi_dx = 0, mi_dy = 0, mi_mouseData = 0, mi_dwFlags = 0, mi_time = 0,
     mi_dwExtraInfo = 0, ki_wVk = 0, ki_wScan = 0, ki_dwFlags = 0\<rparr>"

text \<open>\<^verbatim>\<open>uint16_t screen_width = GetSystemMetrics(...)\<close> keeps the low 16 bits of the metric.\<close>

definition normalize_coordinates ::
  "win_env \<Rightarrow> int \<Rightarrow> int \<Rightarrow> monitor_state \<Rightarrow> (int \<times> int) \<times> monitor_state" where
  "normalize_coordinates env x y mst =
     (let screen_width = SM_CXVIRTUALSCREEN env mod 2 ^ 16;
          screen_height = SM_CYVIRTUALSCREEN env mod 2 ^ 16;
          (lnc, mst) = get_largest_negative_coordinates (monitors env) mst;
          x = x + \<bar>fst lnc\<bar>;
          y = y + \<bar>snd lnc\<bar>
      in ((get_absolute_coordinate x screen_width, get_absolute_coordinate y screen_height), mst))"

text \<open>
  \<^verbatim>\<open>map_keyboard_event\<close>.  The test \<^verbatim>\<open>event->mask & MASK_ALT\<close> is written as the preprocessor
  leaves it: \<^verbatim>\<open>MASK_ALT\<close> expands to \<^verbatim>\<open>1 << 3 | 1 << 7\<close> without parentheses, and \<^verbatim>\<open>&\<close> binds
  tighter than \<^verbatim>\<open>|\<close>.
\<close>

definition map_keyboard_event :: "win_env \<Rightarrow> uiohook_event \<Rightarrow> INPUT \<Rightarrow> int \<times> INPUT" where
  "map_keyboard_event env event input =
     (let input = input\<lparr>in_type := INPUT_KEYBOARD\<rparr> in
      if ev_type event \<noteq> EVENT_KEY_PRESSED \<and> ev_type event \<noteq> EVENT_KEY_RELEASED
      then (UIOHOOK_FAILURE, input)
      else
        (let input = input\<lparr>ki_dwFlags :=
                (if ev_type event = EVENT_KEY_PRESSED then KEYEVENTF_KEYDOWN else KEYEVENTF_KEYUP)\<rparr>;
             input = input\<lparr>ki_wVk := ucast (win_vcode_to_keycode (kb_keycode (data_keyboard event)))\<rparr>
         in if ki_wVk input = 0x0000 then (UIOHOOK_FAILURE, input)
            else
              (let input = input\<lparr>ki_wScan := MapVirtualKeyW env (ki_wVk input)\<rparr>;
                   input = (if (ev_mask event AND MASK_ALT_L) OR MASK_ALT_R \<noteq> 0
                            then input\<lparr>ki_dwFlags := ki_dwFlags input OR KF_ALTDOWN\<rparr> else input);
                   input = (if HIBYTE (ki_wScan input) \<noteq> 0
                            then input\<lparr>ki_dwFlags := ki_dwFlags input OR KEYEVENTF_EXTENDEDKEY\<rparr>
                            else input)
               in (UIOHOOK_SUCCESS, input))))"

text \<open>
  \<^verbatim>\<open>map_mouse_event\<close> calls \<^verbatim>\<open>hook_post_event\<close> again to move the pointer before a press or a
  release; the event it passes has type \<^verbatim>\<open>EVENT_MOUSE_MOVED\<close>, and for that type no further call
  is made.  The inner call is the parameter \<open>post\<close>; its status is dropped, as in the source.
\<close>

text \<open>
  The value of \<^verbatim>\<open>mouseData\<close> for a button beyond the third; the source has the same three-way
  choice in the press and in the release branch.
\<close>

definition x_button_data :: "16 word \<Rightarrow> 32 word" where
  "x_button_data b =
     (if b = MOUSE_BUTTON4 then XBUTTON1 else if b = MOUSE_BUTTON5 then XBUTTON2
      else word_of_int (uint b - 3))"

definition map_mouse_event ::
  "(uiohook_event \<Rightarrow> win_state \<Rightarrow> int \<times> win_state) \<Rightarrow> win_env \<Rightarrow> uiohook_event \<Rightarrow> INPUT
    \<Rightarrow> win_state \<Rightarrow> int \<times> INPUT \<times> win_state" where
  "map_mouse_event post env event input st =
     (let input = input\<lparr>in_type := INPUT_MOUSE, mi_mouseData := 0, mi_dwExtraInfo := 0, mi_time := 0\<rparr>;
          (input, st) =
            (if ev_type event \<noteq> EVENT_MOUSE_WHEEL then
               (let x = sint (m_x (data_mouse event));
                    y = sint (m_y (data_mouse event));
                    (x, y) = (if ev_type event = EVENT_MOUSE_MOVED_RELATIVE_TO_CURSOR
                              then (case GetCursorPos env of
                                      Some p \<Rightarrow> (x + fst p, y + snd p)
                                    | None \<Rightarrow> (x, y))
                              else (x, y));
                    (nc, mst) = normalize_coordinates env x y (ws_monitor st)
                in (input\<lparr>mi_dy := snd nc, mi_dx := fst nc\<rparr>, st\<lparr>ws_monitor := mst\<rparr>))
             else (input, st));
          b = m_button (data_mouse event)
      in
        if ev_type event = EVENT_MOUSE_PRESSED \<or> ev_type event = EVENT_MOUSE_PRESSED_IGNORE_COORDS then
          (if b = MOUSE_NOBUTTON then (UIOHOOK_FAILURE, input, st)
           else
             (let input =
                    (if b = MOUSE_BUTTON1 then input\<lparr>mi_dwFlags := MOUSEEVENTF_LEFTDOWN\<rparr>
                     else if b = MOUSE_BUTTON2 then input\<lparr>mi_dwFlags := MOUSEEVENTF_RIGHTDOWN\<rparr>
                     else if b = MOUSE_BUTTON3 then input\<lparr>mi_dwFlags := MOUSEEVENTF_MIDDLEDOWN\<rparr>
                     else input\<lparr>mi_dwFlags := MOUSEEVENTF_XDOWN, mi_mouseData := x_button_data b\<rparr>);
                  st = (if ev_type event = EVENT_MOUSE_PRESSED
                        then snd (post (event\<lparr>ev_type := EVENT_MOUSE_MOVED\<rparr>) st) else st)
              in (UIOHOOK_SUCCESS, input, st)))
        else if ev_type event = EVENT_MOUSE_RELEASED \<or> ev_type event = EVENT_MOUSE_RELEASED_IGNORE_COORDS then
          (if b = MOUSE_NOBUTTON then (UIOHOOK_FAILURE, input, st)
           else
             (let input =
                    (if b = MOUSE_BUTTON1 then input\<lparr>mi_dwFlags := MOUSEEVENTF_LEFTUP\<rparr>
                     else if b = MOUSE_BUTTON2 then input\<lparr>mi_dwFlags := MOUSEEVENTF_RIGHTUP\<rparr>
                     else if b = MOUSE_BUTTON3 then input\<lparr>mi_dwFlags := MOUSEEVENTF_MIDDLEUP\<rparr>
                     else input\<lparr>mi_dwFlags := MOUSEEVENTF_XUP, mi_mouseData := x_button_data b\<rparr>);
                  st = (if ev_type event = EVENT_MOUSE_RELEASED
                        then snd (post (event\<lparr>ev_type := EVENT_MOUSE_MOVED\<rparr>) st) else st)
              in (UIOHOOK_SUCCESS, input, st)))
        else if ev_type event = EVENT_MOUSE_WHEEL then
          (if w_direction (data_wheel event) = WHEEL_HORIZONTAL_DIRECTION
           then (UIOHOOK_SUCCESS,
                 input\<lparr>mi_dwFlags := MOUSEEVENTF_HWHEEL,
                       mi_mouseData := word_of_int (sint (w_rotation (data_wheel event)) * - 1)\<rparr>, st)
           else (UIOHOOK_SUCCESS,
                 input\<lparr>mi_dwFlags := MOUSEEVENTF_WHEEL,
                       mi_mouseData := word_of_int (sint (w_rotation (data_wheel event)))\<rparr>, st))
        else if ev_type event = EVENT_MOUSE_DRAGGED \<or> ev_type event = EVENT_MOUSE_MOVED
              \<or> ev_type event = EVENT_MOUSE_MOVED_RELATIVE_TO_CURSOR then
          (UIOHOOK_SUCCESS,
           input\<lparr>mi_dwFlags := MOUSEEVENTF_MOVE OR MOUSEEVENTF_ABSOLUTE OR MOUSEEVENTF_VIRTUALDESK\<rparr>, st)
        else (UIOHOOK_FAILURE, input, st))"

text \<open>
  The body of \<^verbatim>\<open>hook_post_event\<close>, with the function that serves the inner call as a parameter.
  \<^verbatim>\<open>SendInput\<close> is called only when the mapping succeeded.
\<close>

definition win_hook_post_event_body ::
  "(uiohook_event \<Rightarrow> win_state \<Rightarrow> int \<times> win_state) \<Rightarrow> win_env \<Rightarrow> uiohook_event
    \<Rightarrow> win_state \<Rightarrow> int \<times> win_state" where
  "win_hook_post_event_body post env event st =
     (if \<not> calloc_ok env then (UIOHOOK_ERROR_OUT_OF_MEMORY, st)
      else
        (let input = zero_INPUT;
             (status, input, st) =
               (if ev_type event = EVENT_KEY_PRESSED \<or> ev_type event = EVENT_KEY_RELEASED then
                  (let (status, input) = map_keyboard_event env event input in (status, input, st))
                else if ev_type event \<in> {EVENT_MOUSE_PRESSED, EVENT_MOUSE_RELEASED, EVENT_MOUSE_WHEEL,
                       EVENT_MOUSE_MOVED, EVENT_MOUSE_MOVED_RELATIVE_TO_CURSOR, EVENT_MOUSE_DRAGGED,
                       EVENT_MOUSE_PRESSED_IGNORE_COORDS, EVENT_MOUSE_RELEASED_IGNORE_COORDS} then
                  map_mouse_event post env event input st
                else (UIOHOOK_FAILURE, input, st))
         in if status = UIOHOOK_SUCCESS then
              (let st = st\<lparr>ws_sent := ws_sent st @ [[input]]\<rparr>
               in if SendInput env [input] = 0 then (UIOHOOK_FAILURE, st) else (status, st))
            else (status, st)))"

definition win_hook_post_event :: "win_env \<Rightarrow> uiohook_event \<Rightarrow> win_state \<Rightarrow> int \<times> win_state" where
  "win_hook_post_event env =
     win_hook_post_event_body
       (win_hook_post_event_body (\<lambda>event st. (UIOHOOK_FAILURE, st)) env) env"

text \<open>
  \<^verbatim>\<open>hook_post_text\<close> on Windows.  The argument is \<open>None\<close> for a null pointer and otherwise the
  code units that the pointer leads to; the text ends before the first zero unit.  The two
  loops fill one key-down and one key-up record for each unit.
\<close>

definition text_input :: "32 word \<Rightarrow> 16 word \<Rightarrow> INPUT" where
  "text_input flags unit =
     zero_INPUT\<lparr>in_type := INPUT_KEYBOARD, ki_wVk := 0, ki_wScan := unit, ki_dwFlags := flags\<rparr>"

definition win_hook_post_text :: "win_env \<Rightarrow> 16 word list option \<Rightarrow> win_state \<Rightarrow> int \<times> win_state" where
  "win_hook_post_text env txt st =
     (case txt of
        None \<Rightarrow> (UIOHOOK_ERROR_POST_TEXT_NULL, st)
      | Some units \<Rightarrow>
          (let status = UIOHOOK_SUCCESS;
               chars = takeWhile (\<lambda>c. c \<noteq> 0) units;
               count = length chars
           in if \<not> calloc_ok env then (UIOHOOK_ERROR_OUT_OF_MEMORY, st)
              else
                (let input = map (text_input (KEYEVENTF_UNICODE OR KEYEVENTF_KEYDOWN)) chars
                           @ map (text_input (KEYEVENTF_UNICODE OR KEYEVENTF_KEYUP)) chars;
                     st = st\<lparr>ws_sent := ws_sent st @ [input]\<rparr>;
                     status = (if SendInput env input = 0 then UIOHOOK_FAILURE else status)
                 in (UIOHOOK_SUCCESS, st))))"

section \<open>macOS: \<^verbatim>\<open>darwin/input_helper.h\<close> and \<^verbatim>\<open>darwin/input_helper.c\<close>\<close>

text \<open>The virtual key codes \<^verbatim>\<open>kVK_*\<close> that the table uses, with the values of the header.\<close>

abbreviation kVK_ANSI_A :: "'a::len word" where "kVK_ANSI_A \<equiv> 0x00"
abbreviation kVK_ANSI_S :: "'a::len word" where "kVK_ANSI_S \<equiv> 0x01"
abbreviation kVK_ANSI_D :: "'a::len word" where "kVK_ANSI_D \<equiv> 0x02"
abbreviation kVK_ANSI_F :: "'a::len word" where "kVK_ANSI_F \<equiv> 0x03"
abbreviation kVK_ANSI_H :: "'a::len word" where "kVK_ANSI_H \<equiv> 0x04"
abbreviation kVK_ANSI_G :: "'a::len word" where "kVK_ANSI_G \<equiv> 0x05"
abbreviation kVK_ANSI_Z :: "'a::len word" where "kVK_ANSI_Z \<equiv> 0x06"
abbreviation kVK_ANSI_X :: "'a::len word" where "kVK_ANSI_X \<equiv> 0x07"
abbreviation kVK_ANSI_C :: "'a::len word" where "kVK_ANSI_C \<equiv> 0x08"
abbreviation kVK_ANSI_V :: "'a::len word" where "kVK_ANSI_V \<equiv> 0x09"
abbreviation kVK_ISO_Section :: "'a::len word" where "kVK_ISO_Section \<equiv> 0x0A"
abbreviation kVK_ANSI_B :: "'a::len word" where "kVK_ANSI_B \<equiv> 0x0B"
abbreviation kVK_ANSI_Q :: "'a::len word" where "kVK_ANSI_Q \<equiv> 0x0C"
abbreviation kVK_ANSI_W :: "'a::len word" where "kVK_ANSI_W \<equiv> 0x0D"
abbreviation kVK_ANSI_E :: "'a::len word" where "kVK_ANSI_E \<equiv> 0x0E"
abbreviation kVK_ANSI_R :: "'a::len word" where "kVK_ANSI_R \<equiv> 0x0F"
abbreviation kVK_ANSI_Y :: "'a::len word" where "kVK_ANSI_Y \<equiv> 0x10"
abbreviation kVK_ANSI_T :: "'a::len word" where "kVK_ANSI_T \<equiv> 0x11"
abbreviation kVK_ANSI_1 :: "'a::len word" where "kVK_ANSI_1 \<equiv> 0x12"
abbreviation kVK_ANSI_2 :: "'a::len word" where "kVK_ANSI_2 \<equiv> 0x13"
abbreviation kVK_ANSI_3 :: "'a::len word" where "kVK_ANSI_3 \<equiv> 0x14"
abbreviation kVK_ANSI_4 :: "'a::len word" where "kVK_ANSI_4 \<equiv> 0x15"
abbreviation kVK_ANSI_6 :: "'a::len word" where "kVK_ANSI_6 \<equiv> 0x16"
abbreviation kVK_ANSI_5 :: "'a::len word" where "kVK_ANSI_5 \<equiv> 0x17"
abbreviation kVK_ANSI_Equal :: "'a::len word" where "kVK_ANSI_Equal \<equiv> 0x18"
abbreviation kVK_ANSI_9 :: "'a::len word" where "kVK_ANSI_9 \<equiv> 0x19"
abbreviation kVK_ANSI_7 :: "'a::len word" where "kVK_ANSI_7 \<equiv> 0x1A"
abbreviation kVK_ANSI_Minus :: "'a::len word" where "kVK_ANSI_Minus \<equiv> 0x1B"
abbreviation kVK_ANSI_8 :: "'a::len word" where "kVK_ANSI_8 \<equiv> 0x1C"
abbreviation kVK_ANSI_0 :: "'a::len word" where "kVK_ANSI_0 \<equiv> 0x1D"
abbreviation kVK_ANSI_RightBracket :: "'a::len word" where "kVK_ANSI_RightBracket \<equiv> 0x1E"
abbreviation kVK_ANSI_O :: "'a::len word" where "kVK_ANSI_O \<equiv> 0x1F"
abbreviation kVK_ANSI_U :: "'a::len word" where "kVK_ANSI_U \<equiv> 0x20"
abbreviation kVK_ANSI_LeftBracket :: "'a::len word" where "kVK_ANSI_LeftBracket \<equiv> 0x21"
abbreviation kVK_ANSI_I :: "'a::len word" where "kVK_ANSI_I \<equiv> 0x22"
abbreviation kVK_ANSI_P :: "'a::len word" where "kVK_ANSI_P \<equiv> 0x23"
abbreviation kVK_Return :: "'a::len word" where "kVK_Return \<equiv> 0x24"
abbreviation kVK_ANSI_L :: "'a::len word" where "kVK_ANSI_L \<equiv> 0x25"
abbreviation kVK_ANSI_J :: "'a::len word" where "kVK_ANSI_J \<equiv> 0x26"
abbreviation kVK_ANSI_Quote :: "'a::len word" where "kVK_ANSI_Quote \<equiv> 0x27"
abbreviation kVK_ANSI_K :: "'a::len word" where "kVK_ANSI_K \<equiv> 0x28"
abbreviation kVK_ANSI_Semicolon :: "'a::len word" where "kVK_ANSI_Semicolon \<equiv> 0x29"
abbreviation kVK_ANSI_Backslash :: "'a::len word" where "kVK_ANSI_Backslash \<equiv> 0x2A"
abbreviation kVK_ANSI_Comma :: "'a::len word" where "kVK_ANSI_Comma \<equiv> 0x2B"
abbreviation kVK_ANSI_Slash :: "'a::len word" where "kVK_ANSI_Slash \<equiv> 0x2C"
abbreviation kVK_ANSI_N :: "'a::len word" where "kVK_ANSI_N \<equiv> 0x2D"
abbreviation kVK_ANSI_M :: "'a::len word" where "kVK_ANSI_M \<equiv> 0x2E"
abbreviation kVK_ANSI_Period :: "'a::len word" where "kVK_ANSI_Period \<equiv> 0x2F"
abbreviation kVK_Tab :: "'a::len word" where "kVK_Tab \<equiv> 0x30"
abbreviation kVK_Space :: "'a::len word" where "kVK_Space \<equiv> 0x31"
abbreviation kVK_ANSI_Grave :: "'a::len word" where "kVK_ANSI_Grave \<equiv> 0x32"
abbreviation kVK_Delete :: "'a::len word" where "kVK_Delete \<equiv> 0x33"
abbreviation kVK_Escape :: "'a::len word" where "kVK_Escape \<equiv> 0x35"
abbreviation kVK_RightCommand :: "'a::len word" where "kVK_RightCommand \<equiv> 0x36"
abbreviation kVK_Command :: "'a::len word" where "kVK_Command \<equiv> 0x37"
abbreviation kVK_Shift :: "'a::len word" where "kVK_Shift \<equiv> 0x38"
abbreviation kVK_CapsLock :: "'a::len word" where "kVK_CapsLock \<equiv> 0x39"
abbreviation kVK_Option :: "'a::len word" where "kVK_Option \<equiv> 0x3A"
abbreviation kVK_Control :: "'a::len word" where "kVK_Control \<equiv> 0x3B"
abbreviation kVK_RightShift :: "'a::len word" where "kVK_RightShift \<equiv> 0x3C"
abbreviation kVK_RightOption :: "'a::len word" where "kVK_RightOption \<equiv> 0x3D"
abbreviation kVK_RightControl :: "'a::len word" where "kVK_RightControl \<equiv> 0x3E"
abbreviation kVK_Function :: "'a::len word" where "kVK_Function \<equiv> 0x3F"
abbreviation kVK_F17 :: "'a::len word" where "kVK_F17 \<equiv> 0x40"
abbreviation kVK_ANSI_KeypadDecimal :: "'a::len word" where "kVK_ANSI_KeypadDecimal \<equiv> 0x41"
abbreviation kVK_ANSI_KeypadMultiply :: "'a::len word" where "kVK_ANSI_KeypadMultiply \<equiv> 0x43"
abbreviation kVK_ANSI_KeypadPlus :: "'a::len word" where "kVK_ANSI_KeypadPlus \<equiv> 0x45"
abbreviation kVK_ANSI_KeypadClear :: "'a::len word" where "kVK_ANSI_KeypadClear \<equiv> 0x47"
abbreviation kVK_VolumeUp :: "'a::len word" where "kVK_VolumeUp \<equiv> 0x48"
abbreviation kVK_VolumeDown :: "'a::len word" where "kVK_VolumeDown \<equiv> 0x49"
abbreviation kVK_Mute :: "'a::len word" where "kVK_Mute \<equiv> 0x4A"
abbreviation kVK_ANSI_KeypadDivide :: "'a::len word" where "kVK_ANSI_KeypadDivide \<equiv> 0x4B"
abbreviation kVK_ANSI_KeypadEnter :: "'a::len word" where "kVK_ANSI_KeypadEnter \<equiv> 0x4C"
abbreviation kVK_ANSI_KeypadMinus :: "'a::len word" where "kVK_ANSI_KeypadMinus \<equiv> 0x4E"
abbreviation kVK_F18 :: "'a::len word" where "kVK_F18 \<equiv> 0x4F"
abbreviation kVK_F19 :: "'a::len word" where "kVK_F19 \<equiv> 0x50"
abbreviation kVK_ANSI_KeypadEquals :: "'a::len word" where "kVK_ANSI_KeypadEquals \<equiv> 0x51"
abbreviation kVK_ANSI_Keypad0 :: "'a::len word" where "kVK_ANSI_Keypad0 \<equiv> 0x52"
abbreviation kVK_ANSI_Keypad1 :: "'a::len word" where "kVK_ANSI_Keypad1 \<equiv> 0x53"
abbreviation kVK_ANSI_Keypad2 :: "'a::len word" where "kVK_ANSI_Keypad2 \<equiv> 0x54"
abbreviation kVK_ANSI_Keypad3 :: "'a::len word" where "kVK_ANSI_Keypad3 \<equiv> 0x55"
abbreviation kVK_ANSI_Keypad4 :: "'a::len word" where "kVK_ANSI_Keypad4 \<equiv> 0x56"
abbreviation kVK_ANSI_Keypad5 :: "'a::len word" where "kVK_ANSI_Keypad5 \<equiv> 0x57"
abbreviation kVK_ANSI_Keypad6 :: "'a::len word" where "kVK_ANSI_Keypad6 \<equiv> 0x58"
abbreviation kVK_ANSI_Keypad7 :: "'a::len word" where "kVK_ANSI_Keypad7 \<equiv> 0x59"
abbreviation kVK_F20 :: "'a::len word" where "kVK_F20 \<equiv> 0x5A"
abbreviation kVK_ANSI_Keypad8 :: "'a::len word" where "kVK_ANSI_Keypad8 \<equiv> 0x5B"
abbreviation kVK_ANSI_Keypad9 :: "'a::len word" where "kVK_ANSI_Keypad9 \<equiv> 0x5C"
abbreviation kVK_JIS_Yen :: "'a::len word" where "kVK_JIS_Yen \<equiv> 0x5D"
abbreviation kVK_JIS_Underscore :: "'a::len word" where "kVK_JIS_Underscore \<equiv> 0x5E"
abbreviation kVK_JIS_KeypadComma :: "'a::len word" where "kVK_JIS_KeypadComma \<equiv> 0x5F"
abbreviation kVK_F5 :: "'a::len word" where "kVK_F5 \<equiv> 0x60"
abbreviation kVK_F6 :: "'a::len word" where "kVK_F6 \<equiv> 0x61"
abbreviation kVK_F7 :: "'a::len word" where "kVK_F7 \<equiv> 0x62"
abbreviation kVK_F3 :: "'a::len word" where "kVK_F3 \<equiv> 0x63"
abbreviation kVK_F8 :: "'a::len word" where "kVK_F8 \<equiv> 0x64"
abbreviation kVK_F9 :: "'a::len word" where "kVK_F9 \<equiv> 0x65"
abbreviation kVK_JIS_Eisu :: "'a::len word" where "kVK_JIS_Eisu \<equiv> 0x66"
abbreviation kVK_F11 :: "'a::len word" where "kVK_F11 \<equiv> 0x67"
abbreviation kVK_JIS_Kana :: "'a::len word" where "kVK_JIS_Kana \<equiv> 0x68"
abbreviation kVK_F13 :: "'a::len word" where "kVK_F13 \<equiv> 0x69"
abbreviation kVK_F16 :: "'a::len word" where "kVK_F16 \<equiv> 0x6A"
abbreviation kVK_F14 :: "'a::len word" where "kVK_F14 \<equiv> 0x6B"
abbreviation kVK_F10 :: "'a::len word" where "kVK_F10 \<equiv> 0x6D"
abbreviation kVK_ContextMenu :: "'a::len word" where "kVK_ContextMenu \<equiv> 0x6E"
abbreviation kVK_F12 :: "'a::len word" where "kVK_F12 \<equiv> 0x6F"
abbreviation kVK_F15 :: "'a::len word" where "kVK_F15 \<equiv> 0x71"
abbreviation kVK_Help :: "'a::len word" where "kVK_Help \<equiv> 0x72"
abbreviation kVK_Home :: "'a::len word" where "kVK_Home \<equiv> 0x73"
abbreviation kVK_PageUp :: "'a::len word" where "kVK_PageUp \<equiv> 0x74"
abbreviation kVK_ForwardDelete :: "'a::len word" where "kVK_ForwardDelete \<equiv> 0x75"
abbreviation kVK_F4 :: "'a::len word" where "kVK_F4 \<equiv> 0x76"
abbreviation kVK_End :: "'a::len word" where "kVK_End \<equiv> 0x77"
abbreviation kVK_F2 :: "'a::len word" where "kVK_F2 \<equiv> 0x78"
abbreviation kVK_PageDown :: "'a::len word" where "kVK_PageDown \<equiv> 0x79"
abbreviation kVK_F1 :: "'a::len word" where "kVK_F1 \<equiv> 0x7A"
abbreviation kVK_LeftArrow :: "'a::len word" where "kVK_LeftArrow \<equiv> 0x7B"
abbreviation kVK_RightArrow :: "'a::len word" where "kVK_RightArrow \<equiv> 0x7C"
abbreviation kVK_DownArrow :: "'a::len word" where "kVK_DownArrow \<equiv> 0x7D"
abbreviation kVK_UpArrow :: "'a::len word" where "kVK_UpArrow \<equiv> 0x7E"
abbreviation kVK_NX_Power :: "'a::len word" where "kVK_NX_Power \<equiv> 0xE6"
abbreviation kVK_NX_Eject :: "'a::len word" where "kVK_NX_Eject \<equiv> 0xEE"
abbreviation kVK_MEDIA_Play :: "'a::len word" where "kVK_MEDIA_Play \<equiv> 0xF0"
abbreviation kVK_MEDIA_Next :: "'a::len word" where "kVK_MEDIA_Next \<equiv> 0xF1"
abbreviation kVK_MEDIA_Previous :: "'a::len word" where "kVK_MEDIA_Previous \<equiv> 0xF2"
abbreviation kVK_ChangeInputSource :: "'a::len word" where "kVK_ChangeInputSource \<equiv> 0xB3"
abbreviation kVK_Undefined :: "'a::len word" where "kVK_Undefined \<equiv> 0xFF"

text \<open>The table \<^verbatim>\<open>vcode_keycode_table[][2]\<close> of macOS: rows \<^verbatim>\<open>{ vcode, keycode }\<close>.\<close>

definition darwin_vcode_keycode_table :: "(16 word \<times> 16 word) list" where
  "darwin_vcode_keycode_table = [
    (VC_A, kVK_ANSI_A),
    (VC_S, kVK_ANSI_S),
    (VC_D, kVK_ANSI_D),
    (VC_F, kVK_ANSI_F),
    (VC_H, kVK_ANSI_H),
    (VC_G, kVK_ANSI_G),
    (VC_Z, kVK_ANSI_Z),
    (VC_X, kVK_ANSI_X),
    (VC_C, kVK_ANSI_C),
    (VC_V, kVK_ANSI_V),
    (VC_102, kVK_ISO_Section),
    (VC_B, kVK_ANSI_B),
    (VC_Q, kVK_ANSI_Q),
    (VC_W, kVK_ANSI_W),
    (VC_E, kVK_ANSI_E),
    (VC_R, kVK_ANSI_R),
    (VC_Y, kVK_ANSI_Y),
    (VC_T, kVK_ANSI_T),
    (VC_1, kVK_ANSI_1),
    (VC_2, kVK_ANSI_2),
    (VC_3, kVK_ANSI_3),
    (VC_4, kVK_ANSI_4),
    (VC_6, kVK_ANSI_6),
    (VC_5, kVK_ANSI_5),
    (VC_EQUALS, kVK_ANSI_Equal),
    (VC_9, kVK_ANSI_9),
    (VC_7, kVK_ANSI_7),
    (VC_MINUS, kVK_ANSI_Minus),
    (VC_8, kVK_ANSI_8),
    (VC_0, kVK_ANSI_0),
    (VC_CLOSE_BRACKET, kVK_ANSI_RightBracket),
    (VC_O, kVK_ANSI_O),
    (VC_U, kVK_ANSI_U),
    (VC_OPEN_BRACKET, kVK_ANSI_LeftBracket),
    (VC_I, kVK_ANSI_I),
    (VC_P, kVK_ANSI_P),
    (VC_ENTER, kVK_Return),
    (VC_L, kVK_ANSI_L),
    (VC_J, kVK_ANSI_J),
    (VC_QUOTE, kVK_ANSI_Quote),
    (VC_K, kVK_ANSI_K),
    (VC_SEMICOLON, kVK_ANSI_Semicolon),
    (VC_BACK_SLASH, kVK_ANSI_Backslash),
    (VC_COMMA, kVK_ANSI_Comma),
    (VC_SLASH, kVK_ANSI_Slash),
    (VC_N, kVK_ANSI_N),
    (VC_M, kVK_ANSI_M),
    (VC_PERIOD, kVK_ANSI_Period),
    (VC_TAB, kVK_Tab),
    (VC_SPACE, kVK_Space),
    (VC_BACK_QUOTE, kVK_ANSI_Grave),
    (VC_BACKSPACE, kVK_Delete),
    (VC_ESCAPE, kVK_Escape),
    (VC_META_R, kVK_RightCommand),
    (VC_META_L, kVK_Command),
    (VC_SHIFT_L, kVK_Shift),
    (VC_CAPS_LOCK, kVK_CapsLock),
    (VC_ALT_L, kVK_Option),
    (VC_CONTROL_L, kVK_Control),
    (VC_SHIFT_R, kVK_RightShift),
    (VC_ALT_R, kVK_RightOption),
    (VC_CONTROL_R, kVK_RightControl),
    (VC_FUNCTION, kVK_Function),
    (VC_F17, kVK_F17),
    (VC_KP_DECIMAL, kVK_ANSI_KeypadDecimal),
    (VC_KP_MULTIPLY, kVK_ANSI_KeypadMultiply),
    (VC_KP_ADD, kVK_ANSI_KeypadPlus),
    (VC_KP_CLEAR, kVK_ANSI_KeypadClear),
    (VC_VOLUME_UP, kVK_VolumeUp),
    (VC_VOLUME_DOWN, kVK_VolumeDown),
    (VC_VOLUME_MUTE, kVK_Mute),
    (VC_KP_DIVIDE, kVK_ANSI_KeypadDivide),
    (VC_KP_ENTER, kVK_ANSI_KeypadEnter),
    (VC_KP_SUBTRACT, kVK_ANSI_KeypadMinus),
    (VC_F18, kVK_F18),
    (VC_F19, kVK_F19),
    (VC_KP_EQUALS, kVK_ANSI_KeypadEquals),
    (VC_KP_0, kVK_ANSI_Keypad0),
    (VC_KP_1, kVK_ANSI_Keypad1),
    (VC_KP_2, kVK_ANSI_Keypad2),
    (VC_KP_3, kVK_ANSI_Keypad3),
    (VC_KP_4, kVK_ANSI_Keypad4),
    (VC_KP_5, kVK_ANSI_Keypad5),
    (VC_KP_6, kVK_ANSI_Keypad6),
    (VC_KP_7, kVK_ANSI_Keypad7),
    (VC_F20, kVK_F20),
    (VC_KP_8, kVK_ANSI_Keypad8),
    (VC_KP_9, kVK_ANSI_Keypad9),
    (VC_YEN, kVK_JIS_Yen),
    (VC_UNDERSCORE, kVK_JIS_Underscore),
    (VC_JP_COMMA, kVK_JIS_KeypadComma),
    (VC_F5, kVK_F5),
    (VC_F6, kVK_F6),
    (VC_F7, kVK_F7),
    (VC_F3, kVK_F3),
    (VC_F8, kVK_F8),
    (VC_F9, kVK_F9),
    (VC_ALPHANUMERIC, kVK_JIS_Eisu),
    (VC_F11, kVK_F11),
    (VC_KANA, kVK_JIS_Kana),
    (VC_F13, kVK_F13),
    (VC_F16, kVK_F16),
    (VC_F14, kVK_F14),
    (VC_F10, kVK_F10),
    (VC_CONTEXT_MENU, kVK_ContextMenu),
    (VC_F12, kVK_F12),
    (VC_F15, kVK_F15),
    (VC_HELP, kVK_Help),
    (VC_HOME, kVK_Home),
    (VC_PAGE_UP, kVK_PageUp),
    (VC_DELETE, kVK_ForwardDelete),
    (VC_F4, kVK_F4),
    (VC_END, kVK_End),
    (VC_F2, kVK_F2),
    (VC_PAGE_DOWN, kVK_PageDown),
    (VC_F1, kVK_F1),
    (VC_LEFT, kVK_LeftArrow),
    (VC_RIGHT, kVK_RightArrow),
    (VC_DOWN, kVK_DownArrow),
    (VC_UP, kVK_UpArrow),
    (VC_POWER, kVK_NX_Power),
    (VC_MEDIA_EJECT, kVK_NX_Eject),
    (VC_MEDIA_PLAY, kVK_MEDIA_Play),
    (VC_MEDIA_NEXT, kVK_MEDIA_Next),
    (VC_MEDIA_PREVIOUS, kVK_MEDIA_Previous),
    (VC_CHANGE_INPUT_SOURCE, kVK_ChangeInputSource)
  ]"

fun darwin_keycode_scan :: "(16 word \<times> 16 word) list \<Rightarrow> 64 word \<Rightarrow> 16 word \<Rightarrow> 16 word" where
  "darwin_keycode_scan [] keycode vcode = vcode"
| "darwin_keycode_scan (row # rows) keycode vcode =
     (if keycode = ucast (snd row) then fst row else darwin_keycode_scan rows keycode vcode)"

fun darwin_vcode_scan :: "(16 word \<times> 16 word) list \<Rightarrow> 16 word \<Rightarrow> 64 word \<Rightarrow> 64 word" where
  "darwin_vcode_scan [] vcode keycode = keycode"
| "darwin_vcode_scan (row # rows) vcode keycode =
     (if vcode = fst row then ucast (snd row) else darwin_vcode_scan rows vcode keycode)"

definition darwin_keycode_to_vcode :: "64 word \<Rightarrow> 16 word" where
  "darwin_keycode_to_vcode keycode = darwin_keycode_scan darwin_vcode_keycode_table keycode VC_UNDEFINED"

definition darwin_vcode_to_keycode :: "16 word \<Rightarrow> 64 word" where
  "darwin_vcode_to_keycode vcode = darwin_vcode_scan darwin_vcode_keycode_table vcode kVK_Undefined"

text \<open>
  \<^verbatim>\<open>tis_message_to_unicode\<close> fills a \<^verbatim>\<open>TISKeycodeMessage\<close>.  The argument is \<open>None\<close> for a null
  \<^verbatim>\<open>info\<close>; \<open>tis_event\<close> is \<open>None\<close> for a null event reference.  The buffer is the memory
  behind \<^verbatim>\<open>tis->buffer\<close>, read by index.  Between the reset of the length and the final filter
  the source asks the operating system for the characters (\<^verbatim>\<open>UCKeyTranslate\<close> with the
  caps-lock treatment, or \<^verbatim>\<open>CGEventKeyboardGetUnicodeString\<close>, depending on the build); that
  part writes \<^verbatim>\<open>tis->length\<close> and \<^verbatim>\<open>tis->buffer\<close> only and is the parameter \<open>os_lookup\<close>.
\<close>

record TISKeycodeMessage =
  tis_event :: "nat option"
  tis_buffer :: "nat \<Rightarrow> 16 word"
  tis_size :: nat
  tis_length :: nat

definition tis_message_to_unicode ::
  "(TISKeycodeMessage \<Rightarrow> nat \<times> (nat \<Rightarrow> 16 word)) \<Rightarrow> TISKeycodeMessage option
    \<Rightarrow> TISKeycodeMessage option" where
  "tis_message_to_unicode os_lookup info =
     (case info of
        None \<Rightarrow> None
      | Some tis \<Rightarrow>
          (if tis_event tis = None then Some tis
           else
             (let tis = tis\<lparr>tis_length := 0\<rparr>;
                  (len, buf) = os_lookup tis;
                  tis = tis\<lparr>tis_length := len, tis_buffer := buf\<rparr>
              in Some
                   (if tis_length tis = 1 then
                      (if tis_buffer tis 0 \<in> {0x01, 0x04, 0x05, 0x10, 0x0B, 0x0C, 0x1F}
                       then tis\<lparr>tis_length := 0\<rparr> else tis)
                    else tis))))"

text \<open>
  \<^verbatim>\<open>event_to_unicode\<close>.  The message starts with length 0.  On the main run loop
  (\<^verbatim>\<open>CFEqual(CFRunLoopGetCurrent(), CFRunLoopGetMain())\<close>, the argument \<open>on_main_runloop\<close>)
  \<^verbatim>\<open>tis_message_to_unicode\<close> is called directly.  Off the main run loop it is run through
  \<^verbatim>\<open>dispatch_sync_f\<close> when that function and the main queue were found at start-up (the argument
  \<open>dispatch_sync_f_loaded\<close>).  Otherwise nothing runs it: without \<^verbatim>\<open>USE_APPLICATION_SERVICES\<close>
  there is no other branch, and with it the fallback passes the null pointer \<^verbatim>\<open>context\<close> by
  value to \<^verbatim>\<open>CFRunLoopSourceGetContext\<close>, finds it null afterwards and only logs an error.  On
  that path the message keeps length 0 and the buffer is not written.  The result is the
  length that is returned, together with the buffer.
\<close>

definition event_to_unicode ::
  "(TISKeycodeMessage \<Rightarrow> nat \<times> (nat \<Rightarrow> 16 word)) \<Rightarrow> bool \<Rightarrow> bool \<Rightarrow> nat option
    \<Rightarrow> (nat \<Rightarrow> 16 word) \<Rightarrow> nat \<Rightarrow> nat \<times> (nat \<Rightarrow> 16 word)" where
  "event_to_unicode os_lookup on_main_runloop dispatch_sync_f_loaded event_ref buffer sz =
     (let tis_keycode_message =
            \<lparr>tis_event = event_ref, tis_buffer = buffer, tis_size = sz, tis_length = 0\<rparr>;
          tis_keycode_message =
            (if \<not> on_main_runloop then
               (if dispatch_sync_f_loaded then
                  (case tis_message_to_unicode os_lookup (Some tis_keycode_message) of
                     Some m \<Rightarrow> m
                   | None \<Rightarrow> tis_keycode_message)
                else tis_keycode_message)
             else
               (case tis_message_to_unicode os_lookup (Some tis_keycode_message) of
                  Some m \<Rightarrow> m
                | None \<Rightarrow> tis_keycode_message))
      in (tis_length tis_keycode_message, tis_buffer tis_keycode_message))"

text \<open>
  Modelled from the spec: the part of the macOS dispatcher that follows a \<^verbatim>\<open>KEY_PRESSED\<close>
  event.  It is the caller of \<^verbatim>\<open>event_to_unicode\<close> and lives in \<^verbatim>\<open>darwin/dispatch_event.c\<close>, which
  is not among the sources.  Section 4.4 of the specification: after the \<^verbatim>\<open>KEY_PRESSED\<close>
  event the typed characters are resolved; no \<^verbatim>\<open>KEY_TYPED\<close> event is emitted when the resolved
  result is empty, and otherwise one \<^verbatim>\<open>KEY_TYPED\<close> event is emitted per UTF-16 unit, in order,
  whose \<^verbatim>\<open>keychar\<close> is the unit (widened to \<^verbatim>\<open>wchar_t\<close>) and whose key code is that of the
  \<^verbatim>\<open>KEY_PRESSED\<close> event.  The result that is empty or not is the one that \<^verbatim>\<open>event_to_unicode\<close>
  returns: the rule for the non-character codes is applied by \<^verbatim>\<open>tis_message_to_unicode\<close>, which
  is from the source.
\<close>

definition key_typed_events ::
  "(TISKeycodeMessage \<Rightarrow> nat \<times> (nat \<Rightarrow> 16 word)) \<Rightarrow> bool \<Rightarrow> bool \<Rightarrow> nat option
    \<Rightarrow> (nat \<Rightarrow> 16 word) \<Rightarrow> nat \<Rightarrow> uiohook_event \<Rightarrow> uiohook_event list" where
  "key_typed_events os_lookup on_main_runloop dispatch_sync_f_loaded event_ref buffer sz pressed =
     (let (len, buf) =
            event_to_unicode os_lookup on_main_runloop dispatch_sync_f_loaded event_ref buffer sz
      in map (\<lambda>i. pressed\<lparr>ev_type := EVENT_KEY_TYPED,
                      data_keyboard := (data_keyboard pressed)\<lparr>kb_keychar := ucast (buf i)\<rparr>\<rparr>)
           [0..<len])"

section \<open>macOS: \<^verbatim>\<open>darwin/post_event.c\<close>\<close>

text \<open>
  Event types, mouse buttons and flag masks of Core Graphics (\<^verbatim>\<open>CGEventTypes.h\<close>).  Only the
  event types that the file names are listed.  \<^verbatim>\<open>CGFloat\<close> is a \<^verbatim>\<open>double\<close>: its values are
  kept abstract, as the type variable \<open>'f\<close>, and the two floating-point operations that the
  file performs on them are taken from the environment further down.
\<close>

datatype CGEventType =
    kCGEventNull
  | kCGEventLeftMouseDown
  | kCGEventLeftMouseUp
  | kCGEventRightMouseDown
  | kCGEventRightMouseUp
  | kCGEventMouseMoved
  | kCGEventLeftMouseDragged
  | kCGEventRightMouseDragged
  | kCGEventOtherMouseDown
  | kCGEventOtherMouseUp
  | kCGEventOtherMouseDragged

datatype CGScrollEventUnit = kCGScrollEventUnitPixel | kCGScrollEventUnitLine

abbreviation kCGMouseButtonLeft :: "32 word" where "kCGMouseButtonLeft \<equiv> 0"
abbreviation kCGMouseButtonRight :: "32 word" where "kCGMouseButtonRight \<equiv> 1"

abbreviation kCGEventFlagMaskShift :: "64 word" where "kCGEventFlagMaskShift \<equiv> 0x00020000"
abbreviation kCGEventFlagMaskControl :: "64 word" where "kCGEventFlagMaskControl \<equiv> 0x00040000"
abbreviation kCGEventFlagMaskAlternate :: "64 word" where "kCGEventFlagMaskAlternate \<equiv> 0x00080000"
abbreviation kCGEventFlagMaskCommand :: "64 word" where "kCGEventFlagMaskCommand \<equiv> 0x00100000"
abbreviation kCGEventFlagMaskNumericPad :: "64 word" where "kCGEventFlagMaskNumericPad \<equiv> 0x00200000"

text \<open>An event handed to \<^verbatim>\<open>CGEventPost\<close>, with what the file has set on it.\<close>

datatype 'f cg_event =
    CG_keyboard_event (cg_keycode: "16 word") (cg_key_down: bool) (cg_flags: "64 word")
  | CG_mouse_event (cg_type: CGEventType) (cg_point: "'f \<times> 'f") (cg_button: "32 word")
      (cg_click_state: "16 word option")
  | CG_scroll_event (cg_unit: CGScrollEventUnit) (cg_wheel1: "32 word") (cg_wheel2: "32 word")

text \<open>
  The three file-level variables of \<^verbatim>\<open>darwin/post_event.c\<close> and the log of the posted events,
  oldest first.
\<close>

record 'f darwin_state =
  current_modifier_mask :: "64 word"
  current_motion_event :: CGEventType
  current_motion_button :: "32 word"
  cg_posted :: "'f cg_event list"

definition darwin_initial_state :: "'f darwin_state" where
  "darwin_initial_state =
     \<lparr>current_modifier_mask = 0x00, current_motion_event = kCGEventMouseMoved,
      current_motion_button = 0, cg_posted = []\<rparr>"

text \<open>
  What Core Graphics answers during one call: whether each constructor delivers an object,
  and where the pointer is (\<^verbatim>\<open>CGEventGetLocation\<close> of a fresh event).  The last two fields are
  the floating-point operations of the platform on \<^verbatim>\<open>CGFloat\<close>: the conversion
  \<^verbatim>\<open>(CGFloat) event->data.mouse.x\<close> of an \<^verbatim>\<open>int16_t\<close>, and the sum that \<^verbatim>\<open>point.x += ...\<close> computes.
  Nothing is assumed about either.
\<close>

record 'f darwin_env =
  CGEventSourceCreate_ok :: bool
  CGEventCreateKeyboardEvent_ok :: bool
  CGEventCreateMouseEvent_ok :: bool
  CGEventCreateScrollWheelEvent_ok :: bool
  CGEventGetLocation :: "'f \<times> 'f"
  CGFloat_of_int16 :: "16 word \<Rightarrow> 'f"
  CGFloat_add :: "'f \<Rightarrow> 'f \<Rightarrow> 'f"

definition darwin_post_key_event ::
  "'f darwin_env \<Rightarrow> uiohook_event \<Rightarrow> 'f darwin_state \<Rightarrow> int \<times> 'f darwin_state" where
  "darwin_post_key_event env event st =
     (let kc = kb_keycode (data_keyboard event);
          modifier_flag =
            (if kc = VC_SHIFT_L \<or> kc = VC_SHIFT_R then Some kCGEventFlagMaskShift
             else if kc = VC_CONTROL_L \<or> kc = VC_CONTROL_R then Some kCGEventFlagMaskControl
             else if kc = VC_META_L \<or> kc = VC_META_R then Some kCGEventFlagMaskCommand
             else if kc = VC_ALT_L \<or> kc = VC_ALT_R then Some kCGEventFlagMaskAlternate
             else None)
      in
        if ev_type event \<noteq> EVENT_KEY_PRESSED \<and> ev_type event \<noteq> EVENT_KEY_RELEASED
        then (UIOHOOK_FAILURE, st)
        else
          (let is_pressed = (ev_type event = EVENT_KEY_PRESSED);
               st = (case modifier_flag of
                       None \<Rightarrow> st
                     | Some flag \<Rightarrow>
                         if is_pressed
                         then st\<lparr>current_modifier_mask := current_modifier_mask st OR flag\<rparr>
                         else st\<lparr>current_modifier_mask := current_modifier_mask st AND NOT flag\<rparr>);
               event_mask = current_modifier_mask st;
               event_mask =
                 (if kc \<in> {VC_KP_0, VC_KP_1, VC_KP_2, VC_KP_3, VC_KP_4, VC_KP_5, VC_KP_6, VC_KP_7,
                            VC_KP_8, VC_KP_9, VC_NUM_LOCK, VC_KP_ENTER, VC_KP_MULTIPLY, VC_KP_ADD,
                            VC_KP_SEPARATOR, VC_KP_SUBTRACT, VC_KP_DIVIDE}
                  then event_mask OR kCGEventFlagMaskNumericPad else event_mask);
               keycode = (ucast (darwin_vcode_to_keycode kc) :: 16 word)
           in if keycode = kVK_Undefined then (UIOHOOK_FAILURE, st)
              else if \<not> CGEventCreateKeyboardEvent_ok env then (UIOHOOK_ERROR_OUT_OF_MEMORY, st)
              else (UIOHOOK_SUCCESS,
                    st\<lparr>cg_posted := cg_posted st @ [CG_keyboard_event keycode is_pressed event_mask]\<rparr>)))"

definition darwin_post_mouse_event ::
  "'f darwin_env \<Rightarrow> uiohook_event \<Rightarrow> 'f darwin_state \<Rightarrow> int \<times> 'f darwin_state" where
  "darwin_post_mouse_event env event st =
     (let b = m_button (data_mouse event);
          switched =
            (if ev_type event = EVENT_MOUSE_PRESSED \<or> ev_type event = EVENT_MOUSE_PRESSED_IGNORE_COORDS then
               (if b = MOUSE_NOBUTTON then None
                else
                  (let (ty, btn, motion) =
                         (if b = MOUSE_BUTTON1
                          then (kCGEventLeftMouseDown, kCGMouseButtonLeft, kCGEventLeftMouseDragged)
                          else if b = MOUSE_BUTTON2
                          then (kCGEventRightMouseDown, kCGMouseButtonRight, kCGEventRightMouseDragged)
                          else (kCGEventOtherMouseDown, ucast b - 1, kCGEventOtherMouseDragged))
                   in Some (ty, btn, st\<lparr>current_motion_event := motion, current_motion_button := btn\<rparr>)))
             else if ev_type event = EVENT_MOUSE_RELEASED \<or> ev_type event = EVENT_MOUSE_RELEASED_IGNORE_COORDS then
               (if b = MOUSE_NOBUTTON then None
                else
                  (let (ty, btn, dragged) =
                         (if b = MOUSE_BUTTON1
                          then (kCGEventLeftMouseUp, kCGMouseButtonLeft, kCGEventLeftMouseDragged)
                          else if b = MOUSE_BUTTON2
                          then (kCGEventRightMouseUp, kCGMouseButtonRight, kCGEventRightMouseDragged)
                          else (kCGEventOtherMouseUp, ucast b - 1, kCGEventOtherMouseDragged));
                       st = (if current_motion_event st = dragged
                             then st\<lparr>current_motion_event := kCGEventMouseMoved\<rparr> else st)
                   in Some (ty, btn, st\<lparr>current_motion_button := btn\<rparr>)))
             else if ev_type event = EVENT_MOUSE_MOVED \<or> ev_type event = EVENT_MOUSE_DRAGGED
                   \<or> ev_type event = EVENT_MOUSE_MOVED_RELATIVE_TO_CURSOR then
               Some (current_motion_event st, current_motion_button st, st)
             else None)
      in case switched of
           None \<Rightarrow> (UIOHOOK_FAILURE, st)
         | Some (ty, btn, st) \<Rightarrow>
             (let ex = CGFloat_of_int16 env (m_x (data_mouse event));
                  ey = CGFloat_of_int16 env (m_y (data_mouse event));
                  point =
                    (if ev_type event = EVENT_MOUSE_PRESSED_IGNORE_COORDS
                        \<or> ev_type event = EVENT_MOUSE_RELEASED_IGNORE_COORDS
                     then CGEventGetLocation env
                     else if ev_type event = EVENT_MOUSE_MOVED_RELATIVE_TO_CURSOR
                     then (CGFloat_add env (fst (CGEventGetLocation env)) ex,
                           CGFloat_add env (snd (CGEventGetLocation env)) ey)
                     else (ex, ey))
              in if \<not> CGEventCreateMouseEvent_ok env then (UIOHOOK_ERROR_OUT_OF_MEMORY, st)
                 else
                   (let click_state = (if m_clicks (data_mouse event) \<noteq> 0
                                       then Some (m_clicks (data_mouse event)) else None)
                    in (UIOHOOK_SUCCESS,
                        st\<lparr>cg_posted := cg_posted st @ [CG_mouse_event ty point btn click_state]\<rparr>))))"

definition darwin_post_mouse_wheel_event ::
  "'f darwin_env \<Rightarrow> uiohook_event \<Rightarrow> 'f darwin_state \<Rightarrow> int \<times> 'f darwin_state" where
  "darwin_post_mouse_wheel_event env event st =
     (let scroll_unit = (if w_type (data_wheel event) = WHEEL_BLOCK_SCROLL
                         then kCGScrollEventUnitLine else kCGScrollEventUnitPixel);
          r = (scast (w_rotation (data_wheel event)) :: 32 word);
          (wheel1, wheel2) = (if w_direction (data_wheel event) = WHEEL_HORIZONTAL_DIRECTION
                              then (0, r) else (r, 0))
      in if \<not> CGEventCreateScrollWheelEvent_ok env then (UIOHOOK_ERROR_OUT_OF_MEMORY, st)
         else (UIOHOOK_SUCCESS,
               st\<lparr>cg_posted := cg_posted st @ [CG_scroll_event scroll_unit wheel1 wheel2]\<rparr>))"

definition darwin_hook_post_event ::
  "'f darwin_env \<Rightarrow> uiohook_event \<Rightarrow> 'f darwin_state \<Rightarrow> int \<times> 'f darwin_state" where
  "darwin_hook_post_event env event st =
     (if \<not> CGEventSourceCreate_ok env then (UIOHOOK_ERROR_OUT_OF_MEMORY, st)
      else if ev_type event = EVENT_KEY_PRESSED \<or> ev_type event = EVENT_KEY_RELEASED then
        darwin_post_key_event env event st
      else if ev_type event \<in> {EVENT_MOUSE_PRESSED, EVENT_MOUSE_RELEASED,
             EVENT_MOUSE_PRESSED_IGNORE_COORDS, EVENT_MOUSE_RELEASED_IGNORE_COORDS,
             EVENT_MOUSE_MOVED, EVENT_MOUSE_DRAGGED, EVENT_MOUSE_MOVED_RELATIVE_TO_CURSOR} then
        darwin_post_mouse_event env event st
      else if ev_type event = EVENT_MOUSE_WHEEL then darwin_post_mouse_wheel_event env event st
      else (UIOHOOK_FAILURE, st))"

text \<open>A run of calls of \<^verbatim>\<open>hook_post_event\<close>, each with the answers of its moment.\<close>

fun darwin_post_events ::
  "('f darwin_env \<times> uiohook_event) list \<Rightarrow> 'f darwin_state \<Rightarrow> 'f darwin_state" where
  "darwin_post_events [] st = st"
| "darwin_post_events (c # cs) st = darwin_post_events cs (snd (darwin_hook_post_event (fst c) (snd c) st))"

section \<open>X11: \<^verbatim>\<open>x11/input_helper.c\<close>\<close>

text \<open>
  A row of the X11 table holds the virtual code, the symbolic Xkb key name and the key code
  that is found for the name at run time.  The table is a file-level array with static
  storage: \<^verbatim>\<open>x11_key_code\<close> is zero until \<^verbatim>\<open>load_key_mappings\<close> writes it.
\<close>

record key_mapping =
  km_vcode :: "16 word"
  x11_key_name :: string
  x11_key_code :: "32 word"

definition initial_key_mapping :: "16 word \<times> string \<Rightarrow> key_mapping" where
  "initial_key_mapping row = \<lparr>km_vcode = fst row, x11_key_name = snd row, x11_key_code = 0\<rparr>"

text \<open>The initialiser of \<^verbatim>\<open>vcode_keycode_table[]\<close>: virtual code and key name of each row.\<close>

definition x11_table_rows :: "(16 word \<times> string) list" where
  "x11_table_rows = [
    (VC_ESCAPE, ''ESC''),
    (VC_F1, ''FK01''),
    (VC_F2, ''FK02''),
    (VC_F3, ''FK03''),
    (VC_F4, ''FK04''),
    (VC_F5, ''FK05''),
    (VC_F6, ''FK06''),
    (VC_F7, ''FK07''),
    (VC_F8, ''FK08''),
    (VC_F9, ''FK09''),
    (VC_F10, ''FK10''),
    (VC_F11, ''FK11''),
    (VC_F12, ''FK12''),
    (VC_F13, ''FK13''),
    (VC_F14, ''FK14''),
    (VC_F15, ''FK15''),
    (VC_F16, ''FK16''),
    (VC_F17, ''FK17''),
    (VC_F18, ''FK18''),
    (VC_F19, ''FK19''),
    (VC_F20, ''FK20''),
    (VC_F21, ''FK21''),
    (VC_F22, ''FK22''),
    (VC_F23, ''FK23''),
    (VC_F24, ''FK24''),
    (VC_BACK_QUOTE, ''TLDE''),
    (VC_1, ''AE01''),
    (VC_2, ''AE02''),
    (VC_3, ''AE03''),
    (VC_4, ''AE04''),
    (VC_5, ''AE05''),
    (VC_6, ''AE06''),
    (VC_7, ''AE07''),
    (VC_8, ''AE08''),
    (VC_9, ''AE09''),
    (VC_0, ''AE10''),
    (VC_MINUS, ''AE11''),
    (VC_EQUALS, ''AE12''),
    (VC_BACKSPACE, ''BKSP''),
    (VC_TAB, ''TAB''),
    (VC_Q, ''AD01''),
    (VC_W, ''AD02''),
    (VC_E, ''AD03''),
    (VC_R, ''AD04''),
    (VC_T, ''AD05''),
    (VC_Y, ''AD06''),
    (VC_U, ''AD07''),
    (VC_I, ''AD08''),
    (VC_O, ''AD09''),
    (VC_P, ''AD10''),
    (VC_OPEN_BRACKET, ''AD11''),
    (VC_CLOSE_BRACKET, ''AD12''),
    (VC_ENTER, ''RTRN''),
    (VC_CAPS_LOCK, ''CAPS''),
    (VC_A, ''AC01''),
    (VC_S, ''AC02''),
    (VC_D, ''AC03''),
    (VC_F, ''AC04''),
    (VC_G, ''AC05''),
    (VC_H, ''AC06''),
    (VC_J, ''AC07''),
    (VC_K, ''AC08''),
    (VC_L, ''AC09''),
    (VC_SEMICOLON, ''AC10''),
    (VC_QUOTE, ''AC11''),
    (VC_BACK_SLASH, ''AC12''),
    (VC_BACK_SLASH, ''BKSL''),
    (VC_SHIFT_L, ''LFSH''),
    (VC_Z, ''AB01''),
    (VC_X, ''AB02''),
    (VC_C, ''AB03''),
    (VC_V, ''AB04''),
    (VC_B, ''AB05''),
    (VC_N, ''AB06''),
    (VC_M, ''AB07''),
    (VC_COMMA, ''AB08''),
    (VC_PERIOD, ''AB09''),
    (VC_SLASH, ''AB10''),
    (VC_SHIFT_R, ''RTSH''),
    (VC_102, ''LSGT''),
    (VC_ALT_L, ''LALT''),
    (VC_CONTROL_L, ''LCTL''),
    (VC_META_L, ''LWIN''),
    (VC_META_L, ''LMTA''),
    (VC_SPACE, ''SPCE''),
    (VC_META_R, ''RWIN''),
    (VC_META_R, ''RMTA''),
    (VC_CONTROL_R, ''RCTL''),
    (VC_ALT_R, ''RALT''),
    (VC_CONTEXT_MENU, ''COMP''),
    (VC_CONTEXT_MENU, ''MENU''),
    (VC_PRINT_SCREEN, ''PRSC''),
    (VC_SCROLL_LOCK, ''SCLK''),
    (VC_PAUSE, ''PAUS''),
    (VC_INSERT, ''INS''),
    (VC_HOME, ''HOME''),
    (VC_PAGE_UP, ''PGUP''),
    (VC_DELETE, ''DELE''),
    (VC_END, ''END''),
    (VC_PAGE_DOWN, ''PGDN''),
    (VC_UP, ''UP''),
    (VC_LEFT, ''LEFT''),
    (VC_DOWN, ''DOWN''),
    (VC_RIGHT, ''RGHT''),
    (VC_NUM_LOCK, ''NMLK''),
    (VC_KP_DIVIDE, ''KPDV''),
    (VC_KP_MULTIPLY, ''KPMU''),
    (VC_KP_SUBTRACT, ''KPSU''),
    (VC_KP_7, ''KP7''),
    (VC_KP_8, ''KP8''),
    (VC_KP_9, ''KP9''),
    (VC_KP_ADD, ''KPAD''),
    (VC_KP_4, ''KP4''),
    (VC_KP_5, ''KP5''),
    (VC_KP_6, ''KP6''),
    (VC_KP_1, ''KP1''),
    (VC_KP_2, ''KP2''),
    (VC_KP_3, ''KP3''),
    (VC_KP_ENTER, ''KPEN''),
    (VC_KP_0, ''KP0''),
    (VC_KP_DECIMAL, ''KPDL''),
    (VC_KP_EQUALS, ''KPEQ''),
    (VC_KATAKANA_HIRAGANA, ''HKTG''),
    (VC_UNDERSCORE, ''AB11''),
    (VC_CONVERT, ''HENK''),
    (VC_NONCONVERT, ''MUHE''),
    (VC_YEN, ''AE13''),
    (VC_KATAKANA, ''KATA''),
    (VC_HIRAGANA, ''HIRA''),
    (VC_JP_COMMA, ''JPCM''),
    (VC_HANGUL, ''HNGL''),
    (VC_HANJA, ''HJCV''),
    (VC_VOLUME_MUTE, ''MUTE''),
    (VC_VOLUME_DOWN, ''VOL-''),
    (VC_VOLUME_UP, ''VOL+''),
    (VC_POWER, ''POWR''),
    (VC_STOP, ''STOP''),
    (VC_AGAIN, ''AGAI''),
    (VC_PROPS, ''PROP''),
    (VC_UNDO, ''UNDO''),
    (VC_FRONT, ''FRNT''),
    (VC_COPY, ''COPY''),
    (VC_OPEN, ''OPEN''),
    (VC_PASTE, ''PAST''),
    (VC_FIND, ''FIND''),
    (VC_CUT, ''CUT''),
    (VC_HELP, ''HELP''),
    (VC_SWITCH_VIDEO_MODE, ''OUTP''),
    (VC_KEYBOARD_LIGHT_TOGGLE, ''KITG''),
    (VC_KEYBOARD_LIGHT_DOWN, ''KIDN''),
    (VC_KEYBOARD_LIGHT_UP, ''KIUP''),
    (VC_LINE_FEED, ''LNFD''),
    (VC_MACRO, ''I120''),
    (VC_VOLUME_MUTE, ''I121''),
    (VC_VOLUME_DOWN, ''I122''),
    (VC_VOLUME_UP, ''I123''),
    (VC_POWER, ''I124''),
    (VC_KP_EQUALS, ''I125''),
    (VC_KP_PLUS_MINUS, ''I126''),
    (VC_PAUSE, ''I127''),
    (VC_SCALE, ''I128''),
    (VC_KP_SEPARATOR, ''I129''),
    (VC_HANGUL, ''I130''),
    (VC_HANJA, ''I131''),
    (VC_YEN, ''I132''),
    (VC_META_L, ''I133''),
    (VC_META_R, ''I134''),
    (VC_CONTEXT_MENU, ''I135''),
    (VC_STOP, ''I136''),
    (VC_AGAIN, ''I137''),
    (VC_PROPS, ''I138''),
    (VC_UNDO, ''I139''),
    (VC_FRONT, ''I140''),
    (VC_COPY, ''I141''),
    (VC_OPEN, ''I142''),
    (VC_PASTE, ''I143''),
    (VC_FIND, ''I144''),
    (VC_CUT, ''I145''),
    (VC_HELP, ''I146''),
    (VC_CONTEXT_MENU, ''I147''),
    (VC_APP_CALCULATOR, ''I148''),
    (VC_SETUP, ''I149''),
    (VC_SLEEP, ''I150''),
    (VC_WAKE, ''I151''),
    (VC_FILE, ''I152''),
    (VC_SEND_FILE, ''I153''),
    (VC_DELETE_FILE, ''I154''),
    (VC_MODE_CHANGE, ''I155''),
    (VC_APP_1, ''I156''),
    (VC_APP_2, ''I157''),
    (VC_APP_BROWSER, ''I158''),
    (VC_MS_DOS, ''I159''),
    (VC_LOCK, ''I160''),
    (VC_ROTATE_DISPLAY, ''I161''),
    (VC_CYCLE_WINDOWS, ''I162''),
    (VC_APP_MAIL, ''I163''),
    (VC_BROWSER_FAVORITES, ''I164''),
    (VC_COMPUTER, ''I165''),
    (VC_BROWSER_BACK, ''I166''),
    (VC_BROWSER_FORWARD, ''I167''),
    (VC_MEDIA_CLOSE, ''I168''),
    (VC_MEDIA_EJECT, ''I169''),
    (VC_MEDIA_EJECT_CLOSE, ''I170''),
    (VC_MEDIA_NEXT, ''I171''),
    (VC_MEDIA_PLAY, ''I172''),
    (VC_MEDIA_PREVIOUS, ''I173''),
    (VC_MEDIA_STOP, ''I174''),
    (VC_MEDIA_RECORD, ''I175''),
    (VC_MEDIA_REWIND, ''I176''),
    (VC_PHONE, ''I177''),
    (VC_ISO, ''I178''),
    (VC_CONFIG, ''I179''),
    (VC_BROWSER_HOME, ''I180''),
    (VC_BROWSER_REFRESH, ''I181''),
    (VC_EXIT, ''I182''),
    (VC_MOVE, ''I183''),
    (VC_EDIT, ''I184''),
    (VC_SCROLL_UP, ''I185''),
    (VC_SCROLL_DOWN, ''I186''),
    (VC_KP_OPEN_PARENTHESIS, ''I187''),
    (VC_KP_CLOSE_PARENTHESIS, ''I188''),
    (VC_NEW, ''I189''),
    (VC_REDO, ''I190''),
    (VC_F13, ''I191''),
    (VC_F14, ''I192''),
    (VC_F15, ''I193''),
    (VC_F16, ''I194''),
    (VC_F17, ''I195''),
    (VC_F18, ''I196''),
    (VC_F19, ''I197''),
    (VC_F20, ''I198''),
    (VC_F21, ''I199''),
    (VC_F22, ''I200''),
    (VC_F23, ''I201''),
    (VC_F24, ''I202''),
    (VC_PLAY_CD, ''I208''),
    (VC_PAUSE_CD, ''I209''),
    (VC_APP_3, ''I210''),
    (VC_APP_4, ''I211''),
    (VC_DASHBOARD, ''I212''),
    (VC_SUSPEND, ''I213''),
    (VC_CLOSE, ''I214''),
    (VC_PLAY, ''I215''),
    (VC_FAST_FORWARD, ''I216''),
    (VC_BASS_BOOST, ''I217''),
    (VC_PRINT, ''I218''),
    (VC_HP, ''I219''),
    (VC_CAMERA, ''I220''),
    (VC_SOUND, ''I221''),
    (VC_QUESTION, ''I222''),
    (VC_EMAIL, ''I223''),
    (VC_CHAT, ''I224''),
    (VC_BROWSER_SEARCH, ''I225''),
    (VC_CONNECT, ''I226''),
    (VC_FINANCE, ''I227''),
    (VC_SPORT, ''I228''),
    (VC_SHOP, ''I229''),
    (VC_ALT_ERASE, ''I230''),
    (VC_CANCEL, ''I231''),
    (VC_BRIGTNESS_DOWN, ''I232''),
    (VC_BRIGTNESS_UP, ''I233''),
    (VC_MEDIA, ''I234''),
    (VC_SWITCH_VIDEO_MODE, ''I235''),
    (VC_KEYBOARD_LIGHT_TOGGLE, ''I236''),
    (VC_KEYBOARD_LIGHT_DOWN, ''I237''),
    (VC_KEYBOARD_LIGHT_UP, ''I238''),
    (VC_SEND, ''I239''),
    (VC_REPLY, ''I240''),
    (VC_FORWARD_MAIL, ''I241''),
    (VC_SAVE, ''I242''),
    (VC_DOCUMENTS, ''I243''),
    (VC_BATTERY, ''I244''),
    (VC_BLUETOOTH, ''I245''),
    (VC_WLAN, ''I246''),
    (VC_UWB, ''I247''),
    (VC_X11_UNKNOWN, ''I248''),
    (VC_VIDEO_NEXT, ''I249''),
    (VC_VIDEO_PREVIOUS, ''I250''),
    (VC_BRIGTNESS_CYCLE, ''I251''),
    (VC_BRIGTNESS_AUTO, ''I252''),
    (VC_DISPLAY_OFF, ''I253''),
    (VC_WWAN, ''I254''),
    (VC_RFKILL, ''I255'')
  ]"

definition x11_vcode_keycode_table :: "key_mapping list" where
  "x11_vcode_keycode_table = map initial_key_mapping x11_table_rows"


fun x11_vcode_scan :: "key_mapping list \<Rightarrow> 16 word \<Rightarrow> 8 word \<Rightarrow> 8 word" where
  "x11_vcode_scan [] vcode key_code = key_code"
| "x11_vcode_scan (row # rows) vcode key_code =
     (if vcode = km_vcode row then ucast (x11_key_code row) else x11_vcode_scan rows vcode key_code)"


definition x11_vcode_to_keycode :: "key_mapping list \<Rightarrow> 16 word \<Rightarrow> 8 word" where
  "x11_vcode_to_keycode tbl vcode = x11_vcode_scan tbl vcode 0x0"

text \<open>
  The keyboard description that \<^verbatim>\<open>XkbGetMap\<close> and \<^verbatim>\<open>XkbGetNames\<close> deliver: the key code range
  and the name of each key code.  A name is the characters before the first NUL of the
  four-byte \<^verbatim>\<open>name\<close> array.  \<^verbatim>\<open>strncmp(a, b, n) == 0\<close> on such strings says that the first
  \<open>n\<close> characters agree.
\<close>

record XkbDesc =
  min_key_code :: nat
  max_key_code :: nat
  xkb_key_name :: "nat \<Rightarrow> string"

abbreviation XkbKeyNameLength :: nat where "XkbKeyNameLength \<equiv> 4"

definition strncmp_eq :: "string \<Rightarrow> string \<Rightarrow> nat \<Rightarrow> bool" where
  "strncmp_eq s1 s2 n = (take n s1 = take n s2)"

text \<open>The inner loop of \<^verbatim>\<open>load_key_mappings\<close>: every row is compared with the name of one key code.\<close>

fun assign_key_code :: "string \<Rightarrow> nat \<Rightarrow> key_mapping list \<Rightarrow> key_mapping list" where
  "assign_key_code name key_code [] = []"
| "assign_key_code name key_code (row # rows) =
     (if strncmp_eq (x11_key_name row) name XkbKeyNameLength
      then row\<lparr>x11_key_code := of_nat key_code\<rparr> else row)
     # assign_key_code name key_code rows"

text \<open>The outer loop: \<^verbatim>\<open>for (key_code = min_key_code; key_code < max_key_code; key_code++)\<close>.\<close>

function load_key_codes :: "XkbDesc \<Rightarrow> nat \<Rightarrow> key_mapping list \<Rightarrow> key_mapping list" where
  "load_key_codes xkb key_code tbl =
     (if key_code < max_key_code xkb
      then load_key_codes xkb (Suc key_code) (assign_key_code (xkb_key_name xkb key_code) key_code tbl)
      else tbl)"
  by pat_completeness auto
termination
  by (relation "measure (\<lambda>(xkb, key_code, tbl). max_key_code xkb - key_code)") auto

text \<open>
  The state of the X11 back end that the functions below touch: the flag and the table of
  \<^verbatim>\<open>input_helper.c\<close>, whether \<^verbatim>\<open>helper_disp\<close> and \<^verbatim>\<open>mouse_button_table\<close> are set, and the log of
  the calls of \<^verbatim>\<open>XTestFakeKeyEvent\<close>, \<^verbatim>\<open>XTestFakeButtonEvent\<close> and \<^verbatim>\<open>XTestFakeMotionEvent\<close>.
\<close>

datatype x11_fake =
    Fake_key "8 word" bool
  | Fake_button "32 word" bool
  | Fake_motion int int

record x11_state =
  key_mappings_loaded :: bool
  vcode_keycode_table :: "key_mapping list"
  helper_disp :: bool
  mouse_button_table :: bool
  x11_faked :: "x11_fake list"

text \<open>
  What the X server answers during one call.  The results of the \<^verbatim>\<open>XTestFake*\<close> functions are
  their return values (zero for failure).  The wheel button numbers \<^verbatim>\<open>WheelUp\<close>, \<^verbatim>\<open>WheelDown\<close>,
  \<^verbatim>\<open>WheelLeft\<close> and \<^verbatim>\<open>WheelRight\<close> are macros of \<^verbatim>\<open>x11/input_helper.h\<close> and are taken from the
  environment as well.
\<close>

record x11_env =
  XkbOpenDisplay_ok :: bool
  XkbGetMap :: "XkbDesc option"
  XkbGetNames_ok :: bool
  XGetPointerMapping :: "8 word list"
  XQueryPointer :: "(int \<times> int) option"
  XTestFakeKeyEvent :: "8 word \<Rightarrow> bool \<Rightarrow> int"
  XTestFakeButtonEvent :: "32 word \<Rightarrow> bool \<Rightarrow> int"
  XTestFakeMotionEvent :: "int \<Rightarrow> int \<Rightarrow> int"
  WheelUp :: "8 word"
  WheelDown :: "8 word"
  WheelLeft :: "8 word"
  WheelRight :: "8 word"

definition load_key_mappings :: "x11_env \<Rightarrow> x11_state \<Rightarrow> x11_state" where
  "load_key_mappings env st =
     (if key_mappings_loaded st then st
      else if \<not> XkbOpenDisplay_ok env then st
      else
        (case XkbGetMap env of
           None \<Rightarrow> st
         | Some xkb \<Rightarrow>
             if \<not> XkbGetNames_ok env then st
             else st\<lparr>vcode_keycode_table :=
                        load_key_codes xkb (min_key_code xkb) (vcode_keycode_table st),
                      key_mappings_loaded := True\<rparr>))"

text \<open>
  \<^verbatim>\<open>button_map_lookup\<close>.  \<^verbatim>\<open>XGetPointerMapping\<close> fills the table with the pointer map and returns
  its size.  \<^verbatim>\<open>Button2\<close> and \<^verbatim>\<open>Button3\<close> of \<^verbatim>\<open>X.h\<close> are 2 and 3.
\<close>

definition button_map_lookup :: "x11_env \<Rightarrow> x11_state \<Rightarrow> 8 word \<Rightarrow> 8 word" where
  "button_map_lookup env st b =
     (let map_button = (ucast b :: 32 word);
          map_button =
            (if helper_disp st \<and> mouse_button_table st then
               (let map_size = length (XGetPointerMapping env)
                in if 0 < unat map_button \<and> unat map_button \<le> map_size
                   then ucast (XGetPointerMapping env ! (unat map_button - 1)) else map_button)
             else map_button);
          map_button = (if map_button = 2 then 3 else if map_button = 3 then 2 else map_button)
      in ucast map_button)"

section \<open>X11: \<^verbatim>\<open>x11/post_event.c\<close>\<close>

definition x11_fake_key :: "x11_env \<Rightarrow> 8 word \<Rightarrow> bool \<Rightarrow> x11_state \<Rightarrow> int \<times> x11_state" where
  "x11_fake_key env keycode is_pressed st =
     (XTestFakeKeyEvent env keycode is_pressed,
      st\<lparr>x11_faked := x11_faked st @ [Fake_key keycode is_pressed]\<rparr>)"

definition x11_fake_button :: "x11_env \<Rightarrow> 32 word \<Rightarrow> bool \<Rightarrow> x11_state \<Rightarrow> int \<times> x11_state" where
  "x11_fake_button env b is_pressed st =
     (XTestFakeButtonEvent env b is_pressed,
      st\<lparr>x11_faked := x11_faked st @ [Fake_button b is_pressed]\<rparr>)"

definition x11_fake_motion :: "x11_env \<Rightarrow> int \<Rightarrow> int \<Rightarrow> x11_state \<Rightarrow> int \<times> x11_state" where
  "x11_fake_motion env px py st =
     (XTestFakeMotionEvent env px py,
      st\<lparr>x11_faked := x11_faked st @ [Fake_motion px py]\<rparr>)"

definition x11_post_key_event :: "x11_env \<Rightarrow> uiohook_event \<Rightarrow> x11_state \<Rightarrow> int \<times> x11_state" where
  "x11_post_key_event env event st =
     (let st = load_key_mappings env st;
          keycode = x11_vcode_to_keycode (vcode_keycode_table st) (kb_keycode (data_keyboard event))
      in if keycode = 0x0000 then (UIOHOOK_FAILURE, st)
         else if ev_type event \<noteq> EVENT_KEY_PRESSED \<and> ev_type event \<noteq> EVENT_KEY_RELEASED
         then (UIOHOOK_FAILURE, st)
         else
           (let is_pressed = (ev_type event = EVENT_KEY_PRESSED);
                (r, st) = x11_fake_key env keycode is_pressed st
            in if r = 0 then (UIOHOOK_FAILURE, st) else (UIOHOOK_SUCCESS, st)))"

definition x11_post_mouse_button_event :: "x11_env \<Rightarrow> uiohook_event \<Rightarrow> x11_state \<Rightarrow> int \<times> x11_state" where
  "x11_post_mouse_button_event env event st =
     (let b = m_button (data_mouse event);
          st = (if \<not> (ev_type event = EVENT_MOUSE_PRESSED_IGNORE_COORDS
                       \<or> ev_type event = EVENT_MOUSE_RELEASED_IGNORE_COORDS)
                then snd (x11_fake_motion env (sint (m_x (data_mouse event)))
                            (sint (m_y (data_mouse event))) st)
                else st);
          status = UIOHOOK_FAILURE
      in
        if ev_type event = EVENT_MOUSE_PRESSED \<or> ev_type event = EVENT_MOUSE_PRESSED_IGNORE_COORDS then
          (if b < MOUSE_BUTTON1 \<or> b > MOUSE_BUTTON5 then (UIOHOOK_FAILURE, st)
           else
             (let (r, st) = x11_fake_button env (ucast b) True st
              in (if r \<noteq> 0 then UIOHOOK_SUCCESS else status, st)))
        else if ev_type event = EVENT_MOUSE_RELEASED \<or> ev_type event = EVENT_MOUSE_RELEASED_IGNORE_COORDS then
          (if b < MOUSE_BUTTON1 \<or> b > MOUSE_BUTTON5 then (UIOHOOK_FAILURE, st)
           else
             (let (r, st) = x11_fake_button env (ucast b) False st
              in (if r \<noteq> 0 then UIOHOOK_SUCCESS else status, st)))
        else (UIOHOOK_FAILURE, st))"

definition x11_post_mouse_wheel_event :: "x11_env \<Rightarrow> uiohook_event \<Rightarrow> x11_state \<Rightarrow> int \<times> x11_state" where
  "x11_post_mouse_wheel_event env event st =
     (let status = UIOHOOK_FAILURE;
          wheel_button =
            (if w_direction (data_wheel event) = WHEEL_HORIZONTAL_DIRECTION
             then (if 0 < sint (w_rotation (data_wheel event)) then WheelRight env else WheelLeft env)
             else (if 0 < sint (w_rotation (data_wheel event)) then WheelUp env else WheelDown env));
          b = (ucast (button_map_lookup env st wheel_button) :: 32 word);
          (r, st) = x11_fake_button env b True st;
          status = (if r \<noteq> 0 then UIOHOOK_SUCCESS else status);
          (status, st) =
            (if status = UIOHOOK_SUCCESS then
               (let (r, st) = x11_fake_button env b False st
                in (if r = 0 then UIOHOOK_FAILURE else status, st))
             else (status, st))
      in (UIOHOOK_SUCCESS, st))"

definition x11_post_mouse_motion_event :: "x11_env \<Rightarrow> uiohook_event \<Rightarrow> x11_state \<Rightarrow> int \<times> x11_state" where
  "x11_post_mouse_motion_event env event st =
     (let status = UIOHOOK_FAILURE;
          ex = sint (m_x (data_mouse event));
          ey = sint (m_y (data_mouse event))
      in if ev_type event = EVENT_MOUSE_MOVED_RELATIVE_TO_CURSOR then
           (case XQueryPointer env of
              Some p \<Rightarrow>
                (let (r, st) = x11_fake_motion env (fst p + ex) (snd p + ey) st
                 in (if r \<noteq> 0 then UIOHOOK_SUCCESS else status, st))
            | None \<Rightarrow> (status, st))
         else
           (let (r, st) = x11_fake_motion env ex ey st
            in (if r \<noteq> 0 then UIOHOOK_SUCCESS else status, st)))"

definition x11_hook_post_event :: "x11_env \<Rightarrow> uiohook_event \<Rightarrow> x11_state \<Rightarrow> int \<times> x11_state" where
  "x11_hook_post_event env event st =
     (if \<not> helper_disp st then (UIOHOOK_ERROR_X_OPEN_DISPLAY, st)
      else if ev_type event = EVENT_KEY_PRESSED \<or> ev_type event = EVENT_KEY_RELEASED then
        x11_post_key_event env event st
      else if ev_type event \<in> {EVENT_MOUSE_PRESSED, EVENT_MOUSE_RELEASED,
             EVENT_MOUSE_PRESSED_IGNORE_COORDS, EVENT_MOUSE_RELEASED_IGNORE_COORDS} then
        x11_post_mouse_button_event env event st
      else if ev_type event = EVENT_MOUSE_WHEEL then x11_post_mouse_wheel_event env event st
      else if ev_type event \<in> {EVENT_MOUSE_MOVED, EVENT_MOUSE_DRAGGED,
             EVENT_MOUSE_MOVED_RELATIVE_TO_CURSOR} then
        x11_post_mouse_motion_event env event st
      else (UIOHOOK_FAILURE, st))"

section \<open>X11: the string lookup \<^verbatim>\<open>x_key_event_lookup\<close>\<close>

text \<open>
  \<^verbatim>\<open>Xutf8LookupString\<close> or \<^verbatim>\<open>XLookupString\<close> leaves \<open>count\<close> bytes in the five-byte \<^verbatim>\<open>buffer\<close>;
  both are arguments here, the buffer as the bytes by index.  The output array \<^verbatim>\<open>surrogate\<close>
  has room for \<open>len\<close> units of type \<^verbatim>\<open>wchar_t\<close> (32 bits on the platforms with X11) and may
  be null.  The result is the returned count and the units written.  The mask table has five
  entries, so a count above 4 reads outside it: the model has no result for it (\<open>None\<close>).
\<close>

definition utf8_bitmask_table :: "8 word list" where
  "utf8_bitmask_table = [0x3F, 0x7F, 0x1F, 0x0F, 0x07]"

text \<open>
  The loop \<^verbatim>\<open>for (i = 1; i < count; i++) codepoint = (codepoint << 6) | (table[0] & buffer[i])\<close>.
\<close>

function utf8_continue :: "(nat \<Rightarrow> 8 word) \<Rightarrow> nat \<Rightarrow> nat \<Rightarrow> 32 word \<Rightarrow> 32 word" where
  "utf8_continue buffer count i codepoint =
     (if i < count
      then utf8_continue buffer count (Suc i)
             (push_bit 6 codepoint OR ucast (utf8_bitmask_table ! 0 AND buffer i))
      else codepoint)"
  by pat_completeness auto
termination
  by (relation "measure (\<lambda>(buffer, count, i, codepoint). count - i)") auto

definition utf8_codepoint :: "nat \<Rightarrow> (nat \<Rightarrow> 8 word) \<Rightarrow> 32 word" where
  "utf8_codepoint count buffer =
     utf8_continue buffer count 1 (ucast (utf8_bitmask_table ! count AND buffer 0))"

definition x_key_event_lookup ::
  "nat \<Rightarrow> (nat \<Rightarrow> 8 word) \<Rightarrow> bool \<Rightarrow> nat \<Rightarrow> (nat \<times> 32 word list) option" where
  "x_key_event_lookup count buffer surrogate_null len =
     (if count > 0 then
        (if len = 0 \<or> surrogate_null then Some (0, [])
         else if 4 < count then None
         else
           (let codepoint = utf8_codepoint count buffer
            in if codepoint \<le> 0xFFFF then Some (1, [codepoint])
               else if len > 1 then
                 (let lead_offset = (0xD800 - drop_bit 10 0x10000 :: 32 word)
                  in Some (2, [lead_offset + drop_bit 10 codepoint, 0xDC00 + (codepoint AND 0x3FF)]))
               else Some (0, [])))
      else Some (count, []))"

section \<open>Notions that the stated properties use\<close>

text \<open>
  The motion events and the button events of \<^verbatim>\<open>hook_post_event\<close>, the native dragged event
  and the native button number that belong to a virtual button, and the native event that
  one motion call posts when the motion state is \<open>(ty, btn)\<close>.  A motion call posts only when
  both constructors that it needs deliver an object.
\<close>

definition is_motion_event :: "uiohook_event \<Rightarrow> bool" where
  "is_motion_event event =
     (ev_type event = EVENT_MOUSE_MOVED \<or> ev_type event = EVENT_MOUSE_DRAGGED
      \<or> ev_type event = EVENT_MOUSE_MOVED_RELATIVE_TO_CURSOR)"

definition is_button_event :: "uiohook_event \<Rightarrow> bool" where
  "is_button_event event =
     (ev_type event = EVENT_MOUSE_PRESSED \<or> ev_type event = EVENT_MOUSE_PRESSED_IGNORE_COORDS
      \<or> ev_type event = EVENT_MOUSE_RELEASED \<or> ev_type event = EVENT_MOUSE_RELEASED_IGNORE_COORDS)"

definition dragged_event_of :: "16 word \<Rightarrow> CGEventType" where
  "dragged_event_of b =
     (if b = MOUSE_BUTTON1 then kCGEventLeftMouseDragged
      else if b = MOUSE_BUTTON2 then kCGEventRightMouseDragged
      else kCGEventOtherMouseDragged)"

definition cg_button_of :: "16 word \<Rightarrow> 32 word" where
  "cg_button_of b =
     (if b = MOUSE_BUTTON1 then kCGMouseButtonLeft
      else if b = MOUSE_BUTTON2 then kCGMouseButtonRight
      else ucast b - 1)"

definition mouse_call_succeeds :: "'f darwin_env \<times> uiohook_event \<Rightarrow> bool" where
  "mouse_call_succeeds c = (CGEventSourceCreate_ok (fst c) \<and> CGEventCreateMouseEvent_ok (fst c))"

definition posted_motion :: "'f darwin_env \<times> uiohook_event \<Rightarrow> bool" where
  "posted_motion c = (is_motion_event (snd c) \<and> mouse_call_succeeds c)"

definition motion_injection ::
  "CGEventType \<Rightarrow> 32 word \<Rightarrow> 'f darwin_env \<times> uiohook_event \<Rightarrow> 'f cg_event" where
  "motion_injection ty btn c =
     (let ex = CGFloat_of_int16 (fst c) (m_x (data_mouse (snd c)));
          ey = CGFloat_of_int16 (fst c) (m_y (data_mouse (snd c)))
      in CG_mouse_event ty
           (if ev_type (snd c) = EVENT_MOUSE_MOVED_RELATIVE_TO_CURSOR
            then (CGFloat_add (fst c) (fst (CGEventGetLocation (fst c))) ex,
                  CGFloat_add (fst c) (snd (CGEventGetLocation (fst c))) ey)
            else (ex, ey))
           btn
           (if m_clicks (data_mouse (snd c)) \<noteq> 0 then Some (m_clicks (data_mouse (snd c))) else None))"

text \<open>The mouse events among the events that were handed to \<^verbatim>\<open>CGEventPost\<close>.\<close>

fun is_mouse_injection :: "'f cg_event \<Rightarrow> bool" where
  "is_mouse_injection (CG_mouse_event ty point btn click_state) = True"
| "is_mouse_injection (CG_keyboard_event keycode down flags) = False"
| "is_mouse_injection (CG_scroll_event scroll_unit wheel1 wheel2) = False"

definition mouse_injections :: "'f darwin_state \<Rightarrow> 'f cg_event list" where
  "mouse_injections st = filter is_mouse_injection (cg_posted st)"

text \<open>The key events of \<^verbatim>\<open>hook_post_event\<close>.\<close>

definition is_key_event :: "uiohook_event \<Rightarrow> bool" where
  "is_key_event event = (ev_type event = EVENT_KEY_PRESSED \<or> ev_type event = EVENT_KEY_RELEASED)"

text \<open>The values of \<^verbatim>\<open>mi.dx\<close> in the batches that were handed to \<^verbatim>\<open>SendInput\<close>.\<close>

definition sent_dx :: "win_state \<Rightarrow> int list list" where
  "sent_dx st = map (map mi_dx) (ws_sent st)"

section \<open>Concrete events, environments and states\<close>

text \<open>Events and operating-system answers for the concrete instances further down.\<close>

definition blank_event :: uiohook_event where
  "blank_event =
     \<lparr>ev_type = EVENT_HOOK_ENABLED, ev_time = 0, ev_mask = 0, ev_reserved = 0,
      data_keyboard = \<lparr>kb_keycode = 0, kb_rawcode = 0, kb_keychar = 0\<rparr>,
      data_mouse = \<lparr>m_button = 0, m_clicks = 0, m_x = 0, m_y = 0\<rparr>,
      data_wheel = \<lparr>w_x = 0, w_y = 0, w_type = 0, w_rotation = 0, w_delta = 0, w_direction = 0\<rparr>\<rparr>"

definition key_event :: "event_type \<Rightarrow> 16 word \<Rightarrow> uiohook_event" where
  "key_event ty vcode =
     blank_event\<lparr>ev_type := ty, data_keyboard := \<lparr>kb_keycode = vcode, kb_rawcode = 0, kb_keychar = 0\<rparr>\<rparr>"

definition mouse_event :: "event_type \<Rightarrow> 16 word \<Rightarrow> int \<Rightarrow> int \<Rightarrow> uiohook_event" where
  "mouse_event ty b px py =
     blank_event\<lparr>ev_type := ty,
       data_mouse := \<lparr>m_button = b, m_clicks = 0, m_x = word_of_int px, m_y = word_of_int py\<rparr>\<rparr>"

text \<open>
  Two monitors of 1920 columns side by side, the left one in negative space: the virtual
  screen starts at \<open>-1920\<close> and is 3840 wide.  Every system call succeeds.
\<close>

definition two_monitor_env :: win_env where
  "two_monitor_env =
     \<lparr>SM_CXVIRTUALSCREEN = 3840, SM_CYVIRTUALSCREEN = 1080,
      monitors = [Some (- 1920, 0), Some (0, 0)],
      GetCursorPos = Some (0, 0), MapVirtualKeyW = (\<lambda>vk. 0), calloc_ok = True,
      SendInput = (\<lambda>batch. length batch)\<rparr>"

definition win_initial_state :: win_state where
  "win_initial_state =
     \<lparr>ws_monitor = \<lparr>monitors_enumerated = False, mon_left = 0, mon_top = 0\<rparr>, ws_sent = []\<rparr>"

text \<open>
  Core Graphics with every constructor succeeding and the pointer at the origin.  The
  coordinates are real numbers here; the conversion gives the number that the \<^verbatim>\<open>int16_t\<close>
  denotes, and the sum is the sum of the reals.
\<close>

definition darwin_env_ok :: "real darwin_env" where
  "darwin_env_ok =
     \<lparr>CGEventSourceCreate_ok = True, CGEventCreateKeyboardEvent_ok = True,
      CGEventCreateMouseEvent_ok = True, CGEventCreateScrollWheelEvent_ok = True,
      CGEventGetLocation = (0, 0),
      CGFloat_of_int16 = (\<lambda>v. real_of_int (sint v)),
      CGFloat_add = (\<lambda>a b. a + b)\<rparr>"

text \<open>
  An X server whose keyboard has the key codes 8 to 255, of which only the last one has a
  name, \<^verbatim>\<open>I255\<close>; and the X11 state before the first call of \<^verbatim>\<open>load_key_mappings\<close>.
\<close>

definition last_key_xkb :: XkbDesc where
  "last_key_xkb =
     \<lparr>min_key_code = 8, max_key_code = 255,
      xkb_key_name = (\<lambda>key_code. if key_code = 255 then ''I255'' else [])\<rparr>"

definition last_key_env :: x11_env where
  "last_key_env =
     \<lparr>XkbOpenDisplay_ok = True, XkbGetMap = Some last_key_xkb, XkbGetNames_ok = True,
      XGetPointerMapping = [1, 2, 3], XQueryPointer = Some (0, 0),
      XTestFakeKeyEvent = (\<lambda>keycode is_pressed. 1),
      XTestFakeButtonEvent = (\<lambda>b is_pressed. 1),
      XTestFakeMotionEvent = (\<lambda>px py. 1),
      WheelUp = 4, WheelDown = 5, WheelLeft = 6, WheelRight = 7\<rparr>"

definition x11_initial_state :: x11_state where
  "x11_initial_state =
     \<lparr>key_mappings_loaded = False, vcode_keycode_table = x11_vcode_keycode_table,
      helper_disp = True, mouse_button_table = True, x11_faked = []\<rparr>"




text \<open>A byte buffer with the given first bytes and zeros behind them.\<close>

definition bytes_at :: "8 word list \<Rightarrow> nat \<Rightarrow> 8 word" where
  "bytes_at bs i = (if i < length bs then bs ! i else 0)"

text \<open>A hook structure for an X-button message whose high word of \<^verbatim>\<open>mouseData\<close> is 4.\<close>

definition xbutton4_hook :: MSLLHOOKSTRUCT where
  "xbutton4_hook = \<lparr>pt_x = 0, pt_y = 0, mouseData = 0x00040000, ms_flags = 0, ms_time = 0\<rparr>"

text \<open>A Windows environment in which \<^verbatim>\<open>SendInput\<close> inserts nothing.\<close>

definition blocked_input_env :: win_env where
  "blocked_input_env = two_monitor_env\<lparr>SendInput := (\<lambda>batch. 0)\<rparr>"

section \<open>Auxiliary facts\<close>

subsection \<open>Comparing word numerals\<close>

text \<open>
  The tables hold a few hundred numerals.  Equations between them are decided on the natural
  numbers, where the simplifier compares numerals directly.
\<close>

lemma of_nat_32_eq:
  "m < 4294967296 \<Longrightarrow> n < 4294967296 \<Longrightarrow> ((of_nat m :: 32 word) = of_nat n) = (m = n)"
  by (simp add: word_of_nat_eq_iff take_bit_nat_eq_self)

lemma of_nat_16_eq:
  "m < 65536 \<Longrightarrow> n < 65536 \<Longrightarrow> ((of_nat m :: 16 word) = of_nat n) = (m = n)"
  by (simp add: word_of_nat_eq_iff take_bit_nat_eq_self)

lemma ucast_of_nat_16_32: "m < 65536 \<Longrightarrow> (ucast (of_nat m :: 16 word) :: 32 word) = of_nat m"
  by (simp add: unsigned_of_nat take_bit_nat_eq_self)

lemma word32_numeral_eq:
  "(numeral a :: nat) < 4294967296 \<Longrightarrow> (numeral b :: nat) < 4294967296 \<Longrightarrow>
   ((numeral a :: 32 word) = numeral b) = ((numeral a :: nat) = numeral b)"
  using of_nat_32_eq [of "numeral a" "numeral b"] by (simp only: of_nat_numeral)

lemma word16_numeral_eq:
  "(numeral a :: nat) < 65536 \<Longrightarrow> (numeral b :: nat) < 65536 \<Longrightarrow>
   ((numeral a :: 16 word) = numeral b) = ((numeral a :: nat) = numeral b)"
  using of_nat_16_eq [of "numeral a" "numeral b"] by (simp only: of_nat_numeral)

lemma word16_zero_neq_numeral:
  "(numeral b :: nat) < 65536 \<Longrightarrow> ((0 :: 16 word) = numeral b) = False"
  using of_nat_16_eq [of 0 "numeral b"] by (simp only: of_nat_numeral of_nat_0) simp

lemma word16_numeral_neq_zero:
  "(numeral b :: nat) < 65536 \<Longrightarrow> ((numeral b :: 16 word) = 0) = False"
  using word16_zero_neq_numeral [of b] by (simp only: eq_commute [of "numeral b" "0 :: 16 word"])

lemma ucast_16_32_numeral:
  "(numeral a :: nat) < 65536 \<Longrightarrow> (ucast (numeral a :: 16 word) :: 32 word) = numeral a"
  using ucast_of_nat_16_32 [of "numeral a"] by (simp only: of_nat_numeral)


subsection \<open>The table scans\<close>

text \<open>
  Congruence rules that keep the simplifier out of the table while a scan runs over it.
\<close>

lemma win_keycode_scan_cong:
  "n = n' \<Longrightarrow> win_keycode_scan tbl n d = win_keycode_scan tbl n' d"
  by simp




lemma win_vcode_scan_miss:
  "v \<notin> set (map fst tbl) \<Longrightarrow> win_vcode_scan tbl v d = d"
  by (induction tbl) auto

lemma darwin_vcode_scan_miss:
  "v \<notin> set (map fst tbl) \<Longrightarrow> darwin_vcode_scan tbl v d = d"
  by (induction tbl) auto

lemma x11_vcode_scan_miss:
  "v \<notin> set (map km_vcode tbl) \<Longrightarrow> x11_vcode_scan tbl v d = d"
  by (induction tbl) auto

lemma win_table_no_undefined: "VC_UNDEFINED \<notin> set (map fst win_vcode_keycode_table)"
  unfolding win_vcode_keycode_table_def
  by (simp add: word16_zero_neq_numeral del: word_eq_numeral_iff_iszero)

lemma darwin_table_no_undefined: "VC_UNDEFINED \<notin> set (map fst darwin_vcode_keycode_table)"
  unfolding darwin_vcode_keycode_table_def
  by (simp add: word16_zero_neq_numeral del: word_eq_numeral_iff_iszero)

lemma list_all_keep: "P = Q \<Longrightarrow> list_all P xs = list_all Q xs"
  by simp

lemma list_ex_keep: "P = Q \<Longrightarrow> list_ex P xs = list_ex Q xs"
  by simp

lemma x11_rows_no_undefined: "list_all (\<lambda>r. VC_UNDEFINED \<noteq> fst r) x11_table_rows"
  unfolding x11_table_rows_def
  by (simp add: word16_zero_neq_numeral word16_numeral_neq_zero
      del: word_eq_numeral_iff_iszero cong: list_all_keep)

lemma x11_table_no_undefined: "VC_UNDEFINED \<notin> set (map km_vcode x11_vcode_keycode_table)"
  using x11_rows_no_undefined
  unfolding x11_vcode_keycode_table_def list_all_iff
  by (auto simp: initial_key_mapping_def)

subsection \<open>Loading the X11 key codes keeps virtual codes and names\<close>

lemma assign_key_code_vcodes [simp]:
  "map km_vcode (assign_key_code name key_code tbl) = map km_vcode tbl"
  by (induction tbl) auto

lemma assign_key_code_names [simp]:
  "map x11_key_name (assign_key_code name key_code tbl) = map x11_key_name tbl"
  by (induction tbl) auto

declare load_key_codes.simps [simp del]

lemma load_key_codes_vcodes [simp]:
  "map km_vcode (load_key_codes xkb key_code tbl) = map km_vcode tbl"
proof (induction xkb key_code tbl rule: load_key_codes.induct)
  case (1 xkb key_code tbl)
  show ?case
  proof (cases "key_code < max_key_code xkb")
    case True
    with "1.IH" show ?thesis by (subst load_key_codes.simps) simp
  next
    case False
    then show ?thesis by (subst load_key_codes.simps) simp
  qed
qed

lemma load_key_mappings_vcodes [simp]:
  "map km_vcode (vcode_keycode_table (load_key_mappings env st)) =
     map km_vcode (vcode_keycode_table st)"
  by (simp add: load_key_mappings_def split: option.splits)

lemma load_key_mappings_faked [simp]:
  "x11_faked (load_key_mappings env st) = x11_faked st"
  by (simp add: load_key_mappings_def split: option.splits)

lemma load_key_mappings_helper_disp [simp]:
  "helper_disp (load_key_mappings env st) = helper_disp st"
  by (simp add: load_key_mappings_def split: option.splits)

subsection \<open>Key names that match no row\<close>

lemma assign_key_code_no_match:
  assumes "\<forall>row \<in> set tbl. \<not> strncmp_eq (x11_key_name row) name XkbKeyNameLength"
  shows "assign_key_code name key_code tbl = tbl"
  using assms by (induction tbl) auto

lemma load_key_codes_no_match:
  assumes "\<forall>k. key_code \<le> k \<and> k < max_key_code xkb \<longrightarrow>
             (\<forall>row \<in> set tbl. \<not> strncmp_eq (x11_key_name row) (xkb_key_name xkb k) XkbKeyNameLength)"
  shows "load_key_codes xkb key_code tbl = tbl"
  using assms
proof (induction xkb key_code tbl rule: load_key_codes.induct)
  case (1 xkb key_code tbl)
  show ?case
  proof (cases "key_code < max_key_code xkb")
    case True
    have here: "assign_key_code (xkb_key_name xkb key_code) key_code tbl = tbl"
      using "1.prems" True by (intro assign_key_code_no_match) auto
    have "load_key_codes xkb (Suc key_code) tbl = tbl"
      using "1.IH" [OF True] "1.prems" here by auto
    with True here show ?thesis by (subst load_key_codes.simps) simp
  next
    case False
    then show ?thesis by (subst load_key_codes.simps) simp
  qed
qed

lemma x11_rows_names_not_empty: "list_all (\<lambda>r. snd r \<noteq> []) x11_table_rows"
  unfolding x11_table_rows_def by (simp cong: list_all_keep)

lemma x11_table_names_not_empty: "\<forall>row \<in> set x11_vcode_keycode_table. x11_key_name row \<noteq> []"
  using x11_rows_names_not_empty
  unfolding x11_vcode_keycode_table_def list_all_iff
  by (auto simp: initial_key_mapping_def)

section \<open>The stated properties\<close>

subsection \<open>The button bits of the Windows mouse hook\<close>

text \<open>
  A bit that was set is read as set, a bit that was unset is read as clear; and the branches
  of the hook for the left, right and middle button and for \<^verbatim>\<open>XBUTTON1\<close> and \<^verbatim>\<open>XBUTTON2\<close> set
  and unset the mask bit of their button.
\<close>

lemma set_then_get: "get_modifiers (set_modifier_mask b m) AND b = b"
  by (simp add: get_modifiers_def set_modifier_mask_def word_bw_comms)

lemma unset_then_get: "get_modifiers (unset_modifier_mask b m) AND b = 0"
  by (simp add: get_modifiers_def unset_modifier_mask_def word_bw_assocs)

lemma mouse_hook_named_buttons:
  "fst (snd (mouse_hook_event_proc dispatch call_next_hook nCode WM_LBUTTONDOWN mshook m))
     = set_modifier_mask MASK_BUTTON1 m"
  "fst (snd (mouse_hook_event_proc dispatch call_next_hook nCode WM_RBUTTONDOWN mshook m))
     = set_modifier_mask MASK_BUTTON2 m"
  "fst (snd (mouse_hook_event_proc dispatch call_next_hook nCode WM_MBUTTONDOWN mshook m))
     = set_modifier_mask MASK_BUTTON3 m"
  "HIWORD (mouseData mshook) = XBUTTON1 \<Longrightarrow>
   fst (snd (mouse_hook_event_proc dispatch call_next_hook nCode WM_XBUTTONDOWN mshook m))
     = set_modifier_mask MASK_BUTTON4 m"
  "HIWORD (mouseData mshook) = XBUTTON2 \<Longrightarrow>
   fst (snd (mouse_hook_event_proc dispatch call_next_hook nCode WM_XBUTTONDOWN mshook m))
     = set_modifier_mask MASK_BUTTON5 m"
  "fst (snd (mouse_hook_event_proc dispatch call_next_hook nCode WM_LBUTTONUP mshook m))
     = unset_modifier_mask MASK_BUTTON1 m"
  "fst (snd (mouse_hook_event_proc dispatch call_next_hook nCode WM_RBUTTONUP mshook m))
     = unset_modifier_mask MASK_BUTTON2 m"
  "fst (snd (mouse_hook_event_proc dispatch call_next_hook nCode WM_MBUTTONUP mshook m))
     = unset_modifier_mask MASK_BUTTON3 m"
  "HIWORD (mouseData mshook) = XBUTTON1 \<Longrightarrow>
   fst (snd (mouse_hook_event_proc dispatch call_next_hook nCode WM_XBUTTONUP mshook m))
     = unset_modifier_mask MASK_BUTTON4 m"
  "HIWORD (mouseData mshook) = XBUTTON2 \<Longrightarrow>
   fst (snd (mouse_hook_event_proc dispatch call_next_hook nCode WM_XBUTTONUP mshook m))
     = unset_modifier_mask MASK_BUTTON5 m"
  by (simp_all add: mouse_hook_event_proc_def)

text \<open>
  C1 fails on the code.  For \<^verbatim>\<open>WM_XBUTTONDOWN\<close> with 4 in the high word of \<^verbatim>\<open>mouseData\<close> the
  hook dispatches a press of button 4, but it passes the button number \<^verbatim>\<open>MOUSE_BUTTON4\<close> to
  \<^verbatim>\<open>set_modifier_mask\<close>: from an empty mask the result is \<^verbatim>\<open>MASK_META_L\<close> and the bit
  \<^verbatim>\<open>MASK_BUTTON4\<close> stays clear.  For \<^verbatim>\<open>WM_XBUTTONUP\<close> with the same high word and \<^verbatim>\<open>MASK_BUTTON4\<close>
  set, the bit stays set and the release is dispatched for button 5.
\<close>

theorem C1_extra_button_4_mask:
  "mouse_hook_event_proc dispatch call_next_hook nCode WM_XBUTTONDOWN xbutton4_hook 0
     = (if nCode < 0 \<or> \<not> dispatch (Dispatch_button_press MOUSE_BUTTON4) MASK_META_L
        then call_next_hook else - 1,
        MASK_META_L, Some (Dispatch_button_press MOUSE_BUTTON4))
   \<and> get_modifiers MASK_META_L AND MASK_BUTTON4 = 0
   \<and> mouse_hook_event_proc dispatch call_next_hook nCode WM_XBUTTONUP xbutton4_hook MASK_BUTTON4
     = (if nCode < 0 \<or> \<not> dispatch (Dispatch_button_release MOUSE_BUTTON5) MASK_BUTTON4
        then call_next_hook else - 1,
        MASK_BUTTON4, Some (Dispatch_button_release MOUSE_BUTTON5))
   \<and> get_modifiers MASK_BUTTON4 AND MASK_BUTTON4 \<noteq> 0"
  by (simp add: mouse_hook_event_proc_def HIWORD_def set_modifier_mask_def unset_modifier_mask_def
      get_modifiers_def xbutton4_hook_def)

text \<open>The same with a dispatcher that never consumes and the next hook returning 0.\<close>

theorem C1_extra_button_4_mask_witness:
  "snd (mouse_hook_event_proc (\<lambda>c m. False) 0 0 WM_XBUTTONDOWN xbutton4_hook 0)
     = (MASK_META_L, Some (Dispatch_button_press MOUSE_BUTTON4))
   \<and> snd (mouse_hook_event_proc (\<lambda>c m. False) 0 0 WM_XBUTTONUP xbutton4_hook MASK_BUTTON4)
     = (MASK_BUTTON4, Some (Dispatch_button_release MOUSE_BUTTON5))"
  using C1_extra_button_4_mask [of "\<lambda>c m. False" 0 0] by simp

subsection \<open>Native code to virtual code and back\<close>







subsection \<open>The table of a PC keyboard\<close>























subsection \<open>The status of \<^verbatim>\<open>hook_post_text\<close> on Windows\<close>

text \<open>
  C3 fails on the code.  On Windows \<^verbatim>\<open>hook_post_text\<close> records the failure of \<^verbatim>\<open>SendInput\<close> in
  \<^verbatim>\<open>status\<close> and then returns the constant \<^verbatim>\<open>UIOHOOK_SUCCESS\<close>: for the text \<^verbatim>\<open>"a"\<close> and a
  \<^verbatim>\<open>SendInput\<close> that inserts nothing, the batch of one key-down and one key-up record is handed
  over, zero events are inserted, and the caller gets \<^verbatim>\<open>UIOHOOK_SUCCESS\<close>.
\<close>

theorem C3_win_post_text_reports_success:
  "SendInput blocked_input_env
      [text_input (KEYEVENTF_UNICODE OR KEYEVENTF_KEYDOWN) 0x0061,
       text_input (KEYEVENTF_UNICODE OR KEYEVENTF_KEYUP) 0x0061] = 0
   \<and> win_hook_post_text blocked_input_env (Some [0x0061, 0]) st
     = (UIOHOOK_SUCCESS,
        st\<lparr>ws_sent := ws_sent st @
           [[text_input (KEYEVENTF_UNICODE OR KEYEVENTF_KEYDOWN) 0x0061,
             text_input (KEYEVENTF_UNICODE OR KEYEVENTF_KEYUP) 0x0061]]\<rparr>)"
  by (simp add: win_hook_post_text_def blocked_input_env_def two_monitor_env_def Let_def)

theorem C3_win_post_text_reports_success_witness:
  "fst (win_hook_post_text blocked_input_env (Some [0x0061, 0]) win_initial_state) = UIOHOOK_SUCCESS"
  using C3_win_post_text_reports_success [of win_initial_state] by simp

subsection \<open>Posting a mouse move on Windows\<close>

lemma win_post_move:
  assumes "calloc_ok env" and "ev_type event = EVENT_MOUSE_MOVED"
    and "normalize_coordinates env (sint (m_x (data_mouse event))) (sint (m_y (data_mouse event)))
           (ws_monitor st) = (nc, mst)"
  shows "sent_dx (snd (win_hook_post_event env event st)) = sent_dx st @ [[fst nc]]"
  using assms
  by (simp add: win_hook_post_event_def win_hook_post_event_body_def map_mouse_event_def
      sent_dx_def Let_def)

lemma normalize_coordinates_x:
  assumes "SM_CXVIRTUALSCREEN env = 3840"
    and "fst (fst (get_largest_negative_coordinates (monitors env) mst)) = - 1920"
  shows "fst (fst (normalize_coordinates env px py mst)) = MulDiv (px + 1920) 65535 3840"
proof -
  obtain l t mst' where lnc: "get_largest_negative_coordinates (monitors env) mst = ((l, t), mst')"
    by (metis surj_pair)
  with assms(2) have "l = - 1920" by simp
  with lnc assms(1) show ?thesis
    by (simp add: normalize_coordinates_def get_absolute_coordinate_def Let_def)
qed

text \<open>
  C4 (as amended).  On Windows with a virtual screen that starts at \<open>-1920\<close> and is 3840
  wide, posting a mouse move to \<open>x = -1920\<close> hands \<^verbatim>\<open>SendInput\<close> one record with
  \<^verbatim>\<open>dx = 0\<close>, and posting a mouse move to \<open>x = 1919\<close> one record with \<^verbatim>\<open>dx = 65518\<close>, which is
  \<^verbatim>\<open>MulDiv(3839, 65535, 3840)\<close>.
\<close>

theorem C4_windows_normalization:
  assumes "calloc_ok env" and "ev_type event = EVENT_MOUSE_MOVED"
    and "SM_CXVIRTUALSCREEN env = 3840"
    and "fst (fst (get_largest_negative_coordinates (monitors env) (ws_monitor st))) = - 1920"
  shows "(sint (m_x (data_mouse event)) = - 1920 \<longrightarrow>
            sent_dx (snd (win_hook_post_event env event st)) = sent_dx st @ [[0]])
       \<and> (sint (m_x (data_mouse event)) = 1919 \<longrightarrow>
            sent_dx (snd (win_hook_post_event env event st)) = sent_dx st @ [[65518]])"
proof -
  obtain nc mst where nc: "normalize_coordinates env (sint (m_x (data_mouse event)))
      (sint (m_y (data_mouse event))) (ws_monitor st) = (nc, mst)"
    by (cases "normalize_coordinates env (sint (m_x (data_mouse event)))
      (sint (m_y (data_mouse event))) (ws_monitor st)")
  have dx: "fst nc = MulDiv (sint (m_x (data_mouse event)) + 1920) 65535 3840"
    using normalize_coordinates_x [OF assms(3,4), of "sint (m_x (data_mouse event))"
        "sint (m_y (data_mouse event))"] nc by simp
  have sent: "sent_dx (snd (win_hook_post_event env event st)) = sent_dx st @ [[fst nc]]"
    using assms(1,2) nc by (rule win_post_move)
  show ?thesis
    unfolding sent dx by (simp add: MulDiv_def)
qed

text \<open>The two moves on the two-monitor desktop.\<close>

theorem C4_windows_normalization_witness:
  "sent_dx (snd (win_hook_post_event two_monitor_env (mouse_event EVENT_MOUSE_MOVED 0 (- 1920) 0)
      win_initial_state)) = [[0]]
   \<and> sent_dx (snd (win_hook_post_event two_monitor_env (mouse_event EVENT_MOUSE_MOVED 0 1919 0)
      win_initial_state)) = [[65518]]"
  using C4_windows_normalization [of two_monitor_env "mouse_event EVENT_MOUSE_MOVED 0 (- 1920) 0" win_initial_state]
    C4_windows_normalization [of two_monitor_env "mouse_event EVENT_MOUSE_MOVED 0 1919 0" win_initial_state]
  by (simp add: two_monitor_env_def mouse_event_def blank_event_def win_initial_state_def
      get_largest_negative_coordinates_def enumerate_displays_def enum_monitor_proc_def sent_dx_def)

text \<open>
  C4 as stated fails: the move to \<open>x = 1919\<close> on that desktop is not injected with
  \<^verbatim>\<open>dx = 65535\<close>.
\<close>

theorem C4_counterexample:
  "sent_dx (snd (win_hook_post_event two_monitor_env (mouse_event EVENT_MOUSE_MOVED 0 1919 0)
      win_initial_state)) \<noteq> [[65535]]"
  by (simp add: two_monitor_env_def mouse_event_def blank_event_def win_initial_state_def
      get_largest_negative_coordinates_def enumerate_displays_def enum_monitor_proc_def sent_dx_def
      win_hook_post_event_def win_hook_post_event_body_def map_mouse_event_def
      normalize_coordinates_def get_absolute_coordinate_def MulDiv_def zero_INPUT_def Let_def)

subsection \<open>The key code range that \<^verbatim>\<open>load_key_mappings\<close> walks\<close>

lemma x11_rows_rfkill: "list_ex (\<lambda>r. r = (VC_RFKILL, ''I255'')) x11_table_rows"
  unfolding x11_table_rows_def
  by (simp add: word16_numeral_eq del: word_eq_numeral_iff_iszero cong: list_ex_keep)

lemma x11_vcode_scan_all_zero:
  "\<forall>row \<in> set tbl. x11_key_code row = 0 \<Longrightarrow> x11_vcode_scan tbl v 0 = 0"
  by (induction tbl) auto

lemma x11_table_codes_zero: "\<forall>row \<in> set x11_vcode_keycode_table. x11_key_code row = 0"
  unfolding x11_vcode_keycode_table_def by (simp add: initial_key_mapping_def)

text \<open>
  C5 fails on the code.  The key code range of the keyboard is 8 to 255 and key code 255
  has the name \<^verbatim>\<open>I255\<close>, which is the key name of the table's row
  \<^verbatim>\<open>{ VC_RFKILL, "I255" }\<close>.  \<^verbatim>\<open>load_key_mappings\<close> stops before \<^verbatim>\<open>max_key_code\<close>: it sets the flag
  and leaves the whole table as it was, so the row is not populated and
  \<^verbatim>\<open>vcode_to_keycode(VC_RFKILL)\<close> is 0.
\<close>

theorem C5_max_key_code_not_loaded:
  "xkb_key_name last_key_xkb (max_key_code last_key_xkb) = ''I255''
   \<and> initial_key_mapping (VC_RFKILL, ''I255'') \<in> set x11_vcode_keycode_table
   \<and> load_key_mappings last_key_env x11_initial_state =
       x11_initial_state\<lparr>key_mappings_loaded := True\<rparr>
   \<and> x11_vcode_to_keycode
         (vcode_keycode_table (load_key_mappings last_key_env x11_initial_state)) VC_RFKILL = 0"
proof -
  have names: "\<forall>k. 8 \<le> k \<and> k < max_key_code last_key_xkb \<longrightarrow>
      (\<forall>row \<in> set x11_vcode_keycode_table.
         \<not> strncmp_eq (x11_key_name row) (xkb_key_name last_key_xkb k) XkbKeyNameLength)"
    using x11_table_names_not_empty by (auto simp: last_key_xkb_def strncmp_eq_def)
  have load: "load_key_codes last_key_xkb 8 x11_vcode_keycode_table = x11_vcode_keycode_table"
    using names by (rule load_key_codes_no_match)
  have st: "load_key_mappings last_key_env x11_initial_state =
      x11_initial_state\<lparr>key_mappings_loaded := True\<rparr>"
    using load
    by (simp add: load_key_mappings_def last_key_env_def x11_initial_state_def last_key_xkb_def)
  have tbl: "vcode_keycode_table (load_key_mappings last_key_env x11_initial_state) =
      x11_vcode_keycode_table"
    unfolding st by (simp add: x11_initial_state_def)
  have zero: "x11_vcode_to_keycode
      (vcode_keycode_table (load_key_mappings last_key_env x11_initial_state)) VC_RFKILL = 0"
    unfolding tbl x11_vcode_to_keycode_def
    using x11_table_codes_zero by (rule x11_vcode_scan_all_zero)
  have name: "xkb_key_name last_key_xkb (max_key_code last_key_xkb) = ''I255''"
    by (simp add: last_key_xkb_def)
  have row: "initial_key_mapping (VC_RFKILL, ''I255'') \<in> set x11_vcode_keycode_table"
    using x11_rows_rfkill unfolding x11_vcode_keycode_table_def list_ex_iff by auto
  from name row st zero show ?thesis by simp
qed

theorem C5_max_key_code_not_loaded_witness:
  "x11_vcode_to_keycode
     (vcode_keycode_table (load_key_mappings last_key_env x11_initial_state)) VC_RFKILL = 0"
  by (rule C5_max_key_code_not_loaded [THEN conjunct2, THEN conjunct2, THEN conjunct2])

subsection \<open>Enter and keypad Enter on Windows\<close>

text \<open>
  C6.  On Windows the native-to-VC translation of \<^verbatim>\<open>VK_RETURN\<close> is \<^verbatim>\<open>VC_KP_ENTER\<close> when the
  extended-key flag is set in the flags and \<^verbatim>\<open>VC_ENTER\<close> when it is not.  The first-match scan
  of the table gives \<^verbatim>\<open>VC_ENTER\<close> for \<^verbatim>\<open>VK_RETURN\<close>, and the flag is looked at after the scan, on
  its result.
\<close>

theorem C6_enter_extended_flag:
  "win_keycode_to_vcode VK_RETURN flags =
     (if flags AND KEYEVENTF_EXTENDEDKEY \<noteq> 0 then VC_KP_ENTER else VC_ENTER)
   \<and> win_keycode_scan win_vcode_keycode_table VK_RETURN VC_UNDEFINED = VC_ENTER
   \<and> win_keycode_to_vcode vk_code flags =
       (let vcode = win_keycode_scan win_vcode_keycode_table vk_code VC_UNDEFINED
        in if vcode = VC_ENTER \<and> flags AND KEYEVENTF_EXTENDEDKEY \<noteq> 0 then VC_KP_ENTER else vcode)"
proof -
  have scan: "win_keycode_scan win_vcode_keycode_table VK_RETURN VC_UNDEFINED = VC_ENTER"
    unfolding win_vcode_keycode_table_def
    by (simp add: word32_numeral_eq ucast_16_32_numeral
        del: word_eq_numeral_iff_iszero unsigned_numeral cong: win_keycode_scan_cong)
  show ?thesis
    by (simp add: win_keycode_to_vcode_def scan)
qed

text \<open>The flags 0 and \<^verbatim>\<open>LLKHF_EXTENDED\<close> (bit 0).\<close>

theorem C6_enter_extended_flag_witness:
  "win_keycode_to_vcode VK_RETURN 0 = VC_ENTER \<and> win_keycode_to_vcode VK_RETURN 1 = VC_KP_ENTER"
  using C6_enter_extended_flag [of 0 0] C6_enter_extended_flag [of 1 0] by simp

subsection \<open>Key events without a native code\<close>

lemma win_unmapped_key:
  assumes "is_key_event event"
    and "win_vcode_to_keycode (kb_keycode (data_keyboard event)) = 0"
  shows "win_hook_post_event env event st =
           (if calloc_ok env then UIOHOOK_FAILURE else UIOHOOK_ERROR_OUT_OF_MEMORY, st)"
proof -
  have "fst (map_keyboard_event env event zero_INPUT) = UIOHOOK_FAILURE"
    using assms by (auto simp: map_keyboard_event_def is_key_event_def Let_def)
  then obtain i where "map_keyboard_event env event zero_INPUT = (UIOHOOK_FAILURE, i)"
    by (cases "map_keyboard_event env event zero_INPUT") simp
  then show ?thesis
    using assms(1)
    by (auto simp: win_hook_post_event_def win_hook_post_event_body_def is_key_event_def Let_def)
qed

lemma darwin_unmapped_key:
  assumes "is_key_event event"
    and "darwin_vcode_to_keycode (kb_keycode (data_keyboard event)) = kVK_Undefined"
  shows "fst (darwin_post_key_event env event st) = UIOHOOK_FAILURE
       \<and> cg_posted (snd (darwin_post_key_event env event st)) = cg_posted st"
  using assms
  by (simp add: darwin_post_key_event_def is_key_event_def Let_def split: option.split)

lemma darwin_unmapped_key_post:
  assumes "is_key_event event"
    and "darwin_vcode_to_keycode (kb_keycode (data_keyboard event)) = kVK_Undefined"
  shows "fst (darwin_hook_post_event env event st) \<noteq> UIOHOOK_SUCCESS
       \<and> cg_posted (snd (darwin_hook_post_event env event st)) = cg_posted st"
proof (cases "CGEventSourceCreate_ok env")
  case True
  then have "darwin_hook_post_event env event st = darwin_post_key_event env event st"
    using assms(1) by (auto simp: darwin_hook_post_event_def is_key_event_def)
  with darwin_unmapped_key [OF assms, of env st] show ?thesis by simp
next
  case False
  then show ?thesis by (simp add: darwin_hook_post_event_def)
qed

lemma x11_unmapped_key:
  assumes "is_key_event event"
    and "x11_vcode_to_keycode (vcode_keycode_table (load_key_mappings env st))
           (kb_keycode (data_keyboard event)) = 0"
  shows "x11_hook_post_event env event st =
           (if helper_disp st then (UIOHOOK_FAILURE, load_key_mappings env st)
            else (UIOHOOK_ERROR_X_OPEN_DISPLAY, st))"
  using assms
  by (auto simp: x11_hook_post_event_def x11_post_key_event_def is_key_event_def Let_def)

lemma win_undefined_unmapped: "win_vcode_to_keycode VC_UNDEFINED = 0"
  by (simp add: win_vcode_to_keycode_def win_vcode_scan_miss [OF win_table_no_undefined])

lemma darwin_undefined_unmapped: "darwin_vcode_to_keycode VC_UNDEFINED = kVK_Undefined"
  by (simp add: darwin_vcode_to_keycode_def darwin_vcode_scan_miss [OF darwin_table_no_undefined])

lemma x11_undefined_unmapped:
  assumes "map km_vcode tbl = map km_vcode x11_vcode_keycode_table"
  shows "x11_vcode_to_keycode tbl VC_UNDEFINED = 0"
proof -
  have "VC_UNDEFINED \<notin> set (map km_vcode tbl)"
    using x11_table_no_undefined assms by simp
  then show ?thesis
    by (simp add: x11_vcode_to_keycode_def x11_vcode_scan_miss)
qed

text \<open>
  C7.  A key press or release whose virtual code has no native code is not injected by
  \<^verbatim>\<open>hook_post_event\<close>, and the call returns a status other than \<^verbatim>\<open>UIOHOOK_SUCCESS\<close>, on
  Windows, macOS and X11.  "No native code" is the sentinel of the platform's
  \<^verbatim>\<open>vcode_to_keycode\<close>: 0 on Windows and X11 (on X11 for the table as \<^verbatim>\<open>post_key_event\<close> has
  loaded it), \<^verbatim>\<open>kVK_Undefined\<close> on macOS.  \<^verbatim>\<open>VC_UNDEFINED\<close> is such a code on each platform;
  on X11 for every table that has the virtual codes of the source's table.
\<close>

theorem C7_unmapped_key_not_posted:
  assumes "is_key_event event"
  shows "(win_vcode_to_keycode (kb_keycode (data_keyboard event)) = 0 \<longrightarrow>
            fst (win_hook_post_event wenv event wst) \<noteq> UIOHOOK_SUCCESS
            \<and> ws_sent (snd (win_hook_post_event wenv event wst)) = ws_sent wst)
       \<and> (darwin_vcode_to_keycode (kb_keycode (data_keyboard event)) = kVK_Undefined \<longrightarrow>
            fst (darwin_hook_post_event denv event dst) \<noteq> UIOHOOK_SUCCESS
            \<and> cg_posted (snd (darwin_hook_post_event denv event dst)) = cg_posted dst)
       \<and> (x11_vcode_to_keycode (vcode_keycode_table (load_key_mappings xenv xst))
             (kb_keycode (data_keyboard event)) = 0 \<longrightarrow>
            fst (x11_hook_post_event xenv event xst) \<noteq> UIOHOOK_SUCCESS
            \<and> x11_faked (snd (x11_hook_post_event xenv event xst)) = x11_faked xst)
       \<and> (kb_keycode (data_keyboard event) = VC_UNDEFINED \<longrightarrow>
            win_vcode_to_keycode (kb_keycode (data_keyboard event)) = 0
            \<and> darwin_vcode_to_keycode (kb_keycode (data_keyboard event)) = kVK_Undefined
            \<and> (map km_vcode (vcode_keycode_table xst) = map km_vcode x11_vcode_keycode_table \<longrightarrow>
                 x11_vcode_to_keycode (vcode_keycode_table (load_key_mappings xenv xst))
                   (kb_keycode (data_keyboard event)) = 0))"
proof (intro conjI impI)
  assume "win_vcode_to_keycode (kb_keycode (data_keyboard event)) = 0"
  from win_unmapped_key [OF assms this, of wenv wst]
  show "fst (win_hook_post_event wenv event wst) \<noteq> UIOHOOK_SUCCESS"
    and "ws_sent (snd (win_hook_post_event wenv event wst)) = ws_sent wst"
    by simp_all
next
  assume "darwin_vcode_to_keycode (kb_keycode (data_keyboard event)) = kVK_Undefined"
  from darwin_unmapped_key_post [OF assms this, of denv dst]
  show "fst (darwin_hook_post_event denv event dst) \<noteq> UIOHOOK_SUCCESS"
    and "cg_posted (snd (darwin_hook_post_event denv event dst)) = cg_posted dst"
    by simp_all
next
  assume "x11_vcode_to_keycode (vcode_keycode_table (load_key_mappings xenv xst))
            (kb_keycode (data_keyboard event)) = 0"
  from x11_unmapped_key [OF assms this]
  show "fst (x11_hook_post_event xenv event xst) \<noteq> UIOHOOK_SUCCESS"
    and "x11_faked (snd (x11_hook_post_event xenv event xst)) = x11_faked xst"
    by simp_all
next
  assume "kb_keycode (data_keyboard event) = VC_UNDEFINED"
  then show "win_vcode_to_keycode (kb_keycode (data_keyboard event)) = 0"
    and "darwin_vcode_to_keycode (kb_keycode (data_keyboard event)) = kVK_Undefined"
    by (simp_all add: win_undefined_unmapped darwin_undefined_unmapped)
next
  assume "kb_keycode (data_keyboard event) = VC_UNDEFINED"
    and "map km_vcode (vcode_keycode_table xst) = map km_vcode x11_vcode_keycode_table"
  then show "x11_vcode_to_keycode (vcode_keycode_table (load_key_mappings xenv xst))
               (kb_keycode (data_keyboard event)) = 0"
    by (simp add: x11_undefined_unmapped)
qed

text \<open>A press of \<^verbatim>\<open>VC_UNDEFINED\<close>, posted on each platform with every system call succeeding.\<close>

theorem C7_unmapped_key_not_posted_witness:
  "fst (win_hook_post_event two_monitor_env (key_event EVENT_KEY_PRESSED VC_UNDEFINED)
          win_initial_state) \<noteq> UIOHOOK_SUCCESS
   \<and> ws_sent (snd (win_hook_post_event two_monitor_env (key_event EVENT_KEY_PRESSED VC_UNDEFINED)
          win_initial_state)) = []
   \<and> fst (darwin_hook_post_event darwin_env_ok (key_event EVENT_KEY_PRESSED VC_UNDEFINED)
          darwin_initial_state) \<noteq> UIOHOOK_SUCCESS
   \<and> cg_posted (snd (darwin_hook_post_event darwin_env_ok (key_event EVENT_KEY_PRESSED VC_UNDEFINED)
          darwin_initial_state)) = []
   \<and> fst (x11_hook_post_event last_key_env (key_event EVENT_KEY_PRESSED VC_UNDEFINED)
          x11_initial_state) \<noteq> UIOHOOK_SUCCESS
   \<and> x11_faked (snd (x11_hook_post_event last_key_env (key_event EVENT_KEY_PRESSED VC_UNDEFINED)
          x11_initial_state)) = []"
  using C7_unmapped_key_not_posted [of "key_event EVENT_KEY_PRESSED VC_UNDEFINED"
      two_monitor_env win_initial_state darwin_env_ok darwin_initial_state
      last_key_env x11_initial_state]
  by (simp add: is_key_event_def key_event_def blank_event_def win_initial_state_def
      darwin_initial_state_def x11_initial_state_def)

subsection \<open>The non-character codes of the macOS resolver\<close>

lemma tis_message_single_unit:
  assumes "tis_event tis \<noteq> None"
    and "os_lookup (tis\<lparr>tis_length := 0\<rparr>) = (1, buf)"
  shows "tis_message_to_unicode os_lookup (Some tis) =
           Some (tis\<lparr>tis_buffer := buf,
                      tis_length := (if buf 0 \<in> {0x01, 0x04, 0x05, 0x0B, 0x0C, 0x10, 0x1F} then 0 else 1)\<rparr>)"
  using assms by (auto simp: tis_message_to_unicode_def Let_def)

lemma event_to_unicode_single_unit:
  assumes "tis_event tis \<noteq> None"
    and "os_lookup (tis\<lparr>tis_length := 0\<rparr>) = (1, buf)"
  shows "event_to_unicode os_lookup on_main_runloop dispatch_sync_f_loaded
           (tis_event tis) (tis_buffer tis) (tis_size tis) =
         (if on_main_runloop \<or> dispatch_sync_f_loaded
          then (if buf 0 \<in> {0x01, 0x04, 0x05, 0x0B, 0x0C, 0x10, 0x1F} then 0 else 1, buf)
          else (0, tis_buffer tis))"
proof -
  let ?msg = "\<lparr>tis_event = tis_event tis, tis_buffer = tis_buffer tis, tis_size = tis_size tis,
                tis_length = 0\<rparr>"
  have msg: "?msg\<lparr>tis_length := 0\<rparr> = tis\<lparr>tis_length := 0\<rparr>"
    by simp
  have "os_lookup (?msg\<lparr>tis_length := 0\<rparr>) = (1, buf)"
    using assms(2) by (simp only: msg)
  then have run: "tis_message_to_unicode os_lookup (Some ?msg) =
           Some (?msg\<lparr>tis_buffer := buf,
                      tis_length := (if buf 0 \<in> {0x01, 0x04, 0x05, 0x0B, 0x0C, 0x10, 0x1F} then 0 else 1)\<rparr>)"
    using assms(1) tis_message_single_unit [of ?msg os_lookup buf] by simp
  show ?thesis
    unfolding event_to_unicode_def Let_def run by simp
qed

text \<open>
  C8.  On macOS, when the lookup of the operating system leaves exactly one UTF-16 unit and
  that unit is one of 0x01, 0x04, 0x05, 0x0B, 0x0C, 0x10 and 0x1F, \<^verbatim>\<open>tis_message_to_unicode\<close>
  leaves the length 0 in the message; for any other single unit the length stays 1 and the
  buffer holds the unit as the lookup left it.  \<^verbatim>\<open>event_to_unicode\<close> returns that length and
  buffer whenever it runs the lookup (on the main run loop, or through \<^verbatim>\<open>dispatch_sync_f\<close>);
  where it does not run it, nothing is resolved and it returns 0 with the buffer as it
  was.  So the key press is followed by no \<^verbatim>\<open>KEY_TYPED\<close> event for a non-character code (and
  where the lookup is not run), and by exactly one \<^verbatim>\<open>KEY_TYPED\<close> event, carrying the unit
  unchanged, for any other single unit.
\<close>

theorem C8_non_character_codes_dropped:
  assumes "tis_event tis \<noteq> None"
    and "os_lookup (tis\<lparr>tis_length := 0\<rparr>) = (1, buf)"
  shows "tis_message_to_unicode os_lookup (Some tis) =
           Some (tis\<lparr>tis_buffer := buf,
                      tis_length := (if buf 0 \<in> {0x01, 0x04, 0x05, 0x0B, 0x0C, 0x10, 0x1F} then 0 else 1)\<rparr>)
         \<and> event_to_unicode os_lookup on_main_runloop dispatch_sync_f_loaded
               (tis_event tis) (tis_buffer tis) (tis_size tis) =
             (if on_main_runloop \<or> dispatch_sync_f_loaded
              then (if buf 0 \<in> {0x01, 0x04, 0x05, 0x0B, 0x0C, 0x10, 0x1F} then 0 else 1, buf)
              else (0, tis_buffer tis))
         \<and> key_typed_events os_lookup on_main_runloop dispatch_sync_f_loaded
               (tis_event tis) (tis_buffer tis) (tis_size tis) pressed =
             (if (on_main_runloop \<or> dispatch_sync_f_loaded)
                 \<and> buf 0 \<notin> {0x01, 0x04, 0x05, 0x0B, 0x0C, 0x10, 0x1F}
              then [pressed\<lparr>ev_type := EVENT_KEY_TYPED,
                            data_keyboard := (data_keyboard pressed)\<lparr>kb_keychar := ucast (buf 0)\<rparr>\<rparr>]
              else [])"
proof -
  note a = tis_message_single_unit [of tis os_lookup buf, OF assms]
  note b = event_to_unicode_single_unit [of tis os_lookup buf on_main_runloop dispatch_sync_f_loaded,
      OF assms]
  have c: "key_typed_events os_lookup on_main_runloop dispatch_sync_f_loaded
               (tis_event tis) (tis_buffer tis) (tis_size tis) pressed =
             (if (on_main_runloop \<or> dispatch_sync_f_loaded)
                 \<and> buf 0 \<notin> {0x01, 0x04, 0x05, 0x0B, 0x0C, 0x10, 0x1F}
              then [pressed\<lparr>ev_type := EVENT_KEY_TYPED,
                            data_keyboard := (data_keyboard pressed)\<lparr>kb_keychar := ucast (buf 0)\<rparr>\<rparr>]
              else [])"
    unfolding key_typed_events_def b by simp
  from a b c show ?thesis by blast
qed

text \<open>
  A press of \<^verbatim>\<open>VC_A\<close> on the main run loop: a lookup that leaves the function-key code 0x10
  is followed by no \<^verbatim>\<open>KEY_TYPED\<close> event, and a lookup that leaves the letter \<^verbatim>\<open>a\<close> by one
  \<^verbatim>\<open>KEY_TYPED\<close> event with that letter.  Off the main run loop and without \<^verbatim>\<open>dispatch_sync_f\<close>
  the letter is not looked up.
\<close>

theorem C8_non_character_codes_dropped_witness:
  "fst (event_to_unicode (\<lambda>m. (1, (tis_buffer m)(0 := 0x10))) True False (Some 0) (\<lambda>i. 0) 4) = 0
   \<and> key_typed_events (\<lambda>m. (1, (tis_buffer m)(0 := 0x10))) True False (Some 0) (\<lambda>i. 0) 4
        (key_event EVENT_KEY_PRESSED VC_A) = []
   \<and> fst (event_to_unicode (\<lambda>m. (1, (tis_buffer m)(0 := 0x61))) True False (Some 0) (\<lambda>i. 0) 4) = 1
   \<and> snd (event_to_unicode (\<lambda>m. (1, (tis_buffer m)(0 := 0x61))) True False (Some 0) (\<lambda>i. 0) 4) 0 = 0x61
   \<and> map (\<lambda>e. (ev_type e, kb_keycode (data_keyboard e), kb_keychar (data_keyboard e)))
        (key_typed_events (\<lambda>m. (1, (tis_buffer m)(0 := 0x61))) True False (Some 0) (\<lambda>i. 0) 4
           (key_event EVENT_KEY_PRESSED VC_A)) = [(EVENT_KEY_TYPED, VC_A, 0x61)]
   \<and> key_typed_events (\<lambda>m. (1, (tis_buffer m)(0 := 0x61))) False False (Some 0) (\<lambda>i. 0) 4
        (key_event EVENT_KEY_PRESSED VC_A) = []"
  using C8_non_character_codes_dropped
          [of "\<lparr>tis_event = Some 0, tis_buffer = (\<lambda>i. 0), tis_size = 4, tis_length = 0\<rparr>"
              "\<lambda>m. (1, (tis_buffer m)(0 := 0x10))" "(\<lambda>i. 0)(0 := 0x10)" True False
              "key_event EVENT_KEY_PRESSED VC_A"]
        C8_non_character_codes_dropped
          [of "\<lparr>tis_event = Some 0, tis_buffer = (\<lambda>i. 0), tis_size = 4, tis_length = 0\<rparr>"
              "\<lambda>m. (1, (tis_buffer m)(0 := 0x61))" "(\<lambda>i. 0)(0 := 0x61)" True False
              "key_event EVENT_KEY_PRESSED VC_A"]
        C8_non_character_codes_dropped
          [of "\<lparr>tis_event = Some 0, tis_buffer = (\<lambda>i. 0), tis_size = 4, tis_length = 0\<rparr>"
              "\<lambda>m. (1, (tis_buffer m)(0 := 0x61))" "(\<lambda>i. 0)(0 := 0x61)" False False
              "key_event EVENT_KEY_PRESSED VC_A"]
  by (simp add: key_event_def blank_event_def)

subsection \<open>UTF-16 units of the X11 string lookup\<close>

text \<open>
  C9.  On X11 \<^verbatim>\<open>x_key_event_lookup\<close> turns the bytes of the lookup (1 to 4 of them) into UTF-16,
  given an output array: a decoded code point of at most 0xFFFF gives the count 1 and the code
  point as the one unit, when the array has room for one unit; a code point above 0xFFFF gives
  the count 2, the lead unit \<open>0xD7C0 + (codepoint >> 10)\<close> and the trail unit
  \<open>0xDC00 + (codepoint & 0x3FF)\<close>, when the array has room for two.
\<close>

theorem C9_utf16_units:
  assumes "0 < count" and "count \<le> 4" and "\<not> surrogate_null"
  shows "(utf8_codepoint count buffer \<le> 0xFFFF \<and> 1 \<le> len \<longrightarrow>
            x_key_event_lookup count buffer surrogate_null len =
              Some (1, [utf8_codepoint count buffer]))
       \<and> (0xFFFF < utf8_codepoint count buffer \<and> 2 \<le> len \<longrightarrow>
            x_key_event_lookup count buffer surrogate_null len =
              Some (2, [0xD7C0 + drop_bit 10 (utf8_codepoint count buffer),
                        0xDC00 + (utf8_codepoint count buffer AND 0x3FF)]))"
  using assms by (auto simp: x_key_event_lookup_def Let_def)

text \<open>
  The letter \<^verbatim>\<open>a\<close> (one byte) and U+1F600 (the four bytes F0 9F 98 80, the pair D83D DE00).
\<close>

theorem C9_utf16_units_witness:
  "utf8_codepoint 1 (bytes_at [0x61]) = 0x61
   \<and> x_key_event_lookup 1 (bytes_at [0x61]) False 2 = Some (1, [0x61])
   \<and> utf8_codepoint 4 (bytes_at [0xF0, 0x9F, 0x98, 0x80]) = 0x1F600
   \<and> x_key_event_lookup 4 (bytes_at [0xF0, 0x9F, 0x98, 0x80]) False 2 = Some (2, [0xD83D, 0xDE00])"
proof -
  have a: "utf8_codepoint 1 (bytes_at [0x61]) = 0x61"
    by (simp add: utf8_codepoint_def utf8_bitmask_table_def bytes_at_def)
  have e: "utf8_codepoint 4 (bytes_at [0xF0, 0x9F, 0x98, 0x80]) = 0x1F600"
    by (simp add: utf8_codepoint_def utf8_bitmask_table_def bytes_at_def)
  show ?thesis
    using C9_utf16_units [of 1 False "bytes_at [0x61]" 2]
      C9_utf16_units [of 4 False "bytes_at [0xF0, 0x9F, 0x98, 0x80]" 2] a e
    by simp
qed

subsection \<open>The motion state of the macOS posting functions\<close>

text \<open>
  Key events and wheel events leave the motion state alone and add no mouse event to the
  posted events.
\<close>

lemma darwin_post_key_event_motion:
  "current_motion_event (snd (darwin_post_key_event e ev st)) = current_motion_event st
   \<and> current_motion_button (snd (darwin_post_key_event e ev st)) = current_motion_button st
   \<and> mouse_injections (snd (darwin_post_key_event e ev st)) = mouse_injections st"
  by (simp add: darwin_post_key_event_def mouse_injections_def Let_def split: option.split)

lemma darwin_post_mouse_wheel_event_motion:
  "current_motion_event (snd (darwin_post_mouse_wheel_event e ev st)) = current_motion_event st
   \<and> current_motion_button (snd (darwin_post_mouse_wheel_event e ev st)) = current_motion_button st
   \<and> mouse_injections (snd (darwin_post_mouse_wheel_event e ev st)) = mouse_injections st"
  by (simp add: darwin_post_mouse_wheel_event_def mouse_injections_def Let_def split: prod.split)

text \<open>
  A call of \<^verbatim>\<open>hook_post_event\<close> whose event is no mouse press and no mouse release keeps the
  motion state; it adds a mouse event to the posted events only when it is a motion call
  whose constructors succeed, and then the event of the motion state.
\<close>

lemma darwin_motion_call:
  assumes "is_motion_event (snd c)"
  shows "snd (darwin_hook_post_event (fst c) (snd c) st) =
           (if mouse_call_succeeds c
            then st\<lparr>cg_posted := cg_posted st @
                   [motion_injection (current_motion_event st) (current_motion_button st) c]\<rparr>
            else st)"
proof -
  from assms consider "ev_type (snd c) = EVENT_MOUSE_MOVED" | "ev_type (snd c) = EVENT_MOUSE_DRAGGED"
    | "ev_type (snd c) = EVENT_MOUSE_MOVED_RELATIVE_TO_CURSOR"
    unfolding is_motion_event_def by blast
  then show ?thesis
    by cases
      (simp_all add: darwin_hook_post_event_def darwin_post_mouse_event_def
        mouse_call_succeeds_def motion_injection_def Let_def)
qed

lemma darwin_other_call:
  assumes "\<not> is_button_event (snd c)"
  shows "current_motion_event (snd (darwin_hook_post_event (fst c) (snd c) st)) =
           current_motion_event st"
    and "current_motion_button (snd (darwin_hook_post_event (fst c) (snd c) st)) =
           current_motion_button st"
    and "mouse_injections (snd (darwin_hook_post_event (fst c) (snd c) st)) =
           mouse_injections st @
           (if posted_motion c
            then [motion_injection (current_motion_event st) (current_motion_button st) c]
            else [])"
proof -
  let ?st' = "snd (darwin_hook_post_event (fst c) (snd c) st)"
  have "current_motion_event ?st' = current_motion_event st
      \<and> current_motion_button ?st' = current_motion_button st
      \<and> mouse_injections ?st' = mouse_injections st @
           (if posted_motion c
            then [motion_injection (current_motion_event st) (current_motion_button st) c]
            else [])"
  proof (cases "is_motion_event (snd c)")
    case True
    show ?thesis
      unfolding darwin_motion_call [OF True]
      by (simp add: posted_motion_def True mouse_injections_def motion_injection_def Let_def)
  next
    case False
    then have not_posted: "\<not> posted_motion c"
      by (simp add: posted_motion_def)
    note key = darwin_post_key_event_motion [of "fst c" "snd c" st]
    note wheel = darwin_post_mouse_wheel_event_motion [of "fst c" "snd c" st]
    show ?thesis
    proof (cases "ev_type (snd c)")
      case EVENT_KEY_PRESSED
      with key not_posted show ?thesis by (simp add: darwin_hook_post_event_def)
    next
      case EVENT_KEY_RELEASED
      with key not_posted show ?thesis by (simp add: darwin_hook_post_event_def)
    next
      case EVENT_MOUSE_WHEEL
      with wheel not_posted show ?thesis by (simp add: darwin_hook_post_event_def)
    qed (use assms False not_posted in
          \<open>simp_all add: darwin_hook_post_event_def is_button_event_def is_motion_event_def\<close>)
  qed
  then show "current_motion_event ?st' = current_motion_event st"
    and "current_motion_button ?st' = current_motion_button st"
    and "mouse_injections ?st' = mouse_injections st @
           (if posted_motion c
            then [motion_injection (current_motion_event st) (current_motion_button st) c]
            else [])"
    by blast+
qed

lemma darwin_other_calls:
  assumes "\<forall>c \<in> set cs. \<not> is_button_event (snd c)"
  shows "current_motion_event (darwin_post_events cs st) = current_motion_event st
       \<and> current_motion_button (darwin_post_events cs st) = current_motion_button st
       \<and> mouse_injections (darwin_post_events cs st) =
           mouse_injections st @
           map (motion_injection (current_motion_event st) (current_motion_button st))
             (filter posted_motion cs)"
  using assms
proof (induction cs arbitrary: st)
  case Nil
  then show ?case by simp
next
  case (Cons c cs)
  then have c: "\<not> is_button_event (snd c)" and cs: "\<forall>c \<in> set cs. \<not> is_button_event (snd c)"
    by simp_all
  show ?case
    by (simp add: Cons.IH [OF cs] darwin_other_call [OF c])
qed

lemma darwin_button_call:
  assumes "ev_type p = EVENT_MOUSE_PRESSED \<or> ev_type p = EVENT_MOUSE_PRESSED_IGNORE_COORDS
         \<or> ev_type p = EVENT_MOUSE_RELEASED \<or> ev_type p = EVENT_MOUSE_RELEASED_IGNORE_COORDS"
    and "darwin_hook_post_event e p st = (UIOHOOK_SUCCESS, st')"
  shows "darwin_post_mouse_event e p st = (UIOHOOK_SUCCESS, st')"
  using assms by (auto simp: darwin_hook_post_event_def split: if_splits)

lemma darwin_no_button_fails:
  assumes "ev_type p = EVENT_MOUSE_PRESSED \<or> ev_type p = EVENT_MOUSE_PRESSED_IGNORE_COORDS
         \<or> ev_type p = EVENT_MOUSE_RELEASED \<or> ev_type p = EVENT_MOUSE_RELEASED_IGNORE_COORDS"
    and "m_button (data_mouse p) = MOUSE_NOBUTTON"
  shows "fst (darwin_post_mouse_event e p st) = UIOHOOK_FAILURE"
  using assms by (auto simp add: darwin_post_mouse_event_def Let_def)

lemma darwin_press_effect:
  assumes "ev_type p = EVENT_MOUSE_PRESSED \<or> ev_type p = EVENT_MOUSE_PRESSED_IGNORE_COORDS"
    and "m_button (data_mouse p) \<noteq> MOUSE_NOBUTTON"
  shows "current_motion_event (snd (darwin_post_mouse_event e p st)) =
           dragged_event_of (m_button (data_mouse p))
       \<and> current_motion_button (snd (darwin_post_mouse_event e p st)) =
           cg_button_of (m_button (data_mouse p))"
proof -
  consider "m_button (data_mouse p) = MOUSE_BUTTON1" | "m_button (data_mouse p) = MOUSE_BUTTON2"
    | "m_button (data_mouse p) \<noteq> MOUSE_BUTTON1" "m_button (data_mouse p) \<noteq> MOUSE_BUTTON2"
    by blast
  then show ?thesis
  proof cases
    case 1
    with assms(1) show ?thesis
      by (auto simp add: darwin_post_mouse_event_def dragged_event_of_def cg_button_of_def Let_def)
  next
    case 2
    with assms(1) show ?thesis
      by (auto simp add: darwin_post_mouse_event_def dragged_event_of_def cg_button_of_def Let_def)
  next
    case 3
    with assms show ?thesis
      by (auto simp add: darwin_post_mouse_event_def dragged_event_of_def cg_button_of_def Let_def)
  qed
qed

lemma darwin_release_effect:
  assumes "ev_type r = EVENT_MOUSE_RELEASED \<or> ev_type r = EVENT_MOUSE_RELEASED_IGNORE_COORDS"
    and "m_button (data_mouse r) \<noteq> MOUSE_NOBUTTON"
    and "current_motion_event st = dragged_event_of (m_button (data_mouse r))"
  shows "current_motion_event (snd (darwin_post_mouse_event e r st)) = kCGEventMouseMoved
       \<and> current_motion_button (snd (darwin_post_mouse_event e r st)) =
           cg_button_of (m_button (data_mouse r))"
proof -
  consider "m_button (data_mouse r) = MOUSE_BUTTON1" | "m_button (data_mouse r) = MOUSE_BUTTON2"
    | "m_button (data_mouse r) \<noteq> MOUSE_BUTTON1" "m_button (data_mouse r) \<noteq> MOUSE_BUTTON2"
    by blast
  then show ?thesis
  proof cases
    case 1
    with assms(1,3) show ?thesis
      by (auto simp add: darwin_post_mouse_event_def dragged_event_of_def cg_button_of_def Let_def)
  next
    case 2
    with assms(1,3) show ?thesis
      by (auto simp add: darwin_post_mouse_event_def dragged_event_of_def cg_button_of_def Let_def)
  next
    case 3
    with assms show ?thesis
      by (auto simp add: darwin_post_mouse_event_def dragged_event_of_def cg_button_of_def Let_def)
  qed
qed

lemma darwin_press_state:
  assumes press: "ev_type p = EVENT_MOUSE_PRESSED \<or> ev_type p = EVENT_MOUSE_PRESSED_IGNORE_COORDS"
    and posted: "darwin_hook_post_event e p st = (UIOHOOK_SUCCESS, st')"
  shows "current_motion_event st' = dragged_event_of (m_button (data_mouse p))
       \<and> current_motion_button st' = cg_button_of (m_button (data_mouse p))"
proof -
  have call: "darwin_post_mouse_event e p st = (UIOHOOK_SUCCESS, st')"
    using press posted by (intro darwin_button_call) auto
  have "m_button (data_mouse p) \<noteq> MOUSE_NOBUTTON"
  proof
    assume "m_button (data_mouse p) = MOUSE_NOBUTTON"
    with press have "fst (darwin_post_mouse_event e p st) = UIOHOOK_FAILURE"
      by (intro darwin_no_button_fails) auto
    with call show False by simp
  qed
  from darwin_press_effect [OF press this, of e st] call show ?thesis by simp
qed

lemma darwin_release_state:
  assumes release: "ev_type r = EVENT_MOUSE_RELEASED \<or> ev_type r = EVENT_MOUSE_RELEASED_IGNORE_COORDS"
    and state: "current_motion_event st = dragged_event_of (m_button (data_mouse r))"
    and posted: "darwin_hook_post_event e r st = (UIOHOOK_SUCCESS, st')"
  shows "current_motion_event st' = kCGEventMouseMoved
       \<and> current_motion_button st' = cg_button_of (m_button (data_mouse r))"
proof -
  have call: "darwin_post_mouse_event e r st = (UIOHOOK_SUCCESS, st')"
    using release posted by (intro darwin_button_call) auto
  have "m_button (data_mouse r) \<noteq> MOUSE_NOBUTTON"
  proof
    assume "m_button (data_mouse r) = MOUSE_NOBUTTON"
    with release have "fst (darwin_post_mouse_event e r st) = UIOHOOK_FAILURE"
      by (intro darwin_no_button_fails) auto
    with call show False by simp
  qed
  from darwin_release_effect [OF release this state, of e] call show ?thesis by simp
qed

text \<open>
  C10 (as amended).  On macOS \<^verbatim>\<open>hook_post_event\<close> keeps a motion state across calls.  After a
  mouse press of button \<open>b\<close> that returned \<^verbatim>\<open>UIOHOOK_SUCCESS\<close>, and for as long as no further
  mouse press or release event is handed to \<^verbatim>\<open>hook_post_event\<close>, every motion event
  (\<^verbatim>\<open>MOUSE_MOVED\<close>, \<^verbatim>\<open>MOUSE_DRAGGED\<close>, \<^verbatim>\<open>MOUSE_MOVED_RELATIVE_TO_CURSOR\<close>) that is posted is
  injected as the dragged event of \<open>b\<close> with the native button of \<open>b\<close>: the calls \<open>cs\<close>, of
  any events but mouse presses and releases, add to the mouse events posted so far exactly
  one such event for each motion call whose constructors succeed, in order.  After the
  release of the same button has then been posted with success, the motion calls among
  \<open>cs'\<close> are injected as \<^verbatim>\<open>kCGEventMouseMoved\<close> events, again until the next mouse press or
  release event.
\<close>

theorem C10_motion_classification:
  assumes press: "ev_type p = EVENT_MOUSE_PRESSED \<or> ev_type p = EVENT_MOUSE_PRESSED_IGNORE_COORDS"
    and pressed: "darwin_hook_post_event e0 p s0 = (UIOHOOK_SUCCESS, s1)"
    and between: "\<forall>c \<in> set cs. \<not> is_button_event (snd c)"
    and release: "ev_type r = EVENT_MOUSE_RELEASED \<or> ev_type r = EVENT_MOUSE_RELEASED_IGNORE_COORDS"
    and same: "m_button (data_mouse r) = m_button (data_mouse p)"
    and released: "darwin_hook_post_event e1 r (darwin_post_events cs s1) = (UIOHOOK_SUCCESS, s2)"
    and after: "\<forall>c \<in> set cs'. \<not> is_button_event (snd c)"
  shows "mouse_injections (darwin_post_events cs s1) =
           mouse_injections s1 @
           map (motion_injection (dragged_event_of (m_button (data_mouse p)))
                  (cg_button_of (m_button (data_mouse p))))
             (filter posted_motion cs)
       \<and> mouse_injections (darwin_post_events cs' s2) =
           mouse_injections s2 @
           map (motion_injection kCGEventMouseMoved (cg_button_of (m_button (data_mouse p))))
             (filter posted_motion cs')"
proof -
  note s1 = darwin_press_state [OF press pressed]
  note run = darwin_other_calls [OF between, of s1]
  have "current_motion_event (darwin_post_events cs s1) = dragged_event_of (m_button (data_mouse r))"
    using run s1 same by simp
  from darwin_release_state [OF release this released]
  have s2: "current_motion_event s2 = kCGEventMouseMoved"
    "current_motion_button s2 = cg_button_of (m_button (data_mouse p))"
    using same by simp_all
  note run' = darwin_other_calls [OF after, of s2]
  show ?thesis
    using run run' s1 s2 by simp
qed

text \<open>
  Button 1 is pressed at (10, 20); a wheel event is posted and the pointer is moved to
  (30, 40); the button is released at (30, 40); the pointer is moved to (50, 60).  The first
  move is posted as a left-button drag, the second as a plain move.
\<close>

theorem C10_motion_classification_witness:
  "mouse_injections (darwin_post_events
      [(darwin_env_ok, mouse_event EVENT_MOUSE_PRESSED MOUSE_BUTTON1 10 20),
       (darwin_env_ok, blank_event\<lparr>ev_type := EVENT_MOUSE_WHEEL\<rparr>),
       (darwin_env_ok, mouse_event EVENT_MOUSE_MOVED MOUSE_NOBUTTON 30 40),
       (darwin_env_ok, mouse_event EVENT_MOUSE_RELEASED MOUSE_BUTTON1 30 40),
       (darwin_env_ok, mouse_event EVENT_MOUSE_MOVED MOUSE_NOBUTTON 50 60)]
      darwin_initial_state) =
   [CG_mouse_event kCGEventLeftMouseDown (10, 20) kCGMouseButtonLeft None,
    CG_mouse_event kCGEventLeftMouseDragged (30, 40) kCGMouseButtonLeft None,
    CG_mouse_event kCGEventLeftMouseUp (30, 40) kCGMouseButtonLeft None,
    CG_mouse_event kCGEventMouseMoved (50, 60) kCGMouseButtonLeft None]"
proof -
  let ?p = "mouse_event EVENT_MOUSE_PRESSED MOUSE_BUTTON1 10 20"
  let ?w = "blank_event\<lparr>ev_type := EVENT_MOUSE_WHEEL\<rparr>"
  let ?m = "mouse_event EVENT_MOUSE_MOVED MOUSE_NOBUTTON 30 40"
  let ?r = "mouse_event EVENT_MOUSE_RELEASED MOUSE_BUTTON1 30 40"
  let ?m' = "mouse_event EVENT_MOUSE_MOVED MOUSE_NOBUTTON 50 60"
  let ?cs = "[(darwin_env_ok, ?w), (darwin_env_ok, ?m)]"
  let ?s1 = "darwin_initial_state\<lparr>current_motion_event := kCGEventLeftMouseDragged,
      cg_posted := [CG_mouse_event kCGEventLeftMouseDown (10, 20) kCGMouseButtonLeft None]\<rparr>"
  let ?s2 = "darwin_initial_state\<lparr>
      cg_posted := [CG_mouse_event kCGEventLeftMouseDown (10, 20) kCGMouseButtonLeft None,
        CG_scroll_event kCGScrollEventUnitPixel 0 0,
        CG_mouse_event kCGEventLeftMouseDragged (30, 40) kCGMouseButtonLeft None,
        CG_mouse_event kCGEventLeftMouseUp (30, 40) kCGMouseButtonLeft None]\<rparr>"
  have press: "darwin_hook_post_event darwin_env_ok ?p darwin_initial_state = (UIOHOOK_SUCCESS, ?s1)"
    by (simp add: darwin_hook_post_event_def darwin_post_mouse_event_def darwin_env_ok_def
        mouse_event_def blank_event_def darwin_initial_state_def Let_def)
  have mid: "darwin_post_events ?cs ?s1 =
      ?s1\<lparr>cg_posted := cg_posted ?s1 @
        [CG_scroll_event kCGScrollEventUnitPixel 0 0,
         CG_mouse_event kCGEventLeftMouseDragged (30, 40) kCGMouseButtonLeft None]\<rparr>"
    by (simp add: darwin_hook_post_event_def darwin_post_mouse_event_def
        darwin_post_mouse_wheel_event_def darwin_env_ok_def
        mouse_event_def blank_event_def darwin_initial_state_def Let_def)
  have release: "darwin_hook_post_event darwin_env_ok ?r (darwin_post_events ?cs ?s1) =
      (UIOHOOK_SUCCESS, ?s2)"
    unfolding mid
    by (simp add: darwin_hook_post_event_def darwin_post_mouse_event_def darwin_env_ok_def
        mouse_event_def blank_event_def darwin_initial_state_def Let_def)
  have run: "darwin_post_events
      [(darwin_env_ok, ?p), (darwin_env_ok, ?w), (darwin_env_ok, ?m), (darwin_env_ok, ?r),
       (darwin_env_ok, ?m')]
      darwin_initial_state = darwin_post_events [(darwin_env_ok, ?m')] ?s2"
    using press release by simp
  have "mouse_injections (darwin_post_events [(darwin_env_ok, ?m')] ?s2) =
      mouse_injections ?s2 @
      map (motion_injection kCGEventMouseMoved (cg_button_of (m_button (data_mouse ?p))))
        (filter posted_motion [(darwin_env_ok, ?m')])"
    using C10_motion_classification [of ?p darwin_env_ok darwin_initial_state ?s1
        ?cs ?r darwin_env_ok ?s2 "[(darwin_env_ok, ?m')]"]
      press release
    by (simp add: is_button_event_def mouse_event_def blank_event_def)
  then show ?thesis
    unfolding run
    by (simp add: motion_injection_def posted_motion_def is_motion_event_def
        mouse_call_succeeds_def cg_button_of_def darwin_env_ok_def mouse_injections_def
        mouse_event_def blank_event_def darwin_initial_state_def)
qed

text \<open>
  C10 as stated fails: after the press of button 1 has been posted, button 2 is pressed as
  well, and the move that follows is injected as \<^verbatim>\<open>kCGEventRightMouseDragged\<close> carrying the
  right button, not as the dragged event of button 1 carrying button 1.
\<close>

theorem C10_counterexample:
  "fst (darwin_hook_post_event darwin_env_ok
          (mouse_event EVENT_MOUSE_PRESSED MOUSE_BUTTON1 10 20) darwin_initial_state) =
     UIOHOOK_SUCCESS
   \<and> cg_posted (darwin_post_events
        [(darwin_env_ok, mouse_event EVENT_MOUSE_PRESSED MOUSE_BUTTON1 10 20),
         (darwin_env_ok, mouse_event EVENT_MOUSE_PRESSED MOUSE_BUTTON2 10 20),
         (darwin_env_ok, mouse_event EVENT_MOUSE_MOVED MOUSE_NOBUTTON 30 40)]
        darwin_initial_state) =
      [CG_mouse_event kCGEventLeftMouseDown (10, 20) kCGMouseButtonLeft None,
       CG_mouse_event kCGEventRightMouseDown (10, 20) kCGMouseButtonRight None,
       CG_mouse_event kCGEventRightMouseDragged (30, 40) kCGMouseButtonRight None]
   \<and> dragged_event_of MOUSE_BUTTON1 = kCGEventLeftMouseDragged
   \<and> cg_button_of MOUSE_BUTTON1 = kCGMouseButtonLeft
   \<and> kCGEventRightMouseDragged \<noteq> kCGEventLeftMouseDragged
   \<and> kCGMouseButtonRight \<noteq> kCGMouseButtonLeft"
  by (simp add: darwin_hook_post_event_def darwin_post_mouse_event_def darwin_env_ok_def
      mouse_event_def blank_event_def darwin_initial_state_def dragged_event_of_def
      cg_button_of_def Let_def)

end
